theory Spec2Isabelle
  imports Main "HOL-Library.Word" "HOL-Library.Signed_Division"
begin

unbundle bit_operations_syntax

section \<open>Machine types\<close>

type_synonym u8 = "8 word"
type_synonym u16 = "16 word"
type_synonym u32 = "32 word"
type_synonym u64 = "64 word"

section \<open>Error codes\<close>

text \<open>
  The codes named by \<^verbatim>\<open>rune_err_str\<close> in \<^verbatim>\<open>vm.c\<close>. A host callback may return any
  of them; \<open>RUNE_ERR_HOST\<close> is the \<^verbatim>\<open>HOST_ERROR\<close> of the closed enumeration.
\<close>

datatype rune_err =
    RUNE_OK
  | RUNE_ERR_BADMODULE
  | RUNE_ERR_BADMAGIC
  | RUNE_ERR_VERSION
  | RUNE_ERR_OOM
  | RUNE_ERR_BOUNDS
  | RUNE_ERR_DIVZERO
  | RUNE_ERR_TYPE
  | RUNE_ERR_NOEXPORT
  | RUNE_ERR_NOIMPORT
  | RUNE_ERR_STACKOVERFLOW
  | RUNE_ERR_TRAP
  | RUNE_ERR_FUEL
  | RUNE_ERR_BADOPCODE
  | RUNE_ERR_HOST

text \<open>
  What C leaves undefined is an outcome of its own in the model, never a value: an index
  outside an array, a copy past a buffer, and the signed quotient that does not fit.
\<close>

datatype undefined_behaviour =
    UB_FUNC_INDEX        \<comment> \<open>\<^verbatim>\<open>vm->mod->funcs[i]\<close> with \<open>i \<ge> func_count\<close>\<close>
  | UB_CODE_INDEX        \<comment> \<open>\<^verbatim>\<open>code[pc]\<close> with \<open>pc \<ge> code_words\<close>\<close>
  | UB_FRAME_INDEX       \<comment> \<open>\<^verbatim>\<open>vm->frames[i]\<close> outside the frame array\<close>
  | UB_GLOBAL_INDEX      \<comment> \<open>\<^verbatim>\<open>vm->globals[i]\<close> outside the copied globals\<close>
  | UB_ARG_INDEX         \<comment> \<open>\<^verbatim>\<open>vm->arg_buf[i]\<close> or \<^verbatim>\<open>args[i]\<close> with \<open>i \<ge> RUNE_MAX_PARAMS\<close>\<close>
  | UB_ARGV_INDEX        \<comment> \<open>\<^verbatim>\<open>argv[i]\<close> outside the caller's array\<close>
  | UB_MEMORY_RANGE      \<comment> \<open>a byte outside the allocated linear memory\<close>
  | UB_SIGNED_OVERFLOW   \<comment> \<open>\<^verbatim>\<open>INT_MIN / -1\<close> and \<^verbatim>\<open>INT_MIN % -1\<close>\<close>
  | UB_MODULE_INDEX      \<comment> \<open>an index outside a table of the module being parsed\<close>
  | UB_BOOL_VALUE        \<comment> \<open>\<^verbatim>\<open>as.b\<close> read from a byte that is neither 0 nor 1\<close>

section \<open>The bytecode header\<close>

text \<open>
  \<^verbatim>\<open>include/rune_bytecode.h\<close> is not among the sources. Its numberings (magic, version,
  limits, type tags, export kinds, section identifiers, opcodes) are taken as a parameter
  of the whole development: every definition below that depends on one of them takes the
  header \<open>h\<close>. Type tags, export kinds and section identifiers are read from one byte of
  the file (\<^verbatim>\<open>(rune_type_t)read_u8(r)\<close>), so they are bytes here.
\<close>

datatype i32_op =
    OP_ADD32 | OP_SUB32 | OP_MUL32 | OP_DIV32 | OP_DIVU32 | OP_REM32 | OP_REMU32
  | OP_NEG32 | OP_AND32 | OP_OR32 | OP_XOR32 | OP_SHL32 | OP_SHR32 | OP_SHRU32
  | OP_NOT32 | OP_CLZ32 | OP_CTZ32 | OP_POPCNT32

datatype i64_op =
    OP_ADD64 | OP_SUB64 | OP_MUL64 | OP_DIV64 | OP_DIVU64 | OP_REM64
  | OP_AND64 | OP_OR64 | OP_XOR64 | OP_SHL64 | OP_SHR64 | OP_NOT64 | OP_NEG64

datatype f32_op =
    OP_FADD32 | OP_FSUB32 | OP_FMUL32 | OP_FDIV32 | OP_FABS32 | OP_FNEG32
  | OP_FSQRT32 | OP_FMIN32 | OP_FMAX32 | OP_FFLOOR32 | OP_FCEIL32 | OP_FROUND32

datatype f64_op =
    OP_FADD64 | OP_FSUB64 | OP_FMUL64 | OP_FDIV64 | OP_FABS64 | OP_FNEG64
  | OP_FSQRT64 | OP_FMIN64 | OP_FMAX64 | OP_FFLOOR64 | OP_FCEIL64 | OP_FROUND64

datatype cmp_op =
    OP_EQ32 | OP_NE32 | OP_LT32 | OP_LE32 | OP_GT32 | OP_GE32 | OP_LTU32 | OP_LEU32
  | OP_EQ64 | OP_NE64 | OP_LT64 | OP_LE64

datatype fcmp_op = OP_FEQ32 | OP_FLT32 | OP_FEQ64 | OP_FLT64

datatype conv_op =
    OP_I32_TO_I64 | OP_I64_TO_I32 | OP_U32_TO_I64 | OP_BOOL_TO_I32

datatype fconv_op =
    OP_I32_TO_F32 | OP_I32_TO_F64 | OP_F32_TO_I32 | OP_F64_TO_I32
  | OP_F32_TO_F64 | OP_F64_TO_F32 | OP_I64_TO_F64 | OP_F64_TO_I64

datatype load_op =
    OP_LOAD8 | OP_LOAD8S | OP_LOAD16 | OP_LOAD16S | OP_LOAD32 | OP_LOAD64
  | OP_LOADF32 | OP_LOADF64

datatype store_op =
    OP_STORE8 | OP_STORE16 | OP_STORE32 | OP_STORE64 | OP_STOREF32 | OP_STOREF64

text \<open>
  The cases of the interpreter's \<^verbatim>\<open>switch\<close>, grouped as its section comments group
  them; \<open>OP_UNKNOWN\<close> is the \<^verbatim>\<open>default\<close> label.
\<close>

datatype rune_opcode =
    OP_NOP | OP_TRAP | OP_RET | OP_JMP | OP_JZ | OP_JNZ | OP_JLT | OP_JLE
  | OP_CALL | OP_CALL_HOST | OP_ARG
  | OP_LDI32 | OP_LDI64 | OP_LDF32 | OP_LDF64 | OP_LDTRUE | OP_LDFALSE
  | OP_LDGLOBAL | OP_STGLOBAL | OP_MOV
  | Int32 i32_op
  | Int64 i64_op
  | Float32 f32_op
  | Float64 f64_op
  | Compare cmp_op
  | FCompare fcmp_op
  | Convert conv_op
  | FConvert fconv_op
  | Load load_op
  | Store store_op
  | OP_MEM_SIZE | OP_MEM_GROW | OP_MEM_COPY | OP_MEM_FILL
  | OP_UNKNOWN

record rune_bytecode_h =
  RUNE_MAGIC :: "u8 list"
  RUNE_BC_VERSION :: u32
  RUNE_MAX_FUNCS :: u32
  RUNE_MAX_GLOBALS :: u32
  RUNE_TYPE_I32 :: u8
  RUNE_TYPE_I64 :: u8
  RUNE_TYPE_F32 :: u8
  RUNE_TYPE_F64 :: u8
  RUNE_TYPE_BOOL :: u8
  RUNE_TYPE_PTR :: u8
  RUNE_TYPE_VOID :: u8
  RUNE_EXPORT_FUNC :: u8
  RUNE_EXPORT_MEMORY :: u8
  RUNE_EXPORT_GLOBAL :: u8
  RUNE_SECT_TYPE :: u8
  RUNE_SECT_IMPORT :: u8
  RUNE_SECT_FUNC :: u8
  RUNE_SECT_MEMORY :: u8
  RUNE_SECT_GLOBAL :: u8
  RUNE_SECT_EXPORT :: u8
  RUNE_SECT_CODE :: u8
  RUNE_SECT_DATA :: u8
  opcode_of :: "u8 \<Rightarrow> rune_opcode"


section \<open>Constants fixed by the specification\<close>

text \<open>
  Modelled from the spec: the constants of \<^verbatim>\<open>include/rune_bytecode.h\<close>, which is not
  among the sources. The specification fixes them: a page is 65536 bytes, a type has at
  most 16 parameters and the staging buffer 16 slots, a register window has 256 slots,
  the default call depth is 512 and the file header is 20 bytes long.
\<close>

definition RUNE_PAGE_SIZE :: nat where "RUNE_PAGE_SIZE = 65536"
definition RUNE_MAX_PARAMS :: nat where "RUNE_MAX_PARAMS = 16"
definition RUNE_MAX_REGS :: nat where "RUNE_MAX_REGS = 256"
definition RUNE_CALL_DEPTH :: u32 where "RUNE_CALL_DEPTH = 512"
definition RUNE_HEADER_SIZE :: nat where "RUNE_HEADER_SIZE = 20"

section \<open>Values\<close>

text \<open>
  \<^verbatim>\<open>rune_val_t\<close> is a type tag and a union \<^verbatim>\<open>as\<close>. The interpreter reads the union
  member its opcode dictates, whatever the tag, so the union is kept as its eight bytes
  (little-endian, as the loader and the memory instructions assume): \<^verbatim>\<open>as.i32\<close> is the
  low half, \<^verbatim>\<open>as.b\<close> the low byte. Floating-point members are their bit patterns.
  A \<^verbatim>\<open>bool\<close> object holds 0 or 1: reading \<^verbatim>\<open>as.b\<close> from any other byte is not a defined
  read (\<open>None\<close>).

  Modelled from the spec: the constructors \<^verbatim>\<open>rune_i32\<close>, \<^verbatim>\<open>rune_i64\<close>, \<^verbatim>\<open>rune_f32\<close>,
  \<^verbatim>\<open>rune_f64\<close>, \<^verbatim>\<open>rune_bool\<close> and \<^verbatim>\<open>rune_void\<close> of the missing header build a Value with
  the tag of their name and the given member; the bytes of the union that the member does
  not cover are taken as zero.
\<close>

record rune_val =
  val_type :: u8
  val_bits :: u64

definition as_i32 :: "rune_val \<Rightarrow> u32" where "as_i32 v = ucast (val_bits v)"
definition as_i64 :: "rune_val \<Rightarrow> u64" where "as_i64 v = val_bits v"
definition as_b :: "rune_val \<Rightarrow> bool option" where
  "as_b v =
     (if (ucast (val_bits v) :: u8) = 0 then Some False
      else if (ucast (val_bits v) :: u8) = 1 then Some True
      else None)"

definition rune_i32 :: "rune_bytecode_h \<Rightarrow> u32 \<Rightarrow> rune_val" where
  "rune_i32 h x = \<lparr>val_type = RUNE_TYPE_I32 h, val_bits = ucast x\<rparr>"
definition rune_i64 :: "rune_bytecode_h \<Rightarrow> u64 \<Rightarrow> rune_val" where
  "rune_i64 h x = \<lparr>val_type = RUNE_TYPE_I64 h, val_bits = x\<rparr>"
definition rune_f32 :: "rune_bytecode_h \<Rightarrow> u32 \<Rightarrow> rune_val" where
  "rune_f32 h x = \<lparr>val_type = RUNE_TYPE_F32 h, val_bits = ucast x\<rparr>"
definition rune_f64 :: "rune_bytecode_h \<Rightarrow> u64 \<Rightarrow> rune_val" where
  "rune_f64 h x = \<lparr>val_type = RUNE_TYPE_F64 h, val_bits = x\<rparr>"
definition rune_bool :: "rune_bytecode_h \<Rightarrow> bool \<Rightarrow> rune_val" where
  "rune_bool h b = \<lparr>val_type = RUNE_TYPE_BOOL h, val_bits = (if b then 1 else 0)\<rparr>"
definition rune_void :: "rune_bytecode_h \<Rightarrow> rune_val" where
  "rune_void h = \<lparr>val_type = RUNE_TYPE_VOID h, val_bits = 0\<rparr>"

text \<open>A slot cleared by \<^verbatim>\<open>calloc\<close> or \<^verbatim>\<open>memset(.., 0, ..)\<close>: tag byte 0, union 0.\<close>

definition zero_val :: rune_val where
  "zero_val = \<lparr>val_type = 0, val_bits = 0\<rparr>"

section \<open>Module\<close>

text \<open>
  Arrays with their element count are lists (\<open>type_count = length (m_types m)\<close>,
  \<open>code_size = length (code f)\<close> and so on); a string is the list of the bytes copied
  into it, without the terminator that is appended.
\<close>

record rune_func_type =
  param_types :: "u8 list"
  return_types :: "u8 list"

record rune_import =
  imp_module :: "u8 list"
  imp_name :: "u8 list"
  imp_type_idx :: u16

record rune_func =
  type_idx :: u16
  reg_count :: u8
  local_count :: u8
  code :: "u8 list"
  is_import :: bool
  import_idx :: u32

record rune_global =
  g_type :: u8
  g_mutable :: bool
  g_value :: rune_val

record rune_export =
  exp_kind :: u8
  exp_idx :: u32
  exp_name :: "u8 list"

record rune_data_seg =
  seg_offset :: u32
  seg_data :: "u8 list"

record rune_module =
  m_types :: "rune_func_type list"
  m_imports :: "rune_import list"
  m_funcs :: "rune_func list"
  m_globals :: "rune_global list"
  m_exports :: "rune_export list"
  mem_initial_pages :: u16
  mem_max_pages :: u16
  has_memory :: bool
  m_data_segs :: "rune_data_seg list"
  init_func :: u32  \<comment> \<open>\<^verbatim>\<open>int32_t\<close>, \<open>-1\<close> if none\<close>

definition type_count :: "rune_module \<Rightarrow> nat" where "type_count m = length (m_types m)"
definition import_count :: "rune_module \<Rightarrow> nat" where "import_count m = length (m_imports m)"
definition func_count :: "rune_module \<Rightarrow> nat" where "func_count m = length (m_funcs m)"
definition global_count :: "rune_module \<Rightarrow> nat" where "global_count m = length (m_globals m)"
definition export_count :: "rune_module \<Rightarrow> nat" where "export_count m = length (m_exports m)"

section \<open>Virtual machine state\<close>

record rune_config =
  stack_size :: u32
  memory_limit :: nat
  fuel_limit :: u64

definition rune_config_default :: rune_config where
  "rune_config_default =
     \<lparr>stack_size = RUNE_CALL_DEPTH, memory_limit = 64 * 1024 * 1024, fuel_limit = 0\<rparr>"

text \<open>
  A callback is a function pointer and a user pointer; both are kept as addresses, and the
  behaviour of the callbacks is a parameter of the interpreter (\<open>host_env\<close> below).
\<close>

record rune_host_entry =
  he_module :: "u8 list"
  he_name :: "u8 list"
  he_fn :: nat
  he_userdata :: nat

text \<open>
  A frame's register window is a heap block of \<open>RUNE_MAX_REGS = 256\<close> Values, indexed by
  a byte (\<^verbatim>\<open>R(n) = frame->regs[(uint8_t)(n)]\<close>): \<open>regs_alloc\<close> says whether the pointer
  is non-null, \<open>regs\<close> is the block.
\<close>

record rune_frame =
  fr_func_idx :: u32
  fr_pc :: u32
  regs_alloc :: bool
  regs :: "u8 \<Rightarrow> rune_val"

text \<open>
  Linear memory is a block of \<open>mem_len\<close> bytes; \<open>memory vm = None\<close> is the null pointer.
\<close>

record rune_mem =
  mem_len :: nat
  mem_bytes :: "nat \<Rightarrow> u8"

record rune_vm =
  vm_mod :: rune_module
  cfg :: rune_config
  host_fns :: "rune_host_entry list"
  host_fn_cap :: u32
  memory :: "rune_mem option"
  memory_pages :: u32
  memory_max :: u32
  globals :: "rune_val list"
  frames :: "rune_frame list"
  frame_count :: u32
  arg_buf :: "rune_val list"
  arg_count :: u8
  fuel_used :: u64
  initialized :: bool


section \<open>Strings, words and bytes\<close>

text \<open>
  \<^verbatim>\<open>strcmp(a, b) == 0\<close>: the two strings agree up to their first zero byte. A name read
  from a module may hold a zero byte, where C's string ends.
\<close>

definition c_str :: "u8 list \<Rightarrow> u8 list" where
  "c_str s = takeWhile (\<lambda>c. c \<noteq> 0) s"

definition str_eq :: "u8 list \<Rightarrow> u8 list \<Rightarrow> bool" where
  "str_eq a b = (c_str a = c_str b)"

text \<open>The value of a byte sequence read as a little-endian number.\<close>

fun le_word :: "u8 list \<Rightarrow> u64" where
  "le_word [] = 0"
| "le_word (b # bs) = ucast b OR push_bit 8 (le_word bs)"

text \<open>The low \<open>n\<close> bytes of a union, lowest first.\<close>

definition le_bytes :: "nat \<Rightarrow> u64 \<Rightarrow> u8 list" where
  "le_bytes n w = map (\<lambda>i. ucast (drop_bit (8 * i) w)) [0..<n]"

definition INT32_MIN :: u32 where "INT32_MIN = 0x80000000"
definition INT64_MIN :: u64 where "INT64_MIN = 0x8000000000000000"

section \<open>Registers and program counter of a frame\<close>

text \<open>\<^verbatim>\<open>R(n)\<close> and \<^verbatim>\<open>PC\<close> of the frame \<^verbatim>\<open>&vm->frames[k]\<close>.\<close>

definition R :: "rune_vm \<Rightarrow> nat \<Rightarrow> u8 \<Rightarrow> rune_val" where
  "R vm k n = regs (frames vm ! k) n"

definition set_R :: "rune_vm \<Rightarrow> nat \<Rightarrow> u8 \<Rightarrow> rune_val \<Rightarrow> rune_vm" where
  "set_R vm k n v =
     vm\<lparr>frames := (frames vm)[k := (frames vm ! k)\<lparr>regs := (regs (frames vm ! k))(n := v)\<rparr>]\<rparr>"

definition PC :: "rune_vm \<Rightarrow> nat \<Rightarrow> u32" where
  "PC vm k = fr_pc (frames vm ! k)"

definition set_PC :: "rune_vm \<Rightarrow> nat \<Rightarrow> u32 \<Rightarrow> rune_vm" where
  "set_PC vm k p = vm\<lparr>frames := (frames vm)[k := (frames vm ! k)\<lparr>fr_pc := p\<rparr>]\<rparr>"

text \<open>
  \<^verbatim>\<open>code[i]\<close> of \<^verbatim>\<open>const uint32_t *code = (const uint32_t *)fn->code\<close>, with
  \<^verbatim>\<open>code_words = fn->code_size / 4\<close>. An index past the slice is outside the array.
\<close>

definition code_words :: "u8 list \<Rightarrow> nat" where
  "code_words c = length c div 4"

definition code_at :: "u8 list \<Rightarrow> nat \<Rightarrow> u32" where
  "code_at c i = ucast (le_word (take 4 (drop (4 * i) c)))"

text \<open>\<^verbatim>\<open>read_imm32\<close> and \<^verbatim>\<open>read_imm64\<close>: \<^verbatim>\<open>code[(*pc)++]\<close>, with no test of \<open>pc\<close>.\<close>

definition read_imm32 :: "u8 list \<Rightarrow> rune_vm \<Rightarrow> nat \<Rightarrow> (u32 \<times> rune_vm) option" where
  "read_imm32 c vm k =
     (if unat (PC vm k) < code_words c
      then Some (code_at c (unat (PC vm k)), set_PC vm k (PC vm k + 1))
      else None)"

definition read_imm64 :: "u8 list \<Rightarrow> rune_vm \<Rightarrow> nat \<Rightarrow> (u64 \<times> rune_vm) option" where
  "read_imm64 c vm k =
     (case read_imm32 c vm k of
        None \<Rightarrow> None
      | Some (lo, vm1) \<Rightarrow>
          (case read_imm32 c vm1 k of
             None \<Rightarrow> None
           | Some (hi, vm2) \<Rightarrow> Some (ucast lo OR push_bit 32 (ucast hi), vm2)))"

section \<open>Linear memory\<close>

text \<open>
  \<^verbatim>\<open>MEM_CHECK(offset, sz)\<close> passes when the pointer is non-null and
  \<^verbatim>\<open>(uint64_t)offset + sz <= (uint64_t)vm->memory_pages * RUNE_PAGE_SIZE\<close>. Both sides
  are below \<open>2 ^ 64\<close> (\<open>offset\<close>, \<open>sz\<close> and the page count are 32-bit), so the
  comparison is the one of the natural numbers.
\<close>

definition mem_check :: "rune_vm \<Rightarrow> u32 \<Rightarrow> nat \<Rightarrow> bool" where
  "mem_check vm off sz =
     (memory vm \<noteq> None \<and> unat off + sz \<le> unat (memory_pages vm) * RUNE_PAGE_SIZE)"

text \<open>
  Reading and writing \<open>n\<close> bytes at \<^verbatim>\<open>vm->memory + a\<close> (\<^verbatim>\<open>memcpy\<close>, \<^verbatim>\<open>memmove\<close>,
  \<^verbatim>\<open>memset\<close>): \<open>None\<close> when the pointer is null or the range leaves the allocated block.
  A copy of no byte touches nothing and is let through.
\<close>

definition mem_read :: "rune_vm \<Rightarrow> nat \<Rightarrow> nat \<Rightarrow> u8 list option" where
  "mem_read vm a n =
     (if n = 0 then Some []
      else case memory vm of
        None \<Rightarrow> None
      | Some m \<Rightarrow>
          if a + n \<le> mem_len m then Some (map (\<lambda>i. mem_bytes m (a + i)) [0..<n]) else None)"

definition mem_write :: "rune_vm \<Rightarrow> nat \<Rightarrow> u8 list \<Rightarrow> rune_vm option" where
  "mem_write vm a bs =
     (if bs = [] then Some vm
      else case memory vm of
        None \<Rightarrow> None
      | Some m \<Rightarrow>
          if a + length bs \<le> mem_len m
          then Some (vm\<lparr>memory := Some (m\<lparr>mem_bytes :=
                 (\<lambda>x. if a \<le> x \<and> x < a + length bs then bs ! (x - a) else mem_bytes m x)\<rparr>)\<rparr>)
          else None)"


section \<open>Integer instructions\<close>

text \<open>
  The result of an arithmetic case of the \<^verbatim>\<open>switch\<close>: a value for \<^verbatim>\<open>R(dst)\<close>, a trap
  (\<^verbatim>\<open>result = e; goto done\<close>), or undefined behaviour of the C expression.

  Signed \<^verbatim>\<open>+\<close>, \<^verbatim>\<open>-\<close>, \<^verbatim>\<open>*\<close>, unary \<^verbatim>\<open>-\<close> and \<^verbatim>\<open><<\<close> are given the two's-complement
  result of the machine instruction, \<^verbatim>\<open>>>\<close> on a signed operand is arithmetic. The
  quotient \<^verbatim>\<open>INT_MIN / -1\<close> (and the remainder \<^verbatim>\<open>INT_MIN % -1\<close>) is not representable:
  C leaves the expression undefined and the division instruction of x86 faults on it, so
  it is no value here. \<^verbatim>\<open>/\<close> and \<^verbatim>\<open>%\<close> truncate towards zero (\<open>sdiv\<close>, \<open>smod\<close>).
\<close>

datatype 'a alu = Value 'a | Trap rune_err | Undef undefined_behaviour

definition clz :: "'a::len word \<Rightarrow> nat" where
  "clz x = length (takeWhile (\<lambda>i. \<not> bit x i) (rev [0..<LENGTH('a)]))"

definition ctz :: "'a::len word \<Rightarrow> nat" where
  "ctz x = length (takeWhile (\<lambda>i. \<not> bit x i) [0..<LENGTH('a)])"

definition popcount :: "'a::len word \<Rightarrow> nat" where
  "popcount x = length (filter (bit x) [0..<LENGTH('a)])"

fun exec_i32 :: "i32_op \<Rightarrow> u32 \<Rightarrow> u32 \<Rightarrow> u32 alu" where
  "exec_i32 OP_ADD32 a b = Value (a + b)"
| "exec_i32 OP_SUB32 a b = Value (a - b)"
| "exec_i32 OP_MUL32 a b = Value (a * b)"
| "exec_i32 OP_DIV32 a b =
     (if b = 0 then Trap RUNE_ERR_DIVZERO
      else if a = INT32_MIN \<and> b = - 1 then Undef UB_SIGNED_OVERFLOW
      else Value (word_of_int (sint a sdiv sint b)))"
| "exec_i32 OP_DIVU32 a b = (if b = 0 then Trap RUNE_ERR_DIVZERO else Value (a div b))"
| "exec_i32 OP_REM32 a b =
     (if b = 0 then Trap RUNE_ERR_DIVZERO
      else if a = INT32_MIN \<and> b = - 1 then Undef UB_SIGNED_OVERFLOW
      else Value (word_of_int (sint a smod sint b)))"
| "exec_i32 OP_REMU32 a b = (if b = 0 then Trap RUNE_ERR_DIVZERO else Value (a mod b))"
| "exec_i32 OP_NEG32 a b = Value (- a)"
| "exec_i32 OP_AND32 a b = Value (a AND b)"
| "exec_i32 OP_OR32 a b = Value (a OR b)"
| "exec_i32 OP_XOR32 a b = Value (a XOR b)"
| "exec_i32 OP_SHL32 a b = Value (push_bit (unat (b AND 31)) a)"
| "exec_i32 OP_SHR32 a b = Value (signed_drop_bit (unat (b AND 31)) a)"
| "exec_i32 OP_SHRU32 a b = Value (drop_bit (unat (b AND 31)) a)"
| "exec_i32 OP_NOT32 a b = Value (NOT a)"
| "exec_i32 OP_CLZ32 a b = Value (if a \<noteq> 0 then of_nat (clz a) else 32)"
| "exec_i32 OP_CTZ32 a b = Value (if a \<noteq> 0 then of_nat (ctz a) else 32)"
| "exec_i32 OP_POPCNT32 a b = Value (of_nat (popcount a))"

fun exec_i64 :: "i64_op \<Rightarrow> u64 \<Rightarrow> u64 \<Rightarrow> u64 alu" where
  "exec_i64 OP_ADD64 a b = Value (a + b)"
| "exec_i64 OP_SUB64 a b = Value (a - b)"
| "exec_i64 OP_MUL64 a b = Value (a * b)"
| "exec_i64 OP_DIV64 a b =
     (if b = 0 then Trap RUNE_ERR_DIVZERO
      else if a = INT64_MIN \<and> b = - 1 then Undef UB_SIGNED_OVERFLOW
      else Value (word_of_int (sint a sdiv sint b)))"
| "exec_i64 OP_DIVU64 a b = (if b = 0 then Trap RUNE_ERR_DIVZERO else Value (a div b))"
| "exec_i64 OP_REM64 a b =
     (if b = 0 then Trap RUNE_ERR_DIVZERO
      else if a = INT64_MIN \<and> b = - 1 then Undef UB_SIGNED_OVERFLOW
      else Value (word_of_int (sint a smod sint b)))"
| "exec_i64 OP_AND64 a b = Value (a AND b)"
| "exec_i64 OP_OR64 a b = Value (a OR b)"
| "exec_i64 OP_XOR64 a b = Value (a XOR b)"
| "exec_i64 OP_SHL64 a b = Value (push_bit (unat (b AND 63)) a)"
| "exec_i64 OP_SHR64 a b = Value (signed_drop_bit (unat (b AND 63)) a)"
| "exec_i64 OP_NOT64 a b = Value (NOT a)"
| "exec_i64 OP_NEG64 a b = Value (- a)"

fun exec_cmp :: "cmp_op \<Rightarrow> rune_val \<Rightarrow> rune_val \<Rightarrow> bool" where
  "exec_cmp OP_EQ32 x y = (as_i32 x = as_i32 y)"
| "exec_cmp OP_NE32 x y = (as_i32 x \<noteq> as_i32 y)"
| "exec_cmp OP_LT32 x y = (sint (as_i32 x) < sint (as_i32 y))"
| "exec_cmp OP_LE32 x y = (sint (as_i32 x) \<le> sint (as_i32 y))"
| "exec_cmp OP_GT32 x y = (sint (as_i32 x) > sint (as_i32 y))"
| "exec_cmp OP_GE32 x y = (sint (as_i32 x) \<ge> sint (as_i32 y))"
| "exec_cmp OP_LTU32 x y = (as_i32 x < as_i32 y)"
| "exec_cmp OP_LEU32 x y = (as_i32 x \<le> as_i32 y)"
| "exec_cmp OP_EQ64 x y = (as_i64 x = as_i64 y)"
| "exec_cmp OP_NE64 x y = (as_i64 x \<noteq> as_i64 y)"
| "exec_cmp OP_LT64 x y = (sint (as_i64 x) < sint (as_i64 y))"
| "exec_cmp OP_LE64 x y = (sint (as_i64 x) \<le> sint (as_i64 y))"

fun exec_conv :: "rune_bytecode_h \<Rightarrow> conv_op \<Rightarrow> rune_val \<Rightarrow> rune_val alu" where
  "exec_conv h OP_I32_TO_I64 x = Value (rune_i64 h (scast (as_i32 x)))"
| "exec_conv h OP_I64_TO_I32 x = Value (rune_i32 h (ucast (as_i64 x)))"
| "exec_conv h OP_U32_TO_I64 x = Value (rune_i64 h (ucast (as_i32 x)))"
| "exec_conv h OP_BOOL_TO_I32 x =
     (case as_b x of
        None \<Rightarrow> Undef UB_BOOL_VALUE
      | Some b \<Rightarrow> Value (rune_i32 h (if b then 1 else 0)))"

section \<open>Floating-point instructions\<close>

text \<open>
  The host's IEEE-754 arithmetic is a parameter: \<open>fp op a b\<close> is the bit pattern that
  the C expression of case \<open>op\<close> yields on the operand unions \<open>a\<close> and \<open>b\<close>. These cases
  only assign \<^verbatim>\<open>R(dst)\<close>; the constructor applied to the result is the one in the source.
\<close>

type_synonym fpu = "rune_opcode \<Rightarrow> u64 \<Rightarrow> u64 \<Rightarrow> u64"

fun exec_fconv :: "rune_bytecode_h \<Rightarrow> fconv_op \<Rightarrow> u64 \<Rightarrow> rune_val" where
  "exec_fconv h OP_I32_TO_F32 r = rune_f32 h (ucast r)"
| "exec_fconv h OP_I32_TO_F64 r = rune_f64 h r"
| "exec_fconv h OP_F32_TO_I32 r = rune_i32 h (ucast r)"
| "exec_fconv h OP_F64_TO_I32 r = rune_i32 h (ucast r)"
| "exec_fconv h OP_F32_TO_F64 r = rune_f64 h r"
| "exec_fconv h OP_F64_TO_F32 r = rune_f32 h (ucast r)"
| "exec_fconv h OP_I64_TO_F64 r = rune_f64 h r"
| "exec_fconv h OP_F64_TO_I64 r = rune_i64 h r"

section \<open>Memory instructions\<close>

fun load_size :: "load_op \<Rightarrow> nat" where
  "load_size OP_LOAD8 = 1"
| "load_size OP_LOAD8S = 1"
| "load_size OP_LOAD16 = 2"
| "load_size OP_LOAD16S = 2"
| "load_size OP_LOAD32 = 4"
| "load_size OP_LOAD64 = 8"
| "load_size OP_LOADF32 = 4"
| "load_size OP_LOADF64 = 8"

fun load_val :: "rune_bytecode_h \<Rightarrow> load_op \<Rightarrow> u8 list \<Rightarrow> rune_val" where
  "load_val h OP_LOAD8 bs = rune_i32 h (ucast (le_word bs))"
| "load_val h OP_LOAD8S bs = rune_i32 h (scast (ucast (le_word bs) :: u8))"
| "load_val h OP_LOAD16 bs = rune_i32 h (ucast (le_word bs))"
| "load_val h OP_LOAD16S bs = rune_i32 h (scast (ucast (le_word bs) :: u16))"
| "load_val h OP_LOAD32 bs = rune_i32 h (ucast (le_word bs))"
| "load_val h OP_LOAD64 bs = rune_i64 h (le_word bs)"
| "load_val h OP_LOADF32 bs = rune_f32 h (ucast (le_word bs))"
| "load_val h OP_LOADF64 bs = rune_f64 h (le_word bs)"

fun store_size :: "store_op \<Rightarrow> nat" where
  "store_size OP_STORE8 = 1"
| "store_size OP_STORE16 = 2"
| "store_size OP_STORE32 = 4"
| "store_size OP_STORE64 = 8"
| "store_size OP_STOREF32 = 4"
| "store_size OP_STOREF64 = 8"


section \<open>Host functions\<close>

text \<open>
  \<^verbatim>\<open>h->fn(vm, argc, argv, &r, h->userdata)\<close>: the callback at address \<open>fn\<close> receives the
  VM, the arguments and the result slot (holding \<^verbatim>\<open>rune_void()\<close>), and returns an error
  code; it may have written the slot and changed the VM through its handle. What each
  callback does is the parameter \<open>env\<close>. A callback that calls back into the interpreter
  is outside this model.
\<close>

type_synonym host_env =
  "nat \<Rightarrow> nat \<Rightarrow> int \<Rightarrow> rune_val list \<Rightarrow> rune_val \<Rightarrow> rune_vm \<Rightarrow> rune_err \<times> rune_val \<times> rune_vm"

definition host_matches :: "rune_import \<Rightarrow> rune_host_entry \<Rightarrow> bool" where
  "host_matches imp e =
     (str_eq (he_module e) (imp_module imp) \<and> str_eq (he_name e) (imp_name imp))"

definition vm_resolve_host :: "rune_vm \<Rightarrow> u32 \<Rightarrow> rune_host_entry option" where
  "vm_resolve_host vm iidx =
     (if unat iidx \<ge> import_count (vm_mod vm) then None
      else find (host_matches (m_imports (vm_mod vm) ! unat iidx)) (host_fns vm))"

section \<open>One instruction\<close>

text \<open>
  How a case of the \<^verbatim>\<open>switch\<close> leaves: \<^verbatim>\<open>break\<close> (\<open>Continue\<close>), \<^verbatim>\<open>goto done\<close> with
  \<^verbatim>\<open>result\<close> and what was stored through \<^verbatim>\<open>ret_val\<close> (\<open>Done\<close>), the \<^verbatim>\<open>return\<close> inside
  \<^verbatim>\<open>MEM_CHECK\<close> (\<open>Return\<close>), the recursive \<^verbatim>\<open>vm_exec(vm, fi, nargs, args, &ret)\<close> of
  \<^verbatim>\<open>OP_CALL\<close> (\<open>Invoke\<close>), or undefined behaviour.
\<close>

datatype step =
    Continue rune_vm
  | Done rune_err "rune_val option" rune_vm
  | Return rune_err rune_vm
  | Invoke u32 u8 "rune_val list" rune_vm
  | Undefined undefined_behaviour

definition with_imm32 :: "u8 list \<Rightarrow> rune_vm \<Rightarrow> nat \<Rightarrow> (u32 \<Rightarrow> rune_vm \<Rightarrow> step) \<Rightarrow> step" where
  "with_imm32 c vm k f =
     (case read_imm32 c vm k of None \<Rightarrow> Undefined UB_CODE_INDEX | Some (imm, vm1) \<Rightarrow> f imm vm1)"

definition with_imm64 :: "u8 list \<Rightarrow> rune_vm \<Rightarrow> nat \<Rightarrow> (u64 \<Rightarrow> rune_vm \<Rightarrow> step) \<Rightarrow> step" where
  "with_imm64 c vm k f =
     (case read_imm64 c vm k of None \<Rightarrow> Undefined UB_CODE_INDEX | Some (imm, vm1) \<Rightarrow> f imm vm1)"

text \<open>\<^verbatim>\<open>PC = (uint32_t)((int32_t)PC + offset)\<close>.\<close>

definition jump :: "rune_vm \<Rightarrow> nat \<Rightarrow> u32 \<Rightarrow> rune_vm" where
  "jump vm k offset = set_PC vm k (PC vm k + offset)"

definition is_zero :: "rune_bytecode_h \<Rightarrow> rune_val \<Rightarrow> bool option" where
  "is_zero h cond =
     (if val_type cond = RUNE_TYPE_BOOL h then map_option Not (as_b cond)
      else if val_type cond = RUNE_TYPE_I32 h then Some (as_i32 cond = 0)
      else if val_type cond = RUNE_TYPE_I64 h then Some (as_i64 cond = 0)
      else Some False)"

definition alu_step :: "rune_vm \<Rightarrow> nat \<Rightarrow> u8 \<Rightarrow> ('a \<Rightarrow> rune_val) \<Rightarrow> 'a alu \<Rightarrow> step" where
  "alu_step vm k dst mk r =
     (case r of
        Value x \<Rightarrow> Continue (set_R vm k dst (mk x))
      | Trap e \<Rightarrow> Done e None vm
      | Undef u \<Rightarrow> Undefined u)"

text \<open>
  \<^verbatim>\<open>memcpy(args, vm->arg_buf, nargs * sizeof(rune_val_t)); vm->arg_count = 0\<close>: both
  arrays have \<open>RUNE_MAX_PARAMS\<close> entries.
\<close>

definition collect_args :: "rune_vm \<Rightarrow> (u8 \<times> rune_val list \<times> rune_vm) option" where
  "collect_args vm =
     (if unat (arg_count vm) > RUNE_MAX_PARAMS \<or> unat (arg_count vm) > length (arg_buf vm)
      then None
      else Some (arg_count vm, take (unat (arg_count vm)) (arg_buf vm), vm\<lparr>arg_count := 0\<rparr>))"


text \<open>
  The body of one case, after \<^verbatim>\<open>NEXT()\<close> has fetched and decoded the instruction word:
  \<open>k\<close> is the index of \<^verbatim>\<open>frame\<close> in \<^verbatim>\<open>vm->frames\<close>, \<open>c\<close> the code of the function.
  Formatting of the diagnostic text (\<^verbatim>\<open>vm_set_error\<close>) is left out.
\<close>

fun exec_instr ::
  "rune_bytecode_h \<Rightarrow> fpu \<Rightarrow> host_env \<Rightarrow> rune_vm \<Rightarrow> nat \<Rightarrow> u8 list \<Rightarrow>
   rune_opcode \<Rightarrow> u8 \<Rightarrow> u8 \<Rightarrow> u8 \<Rightarrow> step" where
  "exec_instr h fp env vm k c OP_NOP dst s1 s2 = Continue vm"
| "exec_instr h fp env vm k c OP_TRAP dst s1 s2 = Done RUNE_ERR_TRAP None vm"
| "exec_instr h fp env vm k c OP_RET dst s1 s2 = Done RUNE_OK (Some (R vm k 0)) vm"
| "exec_instr h fp env vm k c OP_JMP dst s1 s2 =
     with_imm32 c vm k (\<lambda>offset vm1. Continue (jump vm1 k offset))"
| "exec_instr h fp env vm k c OP_JZ dst s1 s2 =
     with_imm32 c vm k (\<lambda>offset vm1.
       case is_zero h (R vm1 k s1) of
         None \<Rightarrow> Undefined UB_BOOL_VALUE
       | Some zero \<Rightarrow> Continue (if zero then jump vm1 k offset else vm1))"
| "exec_instr h fp env vm k c OP_JNZ dst s1 s2 =
     with_imm32 c vm k (\<lambda>offset vm1.
       case is_zero h (R vm1 k s1) of
         None \<Rightarrow> Undefined UB_BOOL_VALUE
       | Some zero \<Rightarrow> Continue (if \<not> zero then jump vm1 k offset else vm1))"
| "exec_instr h fp env vm k c OP_JLT dst s1 s2 =
     with_imm32 c vm k (\<lambda>offset vm1.
       Continue (if sint (as_i32 (R vm1 k s1)) < sint (as_i32 (R vm1 k s2))
                 then jump vm1 k offset else vm1))"
| "exec_instr h fp env vm k c OP_JLE dst s1 s2 =
     with_imm32 c vm k (\<lambda>offset vm1.
       Continue (if sint (as_i32 (R vm1 k s1)) \<le> sint (as_i32 (R vm1 k s2))
                 then jump vm1 k offset else vm1))"
| "exec_instr h fp env vm k c OP_CALL dst s1 s2 =
     with_imm32 c vm k (\<lambda>fi vm1.
       case collect_args vm1 of
         None \<Rightarrow> Undefined UB_ARG_INDEX
       | Some (nargs, args, vm2) \<Rightarrow> Invoke fi nargs args vm2)"
| "exec_instr h fp env vm k c OP_CALL_HOST dst s1 s2 =
     with_imm32 c vm k (\<lambda>iidx vm1.
       case vm_resolve_host vm1 iidx of
         None \<Rightarrow> Done RUNE_ERR_NOIMPORT None vm1
       | Some e \<Rightarrow>
           (case collect_args vm1 of
              None \<Rightarrow> Undefined UB_ARG_INDEX
            | Some (nargs, args, vm2) \<Rightarrow>
                (case env (he_fn e) (he_userdata e) (uint nargs) args (rune_void h) vm2 of
                   (result, ret, vm3) \<Rightarrow>
                     if result \<noteq> RUNE_OK then Done result None vm3
                     else Continue (set_R vm3 k dst ret))))"
| "exec_instr h fp env vm k c OP_ARG dst s1 s2 =
     (let vm1 = (if unat s1 < RUNE_MAX_PARAMS
                 then vm\<lparr>arg_buf := (arg_buf vm)[unat s1 := R vm k (if s2 \<noteq> 0 then s2 else dst)]\<rparr>
                 else vm)
      in if unat dst \<ge> RUNE_MAX_PARAMS \<or> unat dst \<ge> length (arg_buf vm1)
         then Undefined UB_ARG_INDEX
         else let vm2 = vm1\<lparr>arg_buf := (arg_buf vm1)[unat dst := R vm1 k s1]\<rparr>
              in Continue (if dst \<ge> arg_count vm2 then vm2\<lparr>arg_count := dst + 1\<rparr> else vm2))"
| "exec_instr h fp env vm k c OP_LDI32 dst s1 s2 =
     with_imm32 c vm k (\<lambda>imm vm1. Continue (set_R vm1 k dst (rune_i32 h imm)))"
| "exec_instr h fp env vm k c OP_LDI64 dst s1 s2 =
     with_imm64 c vm k (\<lambda>imm vm1. Continue (set_R vm1 k dst (rune_i64 h imm)))"
| "exec_instr h fp env vm k c OP_LDF32 dst s1 s2 =
     with_imm32 c vm k (\<lambda>bits vm1. Continue (set_R vm1 k dst (rune_f32 h bits)))"
| "exec_instr h fp env vm k c OP_LDF64 dst s1 s2 =
     with_imm64 c vm k (\<lambda>bits vm1. Continue (set_R vm1 k dst (rune_f64 h bits)))"
| "exec_instr h fp env vm k c OP_LDTRUE dst s1 s2 = Continue (set_R vm k dst (rune_bool h True))"
| "exec_instr h fp env vm k c OP_LDFALSE dst s1 s2 = Continue (set_R vm k dst (rune_bool h False))"
| "exec_instr h fp env vm k c OP_LDGLOBAL dst s1 s2 =
     with_imm32 c vm k (\<lambda>gi vm1.
       if unat gi \<ge> global_count (vm_mod vm1) then Done RUNE_ERR_BOUNDS None vm1
       else if unat gi \<ge> length (globals vm1) then Undefined UB_GLOBAL_INDEX
       else Continue (set_R vm1 k dst (globals vm1 ! unat gi)))"
| "exec_instr h fp env vm k c OP_STGLOBAL dst s1 s2 =
     with_imm32 c vm k (\<lambda>gi vm1.
       if unat gi \<ge> global_count (vm_mod vm1) then Done RUNE_ERR_BOUNDS None vm1
       else if unat gi \<ge> length (globals vm1) then Undefined UB_GLOBAL_INDEX
       else Continue (vm1\<lparr>globals := (globals vm1)[unat gi := R vm1 k s1]\<rparr>))"
| "exec_instr h fp env vm k c OP_MOV dst s1 s2 = Continue (set_R vm k dst (R vm k s1))"
| "exec_instr h fp env vm k c (Int32 op) dst s1 s2 =
     alu_step vm k dst (rune_i32 h) (exec_i32 op (as_i32 (R vm k s1)) (as_i32 (R vm k s2)))"
| "exec_instr h fp env vm k c (Int64 op) dst s1 s2 =
     alu_step vm k dst (rune_i64 h) (exec_i64 op (as_i64 (R vm k s1)) (as_i64 (R vm k s2)))"
| "exec_instr h fp env vm k c (Float32 op) dst s1 s2 =
     Continue (set_R vm k dst
       (rune_f32 h (ucast (fp (Float32 op) (val_bits (R vm k s1)) (val_bits (R vm k s2))))))"
| "exec_instr h fp env vm k c (Float64 op) dst s1 s2 =
     Continue (set_R vm k dst
       (rune_f64 h (fp (Float64 op) (val_bits (R vm k s1)) (val_bits (R vm k s2)))))"
| "exec_instr h fp env vm k c (Compare op) dst s1 s2 =
     Continue (set_R vm k dst (rune_bool h (exec_cmp op (R vm k s1) (R vm k s2))))"
| "exec_instr h fp env vm k c (FCompare op) dst s1 s2 =
     Continue (set_R vm k dst
       (rune_bool h (fp (FCompare op) (val_bits (R vm k s1)) (val_bits (R vm k s2)) \<noteq> 0)))"
| "exec_instr h fp env vm k c (Convert op) dst s1 s2 =
     alu_step vm k dst (\<lambda>v. v) (exec_conv h op (R vm k s1))"
| "exec_instr h fp env vm k c (FConvert op) dst s1 s2 =
     Continue (set_R vm k dst
       (exec_fconv h op (fp (FConvert op) (val_bits (R vm k s1)) (val_bits (R vm k s2)))))"
| "exec_instr h fp env vm k c (Load op) dst s1 s2 =
     with_imm32 c vm k (\<lambda>imm vm1.
       let off = as_i32 (R vm1 k s1) + imm in
       if \<not> mem_check vm1 off (load_size op) then Return RUNE_ERR_BOUNDS vm1
       else case mem_read vm1 (unat off) (load_size op) of
              None \<Rightarrow> Undefined UB_MEMORY_RANGE
            | Some bs \<Rightarrow> Continue (set_R vm1 k dst (load_val h op bs)))"
| "exec_instr h fp env vm k c (Store op) dst s1 s2 =
     with_imm32 c vm k (\<lambda>imm vm1.
       let off = as_i32 (R vm1 k s1) + imm in
       if \<not> mem_check vm1 off (store_size op) then Return RUNE_ERR_BOUNDS vm1
       else case mem_write vm1 (unat off) (le_bytes (store_size op) (val_bits (R vm1 k dst))) of
              None \<Rightarrow> Undefined UB_MEMORY_RANGE
            | Some vm2 \<Rightarrow> Continue vm2)"
| "exec_instr h fp env vm k c OP_MEM_SIZE dst s1 s2 =
     Continue (set_R vm k dst (rune_i32 h (memory_pages vm)))"
| "exec_instr h fp env vm k c OP_MEM_GROW dst s1 s2 =
     (let req = as_i32 (R vm k s1);
          new_pages = memory_pages vm + req
      in if new_pages > memory_max vm then Continue (set_R vm k dst (rune_i32 h (- 1)))
         else case mem_write vm (unat (memory_pages vm * of_nat RUNE_PAGE_SIZE))
                     (replicate (unat (req * of_nat RUNE_PAGE_SIZE)) 0) of
                None \<Rightarrow> Undefined UB_MEMORY_RANGE
              | Some vm1 \<Rightarrow>
                  Continue ((set_R vm1 k dst (rune_i32 h (memory_pages vm1)))
                              \<lparr>memory_pages := new_pages\<rparr>))"
| "exec_instr h fp env vm k c OP_MEM_COPY dst s1 s2 =
     (let pdst = as_i32 (R vm k dst);
          psrc = as_i32 (R vm k s1);
          sz = as_i32 (R vm k s2)
      in if \<not> mem_check vm pdst (unat sz) then Return RUNE_ERR_BOUNDS vm
         else if \<not> mem_check vm psrc (unat sz) then Return RUNE_ERR_BOUNDS vm
         else case mem_read vm (unat psrc) (unat sz) of
                None \<Rightarrow> Undefined UB_MEMORY_RANGE
              | Some bs \<Rightarrow>
                  (case mem_write vm (unat pdst) bs of
                     None \<Rightarrow> Undefined UB_MEMORY_RANGE
                   | Some vm1 \<Rightarrow> Continue vm1))"
| "exec_instr h fp env vm k c OP_MEM_FILL dst s1 s2 =
     (let pdst = as_i32 (R vm k dst);
          val = as_i32 (R vm k s1);
          sz = as_i32 (R vm k s2)
      in if \<not> mem_check vm pdst (unat sz) then Return RUNE_ERR_BOUNDS vm
         else case mem_write vm (unat pdst) (replicate (unat sz) (ucast val)) of
                None \<Rightarrow> Undefined UB_MEMORY_RANGE
              | Some vm1 \<Rightarrow> Continue vm1)"
| "exec_instr h fp env vm k c OP_UNKNOWN dst s1 s2 = Done RUNE_ERR_BADOPCODE None vm"


section \<open>The interpreter\<close>

text \<open>
  Modelled from the spec: the decoding macros \<^verbatim>\<open>RUNE_INSTR_OP\<close>, \<^verbatim>\<open>RUNE_INSTR_DST\<close>,
  \<^verbatim>\<open>RUNE_INSTR_S1\<close> and \<^verbatim>\<open>RUNE_INSTR_S2\<close> of the missing header. An instruction is a
  32-bit word \<open>(op:u8, dst:u8, s1:u8, s2:u8)\<close> in little-endian byte order: \<open>op\<close> is
  the lowest byte.
\<close>

definition RUNE_INSTR_OP :: "u32 \<Rightarrow> u8" where "RUNE_INSTR_OP w = ucast w"
definition RUNE_INSTR_DST :: "u32 \<Rightarrow> u8" where "RUNE_INSTR_DST w = ucast (drop_bit 8 w)"
definition RUNE_INSTR_S1 :: "u32 \<Rightarrow> u8" where "RUNE_INSTR_S1 w = ucast (drop_bit 16 w)"
definition RUNE_INSTR_S2 :: "u32 \<Rightarrow> u8" where "RUNE_INSTR_S2 w = ucast (drop_bit 24 w)"

text \<open>
  \<^verbatim>\<open>FUEL_TICK()\<close>: with a fuel limit, count the instruction and \<^verbatim>\<open>return RUNE_ERR_FUEL\<close>
  when the count passes the limit (the flag of the result).
\<close>

definition fuel_tick :: "rune_vm \<Rightarrow> bool \<times> rune_vm" where
  "fuel_tick vm =
     (if fuel_limit (cfg vm) > 0
      then let vm1 = vm\<lparr>fuel_used := fuel_used vm + 1\<rparr>
           in (fuel_used vm1 > fuel_limit (cfg vm1), vm1)
      else (False, vm))"

text \<open>
  \<^verbatim>\<open>frame = &vm->frames[vm->frame_count++]\<close>, then the register window is allocated on
  first use or cleared. Allocation is taken to succeed.
\<close>

definition push_frame :: "rune_vm \<Rightarrow> u32 \<Rightarrow> rune_vm" where
  "push_frame vm fi =
     vm\<lparr>frame_count := frame_count vm + 1,
        frames := (frames vm)[unat (frame_count vm) :=
          \<lparr>fr_func_idx = fi, fr_pc = 0, regs_alloc = True, regs = (\<lambda>n. zero_val)\<rparr>]\<rparr>"

text \<open>
  \<^verbatim>\<open>copy_n = argc < (int)fn->reg_count ? argc : (int)fn->reg_count\<close>, then
  \<^verbatim>\<open>frame->regs[i] = argv[i]\<close> for \<open>i < copy_n\<close> (\<open>copy_n \<le> 255\<close>, so the second
  loop condition \<open>i < RUNE_MAX_REGS\<close> never decides).
\<close>

definition copy_args :: "rune_vm \<Rightarrow> nat \<Rightarrow> rune_func \<Rightarrow> int \<Rightarrow> rune_val list \<Rightarrow> rune_vm option" where
  "copy_args vm k fn argc argv =
     (let copy_n = (if argc < uint (reg_count fn) then argc else uint (reg_count fn))
      in if nat copy_n > length argv then None
         else Some (fold (\<lambda>i v. set_R v k (of_nat i) (argv ! i)) [0..<nat copy_n] vm))"

text \<open>What \<^verbatim>\<open>vm_exec\<close> returns: the error code, what it stored through \<^verbatim>\<open>ret_val\<close>, and the VM.\<close>

datatype exec_result =
    Returned rune_err "rune_val option" rune_vm
  | Crashed undefined_behaviour

definition pop_frame :: "rune_vm \<Rightarrow> rune_vm" where
  "pop_frame vm = vm\<lparr>frame_count := frame_count vm - 1\<rparr>"

definition ret_or_void :: "rune_bytecode_h \<Rightarrow> rune_val option \<Rightarrow> rune_val" where
  "ret_or_void h r = (case r of None \<Rightarrow> rune_void h | Some v \<Rightarrow> v)"

text \<open>
  \<^verbatim>\<open>vm_exec\<close> and its \<^verbatim>\<open>while (PC < code_words)\<close> loop. The loop need not end, and
  \<^verbatim>\<open>OP_CALL\<close> recurses: the first numeric argument bounds the number of loop iterations and
  nested calls together, and \<open>None\<close> says that the bound was reached.
\<close>

fun vm_exec ::
  "rune_bytecode_h \<Rightarrow> fpu \<Rightarrow> host_env \<Rightarrow> nat \<Rightarrow> rune_vm \<Rightarrow> u32 \<Rightarrow> int \<Rightarrow> rune_val list \<Rightarrow>
   exec_result option"
and interp_loop ::
  "rune_bytecode_h \<Rightarrow> fpu \<Rightarrow> host_env \<Rightarrow> nat \<Rightarrow> rune_vm \<Rightarrow> nat \<Rightarrow> u8 list \<Rightarrow> exec_result option"
where
  "vm_exec h fp env 0 vm fi argc argv = None"
| "vm_exec h fp env (Suc g) vm fi argc argv =
     (if \<not> initialized vm \<and> fi \<noteq> init_func (vm_mod vm)
      then Some (Returned RUNE_ERR_BADMODULE None vm)
      else if frame_count vm \<ge> stack_size (cfg vm)
      then Some (Returned RUNE_ERR_STACKOVERFLOW None vm)
      else if unat fi \<ge> func_count (vm_mod vm) then Some (Crashed UB_FUNC_INDEX)
      else let fn = m_funcs (vm_mod vm) ! unat fi in
        if is_import fn then
          (case vm_resolve_host vm (import_idx fn) of
             None \<Rightarrow> Some (Returned RUNE_ERR_NOIMPORT None vm)
           | Some e \<Rightarrow>
               (case env (he_fn e) (he_userdata e) argc argv (rune_void h) vm of
                  (err, r, vm1) \<Rightarrow> Some (Returned err (Some r) vm1)))
        else if unat (frame_count vm) \<ge> length (frames vm) then Some (Crashed UB_FRAME_INDEX)
        else let k = unat (frame_count vm) in
          (case copy_args (push_frame vm fi) k fn argc argv of
             None \<Rightarrow> Some (Crashed UB_ARGV_INDEX)
           | Some vm1 \<Rightarrow> interp_loop h fp env g vm1 k (code fn)))"
| "interp_loop h fp env 0 vm k c = None"
| "interp_loop h fp env (Suc g) vm k c =
     (if unat (PC vm k) < code_words c then
        (case fuel_tick vm of
           (True, vm1) \<Rightarrow> Some (Returned RUNE_ERR_FUEL None vm1)
         | (False, vm1) \<Rightarrow>
             let instr = code_at c (unat (PC vm1 k));
                 vm2 = set_PC vm1 k (PC vm1 k + 1)
             in (case exec_instr h fp env vm2 k c (opcode_of h (RUNE_INSTR_OP instr))
                        (RUNE_INSTR_DST instr) (RUNE_INSTR_S1 instr) (RUNE_INSTR_S2 instr) of
                   Continue vm3 \<Rightarrow> interp_loop h fp env g vm3 k c
                 | Done result r vm3 \<Rightarrow> Some (Returned result r (pop_frame vm3))
                 | Return result vm3 \<Rightarrow> Some (Returned result None vm3)
                 | Undefined u \<Rightarrow> Some (Crashed u)
                 | Invoke fi nargs args vm3 \<Rightarrow>
                     (case vm_exec h fp env g vm3 fi (uint nargs) args of
                        None \<Rightarrow> None
                      | Some (Crashed u) \<Rightarrow> Some (Crashed u)
                      | Some (Returned result r vm4) \<Rightarrow>
                          if result \<noteq> RUNE_OK then Some (Returned result None (pop_frame vm4))
                          else interp_loop h fp env g
                                 (set_R vm4 k (RUNE_INSTR_DST instr) (ret_or_void h r)) k c)))
      else Some (Returned RUNE_OK (Some (R vm k 0)) (pop_frame vm)))"

section \<open>Public call interface\<close>

definition find_export :: "rune_bytecode_h \<Rightarrow> rune_module \<Rightarrow> u8 list \<Rightarrow> rune_export option" where
  "find_export h m name =
     find (\<lambda>e. exp_kind e = RUNE_EXPORT_FUNC h \<and> str_eq (exp_name e) name) (m_exports m)"

definition rune_vm_call ::
  "rune_bytecode_h \<Rightarrow> fpu \<Rightarrow> host_env \<Rightarrow> nat \<Rightarrow> rune_vm \<Rightarrow> u8 list \<Rightarrow> int \<Rightarrow> rune_val list \<Rightarrow>
   exec_result option" where
  "rune_vm_call h fp env g vm name argc argv =
     (if \<not> initialized vm then Some (Returned RUNE_ERR_BADMODULE None vm)
      else case find_export h (vm_mod vm) name of
             Some e \<Rightarrow>
               (case vm_exec h fp env g vm (exp_idx e) argc argv of
                  None \<Rightarrow> None
                | Some (Crashed u) \<Rightarrow> Some (Crashed u)
                | Some (Returned err r vm1) \<Rightarrow> Some (Returned err (Some (ret_or_void h r)) vm1))
           | None \<Rightarrow> Some (Returned RUNE_ERR_NOEXPORT None vm))"


section \<open>Creating, registering, initialising\<close>

text \<open>
  \<^verbatim>\<open>rune_vm_new\<close>: a zero-filled VM with the configuration, room for 16 host entries and
  \<open>stack_size\<close> zero-filled frames. Allocation is taken to succeed here and in
  \<^verbatim>\<open>rune_vm_register\<close>; the two allocations of \<^verbatim>\<open>rune_vm_init\<close> can fail.
\<close>

definition empty_frame :: rune_frame where
  "empty_frame = \<lparr>fr_func_idx = 0, fr_pc = 0, regs_alloc = False, regs = (\<lambda>n. zero_val)\<rparr>"

definition rune_vm_new :: "rune_module \<Rightarrow> rune_config option \<Rightarrow> rune_vm" where
  "rune_vm_new m cfg_opt =
     (let cf = (case cfg_opt of None \<Rightarrow> rune_config_default | Some cf \<Rightarrow> cf)
      in \<lparr>vm_mod = m, cfg = cf, host_fns = [], host_fn_cap = 16,
          memory = None, memory_pages = 0, memory_max = 0, globals = [],
          frames = replicate (unat (stack_size cf)) empty_frame, frame_count = 0,
          arg_buf = replicate RUNE_MAX_PARAMS zero_val, arg_count = 0,
          fuel_used = 0, initialized = False\<rparr>)"

text \<open>
  \<^verbatim>\<open>rune_vm_register\<close>: refused once the VM is initialised; otherwise the entry is written
  at index \<open>host_fn_count\<close>, after the existing ones (the table is doubled when full).
\<close>

definition rune_vm_register ::
  "rune_vm \<Rightarrow> u8 list \<Rightarrow> u8 list \<Rightarrow> nat \<Rightarrow> nat \<Rightarrow> rune_err \<times> rune_vm" where
  "rune_vm_register vm mod_name name fn ud =
     (if initialized vm then (RUNE_ERR_BADMODULE, vm)
      else let vm1 = (if length (host_fns vm) \<ge> unat (host_fn_cap vm)
                      then vm\<lparr>host_fn_cap := host_fn_cap vm * 2\<rparr> else vm)
           in (RUNE_OK,
               vm1\<lparr>host_fns := host_fns vm1 @
                 [\<lparr>he_module = c_str mod_name, he_name = c_str name,
                   he_fn = fn, he_userdata = ud\<rparr>]\<rparr>))"

text \<open>
  The data segments of \<^verbatim>\<open>rune_vm_init\<close>: \<^verbatim>\<open>uint32_t end = offset + size\<close> wraps, and is
  compared with \<^verbatim>\<open>vm->memory_pages * RUNE_PAGE_SIZE\<close> before the \<^verbatim>\<open>memcpy\<close>.
\<close>

fun apply_data_segs ::
  "rune_vm \<Rightarrow> rune_data_seg list \<Rightarrow> undefined_behaviour + rune_err \<times> rune_vm" where
  "apply_data_segs vm [] = Inr (RUNE_OK, vm)"
| "apply_data_segs vm (s # ss) =
     (let seg_end = seg_offset s + of_nat (length (seg_data s)) :: u32
      in if seg_end > memory_pages vm * of_nat RUNE_PAGE_SIZE then Inr (RUNE_ERR_BOUNDS, vm)
         else case mem_write vm (unat (seg_offset s)) (seg_data s) of
                None \<Rightarrow> Inl UB_MEMORY_RANGE
              | Some vm1 \<Rightarrow> apply_data_segs vm1 ss)"

definition imports_satisfied :: "rune_vm \<Rightarrow> bool" where
  "imports_satisfied vm =
     list_all (\<lambda>imp. list_ex (host_matches imp) (host_fns vm)) (m_imports (vm_mod vm))"

text \<open>
  The two allocations of \<^verbatim>\<open>rune_vm_init\<close>, \<^verbatim>\<open>calloc(max_pages, RUNE_PAGE_SIZE)\<close> and
  \<^verbatim>\<open>malloc(mod->global_count * sizeof(rune_val_t))\<close>, can fail. Whether a request succeeds
  is a parameter of \<open>rune_vm_init\<close>; a failed one leaves the null pointer in the field.
\<close>

datatype alloc_request = Calloc_pages nat | Malloc_globals nat

type_synonym allocator = "alloc_request \<Rightarrow> bool"

definition alloc_memory :: "allocator \<Rightarrow> rune_vm \<Rightarrow> undefined_behaviour + rune_err \<times> rune_vm" where
  "alloc_memory al vm =
     (let m = vm_mod vm in
      if has_memory m then
        let max_pages = (if mem_max_pages m > 0 then ucast (mem_max_pages m)
                         else ucast (mem_initial_pages m)) :: u32
        in if unat max_pages * RUNE_PAGE_SIZE > memory_limit (cfg vm)
           then Inr (RUNE_ERR_OOM, vm)
           else if \<not> al (Calloc_pages (unat max_pages))
           then Inr (RUNE_ERR_OOM, vm\<lparr>memory := None\<rparr>)
           else apply_data_segs
                  (vm\<lparr>memory := Some \<lparr>mem_len = unat max_pages * RUNE_PAGE_SIZE,
                                      mem_bytes = (\<lambda>x. 0)\<rparr>,
                      memory_pages := ucast (mem_initial_pages m),
                      memory_max := max_pages\<rparr>)
                  (m_data_segs m)
      else Inr (RUNE_OK, vm))"

definition copy_globals :: "allocator \<Rightarrow> rune_vm \<Rightarrow> rune_err \<times> rune_vm" where
  "copy_globals al vm =
     (if global_count (vm_mod vm) > 0
      then if \<not> al (Malloc_globals (global_count (vm_mod vm)))
           then (RUNE_ERR_OOM, vm\<lparr>globals := []\<rparr>)
           else (RUNE_OK, vm\<lparr>globals := map g_value (m_globals (vm_mod vm))\<rparr>)
      else (RUNE_OK, vm))"

text \<open>
  \<^verbatim>\<open>rune_vm_init\<close>: imports, memory and data segments, globals, then
  \<^verbatim>\<open>vm->initialized = true\<close>, then \<^verbatim>\<open>_init\<close> if the module exports one.
\<close>

definition rune_vm_init ::
  "rune_bytecode_h \<Rightarrow> fpu \<Rightarrow> host_env \<Rightarrow> allocator \<Rightarrow> nat \<Rightarrow> rune_vm \<Rightarrow>
   exec_result option" where
  "rune_vm_init h fp env al g vm =
     (if \<not> imports_satisfied vm then Some (Returned RUNE_ERR_NOIMPORT None vm)
      else case alloc_memory al vm of
             Inl u \<Rightarrow> Some (Crashed u)
           | Inr (err, vm1) \<Rightarrow>
               if err \<noteq> RUNE_OK then Some (Returned err None vm1)
               else (case copy_globals al vm1 of
                 (err2, vm1a) \<Rightarrow>
                   if err2 \<noteq> RUNE_OK then Some (Returned err2 None vm1a)
                   else let vm2 = vm1a\<lparr>initialized := True\<rparr> in
                     if 0 \<le> sint (init_func (vm_mod vm2)) then
                       (case vm_exec h fp env g vm2 (init_func (vm_mod vm2)) 0 [] of
                          None \<Rightarrow> None
                        | Some (Crashed u) \<Rightarrow> Some (Crashed u)
                        | Some (Returned err1 r vm3) \<Rightarrow> Some (Returned err1 None vm3))
                     else Some (Returned RUNE_OK None vm2)))"


section \<open>CRC-32 and the little-endian reader\<close>

text \<open>\<^verbatim>\<open>crc = (crc >> 1) ^ (0xEDB88320u & -(crc & 1))\<close>, eight times for each byte.\<close>

definition crc32_bit :: "u32 \<Rightarrow> u32" where
  "crc32_bit crc = drop_bit 1 crc XOR (0xEDB88320 AND - (crc AND 1))"

definition crc32_byte :: "u8 \<Rightarrow> u32 \<Rightarrow> u32" where
  "crc32_byte b crc = fold (\<lambda>j. crc32_bit) [0..<8] (crc XOR ucast b)"

definition crc32_update :: "u32 \<Rightarrow> u8 list \<Rightarrow> u32" where
  "crc32_update crc data = NOT (fold crc32_byte data (NOT crc))"

record reader =
  r_base :: "u8 list"
  r_pos :: nat
  r_error :: bool

definition reader_init :: "u8 list \<Rightarrow> reader" where
  "reader_init data = \<lparr>r_base = data, r_pos = 0, r_error = False\<rparr>"

definition read_u8 :: "reader \<Rightarrow> u8 \<times> reader" where
  "read_u8 r =
     (if r_pos r \<ge> length (r_base r) then (0, r\<lparr>r_error := True\<rparr>)
      else (r_base r ! r_pos r, r\<lparr>r_pos := r_pos r + 1\<rparr>))"

definition read_u16 :: "reader \<Rightarrow> u16 \<times> reader" where
  "read_u16 r =
     (case read_u8 r of (b0, r1) \<Rightarrow>
      case read_u8 r1 of (b1, r2) \<Rightarrow>
        (ucast b0 OR push_bit 8 (ucast b1), r2))"

definition read_u32 :: "reader \<Rightarrow> u32 \<times> reader" where
  "read_u32 r =
     (case read_u8 r of (b0, r1) \<Rightarrow>
      case read_u8 r1 of (b1, r2) \<Rightarrow>
      case read_u8 r2 of (b2, r3) \<Rightarrow>
      case read_u8 r3 of (b3, r4) \<Rightarrow>
        (ucast b0 OR push_bit 8 (ucast b1) OR push_bit 16 (ucast b2) OR push_bit 24 (ucast b3),
         r4))"

definition read_u64 :: "reader \<Rightarrow> u64 \<times> reader" where
  "read_u64 r =
     (case read_u32 r of (lo, r1) \<Rightarrow>
      case read_u32 r1 of (hi, r2) \<Rightarrow>
        (ucast lo OR push_bit 32 (ucast hi), r2))"

definition read_bytes :: "reader \<Rightarrow> nat \<Rightarrow> u8 list option \<times> reader" where
  "read_bytes r n =
     (if r_pos r + n > length (r_base r) then (None, r\<lparr>r_error := True\<rparr>)
      else (Some (take n (drop (r_pos r) (r_base r))), r\<lparr>r_pos := r_pos r + n\<rparr>))"

text \<open>\<^verbatim>\<open>read_string(r, 1)\<close>: a length byte, then the bytes. \<open>None\<close> is the null pointer.\<close>

definition read_string :: "reader \<Rightarrow> u8 list option \<times> reader" where
  "read_string r =
     (case read_u8 r of (len, r1) \<Rightarrow>
        if r_error r1 \<or> unat len > 4096 then (None, r1\<lparr>r_error := True\<rparr>)
        else (case read_bytes r1 (unat len) of
                (None, r2) \<Rightarrow> (None, r2\<lparr>r_error := True\<rparr>)
              | (Some src, r2) \<Rightarrow> (Some src, r2)))"

section \<open>Module loading\<close>

text \<open>
  A section parser returns \<^verbatim>\<open>RUNE_OK\<close> with the module and the reader advanced, returns an
  error code, or indexes a table of the module out of range. A \<^verbatim>\<open>for\<close> loop over
  \<open>i < count\<close> that can leave early is \<open>for_each [0..<count]\<close>. The allocations of the
  loader (the tables, the parameter and result lists, the strings) are taken to succeed:
  a failed one makes the parser return \<^verbatim>\<open>RUNE_ERR_OOM\<close>, or the null string, and the load
  fail; it opens no further way for a load to succeed.
\<close>

datatype load_abort = Fail rune_err | Crash undefined_behaviour

fun for_each :: "nat list \<Rightarrow> (nat \<Rightarrow> 's \<Rightarrow> load_abort + 's) \<Rightarrow> 's \<Rightarrow> load_abort + 's" where
  "for_each [] f s = Inr s"
| "for_each (i # is) f s = (case f i s of Inl a \<Rightarrow> Inl a | Inr s1 \<Rightarrow> for_each is f s1)"

type_synonym parse_state = "rune_module \<times> reader"

text \<open>Reading \<open>n\<close> bytes one by one (\<^verbatim>\<open>for (j = 0; j < pc; j++) .. = read_u8(r)\<close>).\<close>

fun read_u8s :: "nat \<Rightarrow> reader \<Rightarrow> u8 list \<times> reader" where
  "read_u8s 0 r = ([], r)"
| "read_u8s (Suc n) r =
     (case read_u8 r of (b, r1) \<Rightarrow> case read_u8s n r1 of (bs, r2) \<Rightarrow> (b # bs, r2))"

definition empty_type :: rune_func_type where
  "empty_type = \<lparr>param_types = [], return_types = []\<rparr>"

definition parse_type_section :: "rune_bytecode_h \<Rightarrow> parse_state \<Rightarrow> load_abort + parse_state" where
  "parse_type_section h st =
     (case st of (m, r) \<Rightarrow>
      case read_u32 r of (count, r1) \<Rightarrow>
        if r_error r1 \<or> count > RUNE_MAX_FUNCS h then Inl (Fail RUNE_ERR_BADMODULE)
        else for_each [0..<unat count]
               (\<lambda>i (m1, ra).
                  case read_u8 ra of (pc, rb) \<Rightarrow>
                  case read_u8 rb of (rc, rc1) \<Rightarrow>
                    if r_error rc1 \<or> unat pc > RUNE_MAX_PARAMS \<or> rc > 1
                    then Inl (Fail RUNE_ERR_BADMODULE)
                    else case read_u8s (unat pc) rc1 of (ps, rd) \<Rightarrow>
                         case read_u8s (unat rc) rd of (rs, re) \<Rightarrow>
                           if r_error re then Inl (Fail RUNE_ERR_BADMODULE)
                           else Inr (m1\<lparr>m_types := (m_types m1)
                                       [i := \<lparr>param_types = ps, return_types = rs\<rparr>]\<rparr>, re))
               (m\<lparr>m_types := replicate (unat count) empty_type\<rparr>, r1))"

definition empty_import :: rune_import where
  "empty_import = \<lparr>imp_module = [], imp_name = [], imp_type_idx = 0\<rparr>"

text \<open>A null string pointer is kept as the empty list; the reader's error flag is set then.\<close>

definition str_or_null :: "u8 list option \<Rightarrow> u8 list" where
  "str_or_null s = (case s of None \<Rightarrow> [] | Some bs \<Rightarrow> bs)"

definition parse_import_section :: "rune_bytecode_h \<Rightarrow> parse_state \<Rightarrow> load_abort + parse_state" where
  "parse_import_section h st =
     (case st of (m, r) \<Rightarrow>
      case read_u32 r of (count, r1) \<Rightarrow>
        if r_error r1 \<or> count > RUNE_MAX_FUNCS h then Inl (Fail RUNE_ERR_BADMODULE)
        else for_each [0..<unat count]
               (\<lambda>i (m1, ra).
                  case read_string ra of (mname, rb) \<Rightarrow>
                  case read_string rb of (fname, rc) \<Rightarrow>
                  case read_u16 rc of (t, rd) \<Rightarrow>
                    if r_error rd then Inl (Fail RUNE_ERR_BADMODULE)
                    else Inr (m1\<lparr>m_imports := (m_imports m1)
                                [i := \<lparr>imp_module = str_or_null mname,
                                       imp_name = str_or_null fname,
                                       imp_type_idx = t\<rparr>]\<rparr>, rd))
               (m\<lparr>m_imports := replicate (unat count) empty_import\<rparr>, r1))"


definition empty_func :: rune_func where
  "empty_func = \<lparr>type_idx = 0, reg_count = 0, local_count = 0, code = [],
                  is_import = False, import_idx = 0\<rparr>"

text \<open>
  \<^verbatim>\<open>parse_func_section\<close>: \<^verbatim>\<open>total = mod->import_count + body_count\<close> is a 32-bit sum,
  the table has \<open>total\<close> entries, and the two loops write \<^verbatim>\<open>mod->funcs[i]\<close> and
  \<^verbatim>\<open>mod->funcs[mod->import_count + i]\<close>. The type index is stored as read.
\<close>

definition parse_func_section :: "rune_bytecode_h \<Rightarrow> parse_state \<Rightarrow> load_abort + parse_state" where
  "parse_func_section h st =
     (case st of (m, r) \<Rightarrow>
      case read_u32 r of (body_count, r1) \<Rightarrow>
        if r_error r1 then Inl (Fail RUNE_ERR_BADMODULE)
        else let total = of_nat (import_count m) + body_count :: u32 in
          if total > RUNE_MAX_FUNCS h then Inl (Fail RUNE_ERR_BADMODULE)
          else
            (case for_each [0..<import_count m]
                    (\<lambda>i m1.
                       if i \<ge> length (m_funcs m1) then Inl (Crash UB_MODULE_INDEX)
                       else Inr (m1\<lparr>m_funcs := (m_funcs m1)
                                   [i := (m_funcs m1 ! i)
                                      \<lparr>is_import := True, import_idx := of_nat i,
                                       type_idx := imp_type_idx (m_imports m1 ! i)\<rparr>]\<rparr>))
                    (m\<lparr>m_funcs := replicate (unat total) empty_func\<rparr>) of
               Inl a \<Rightarrow> Inl a
             | Inr m2 \<Rightarrow>
                 for_each [0..<unat body_count]
                   (\<lambda>i (m3, ra).
                      if import_count m3 + i \<ge> length (m_funcs m3) then Inl (Crash UB_MODULE_INDEX)
                      else case read_u16 ra of (t, rb) \<Rightarrow>
                           case read_u8 rb of (rc, rc1) \<Rightarrow>
                           case read_u8 rc1 of (lc, rd) \<Rightarrow>
                             if r_error rd then Inl (Fail RUNE_ERR_BADMODULE)
                             else Inr (m3\<lparr>m_funcs := (m_funcs m3)
                                         [import_count m3 + i :=
                                            (m_funcs m3 ! (import_count m3 + i))
                                              \<lparr>type_idx := t, reg_count := rc,
                                               local_count := lc\<rparr>]\<rparr>, rd))
                   (m2, r1)))"

definition parse_memory_section :: "rune_bytecode_h \<Rightarrow> parse_state \<Rightarrow> load_abort + parse_state" where
  "parse_memory_section h st =
     (case st of (m, r) \<Rightarrow>
      case read_u16 r of (ini, r1) \<Rightarrow>
      case read_u16 r1 of (mx, r2) \<Rightarrow>
        if r_error r2 then Inl (Fail RUNE_ERR_BADMODULE)
        else Inr (m\<lparr>mem_initial_pages := ini, mem_max_pages := mx, has_memory := True\<rparr>, r2))"

definition empty_global :: rune_global where
  "empty_global = \<lparr>g_type = 0, g_mutable = False, g_value = zero_val\<rparr>"

text \<open>The \<^verbatim>\<open>switch (g->type)\<close> of \<^verbatim>\<open>parse_global_section\<close>; \<open>None\<close> is its \<^verbatim>\<open>default\<close>.\<close>

definition global_init :: "rune_bytecode_h \<Rightarrow> u8 \<Rightarrow> u64 \<Rightarrow> rune_val option" where
  "global_init h t raw =
     (if t = RUNE_TYPE_I32 h then Some (rune_i32 h (ucast raw))
      else if t = RUNE_TYPE_I64 h then Some (rune_i64 h raw)
      else if t = RUNE_TYPE_F32 h then Some (rune_f32 h (ucast raw))
      else if t = RUNE_TYPE_F64 h then Some (rune_f64 h raw)
      else None)"

definition parse_global_section :: "rune_bytecode_h \<Rightarrow> parse_state \<Rightarrow> load_abort + parse_state" where
  "parse_global_section h st =
     (case st of (m, r) \<Rightarrow>
      case read_u32 r of (count, r1) \<Rightarrow>
        if r_error r1 \<or> count > RUNE_MAX_GLOBALS h then Inl (Fail RUNE_ERR_BADMODULE)
        else for_each [0..<unat count]
               (\<lambda>i (m1, ra).
                  case read_u8 ra of (t, rb) \<Rightarrow>
                  case read_u8 rb of (mu, rc) \<Rightarrow>
                  case read_u64 rc of (raw, rd) \<Rightarrow>
                    if r_error rd then Inl (Fail RUNE_ERR_BADMODULE)
                    else (case global_init h t raw of
                            None \<Rightarrow> Inl (Fail RUNE_ERR_BADMODULE)
                          | Some v \<Rightarrow>
                              Inr (m1\<lparr>m_globals := (m_globals m1)
                                     [i := \<lparr>g_type = t, g_mutable = (mu \<noteq> 0), g_value = v\<rparr>]\<rparr>,
                                   rd)))
               (m\<lparr>m_globals := replicate (unat count) empty_global\<rparr>, r1))"

definition empty_export :: rune_export where
  "empty_export = \<lparr>exp_kind = 0, exp_idx = 0, exp_name = []\<rparr>"

text \<open>\<^verbatim>\<open>parse_export_section\<close>: kind, index and name are stored as read.\<close>

definition parse_export_section :: "rune_bytecode_h \<Rightarrow> parse_state \<Rightarrow> load_abort + parse_state" where
  "parse_export_section h st =
     (case st of (m, r) \<Rightarrow>
      case read_u32 r of (count, r1) \<Rightarrow>
        if r_error r1 \<or> count > 65536 then Inl (Fail RUNE_ERR_BADMODULE)
        else for_each [0..<unat count]
               (\<lambda>i (m1, ra).
                  case read_u8 ra of (kd, rb) \<Rightarrow>
                  case read_u32 rb of (ix, rc) \<Rightarrow>
                  case read_string rc of (nm, rd) \<Rightarrow>
                    if r_error rd \<or> nm = None then Inl (Fail RUNE_ERR_BADMODULE)
                    else Inr (m1\<lparr>m_exports := (m_exports m1)
                                [i := \<lparr>exp_kind = kd, exp_idx = ix,
                                       exp_name = str_or_null nm\<rparr>]\<rparr>, rd))
               (m\<lparr>m_exports := replicate (unat count) empty_export\<rparr>, r1))"

text \<open>
  \<^verbatim>\<open>parse_code_section\<close>: \<^verbatim>\<open>expected = mod->func_count - mod->import_count\<close> is a 32-bit
  difference; each body is stored at \<^verbatim>\<open>mod->funcs[mod->import_count + i]\<close>.
\<close>

definition parse_code_section :: "rune_bytecode_h \<Rightarrow> parse_state \<Rightarrow> load_abort + parse_state" where
  "parse_code_section h st =
     (case st of (m, r) \<Rightarrow>
      case read_u32 r of (count, r1) \<Rightarrow>
        let expected = of_nat (func_count m) - of_nat (import_count m) :: u32 in
        if r_error r1 \<or> count \<noteq> expected then Inl (Fail RUNE_ERR_BADMODULE)
        else for_each [0..<unat count]
               (\<lambda>i (m1, ra).
                  case read_u32 ra of (body_size, rb) \<Rightarrow>
                    if r_error rb \<or> body_size mod 4 \<noteq> 0 then Inl (Fail RUNE_ERR_BADMODULE)
                    else (case read_bytes rb (unat body_size) of
                            (None, rc) \<Rightarrow> Inl (Fail RUNE_ERR_BADMODULE)
                          | (Some cd, rc) \<Rightarrow>
                              if import_count m1 + i \<ge> length (m_funcs m1)
                              then Inl (Crash UB_MODULE_INDEX)
                              else Inr (m1\<lparr>m_funcs := (m_funcs m1)
                                          [import_count m1 + i :=
                                             (m_funcs m1 ! (import_count m1 + i))\<lparr>code := cd\<rparr>]\<rparr>,
                                        rc)))
               (m, r1))"

definition empty_seg :: rune_data_seg where
  "empty_seg = \<lparr>seg_offset = 0, seg_data = []\<rparr>"

definition parse_data_section :: "rune_bytecode_h \<Rightarrow> parse_state \<Rightarrow> load_abort + parse_state" where
  "parse_data_section h st =
     (case st of (m, r) \<Rightarrow>
      case read_u32 r of (count, r1) \<Rightarrow>
        if r_error r1 \<or> count > 4096 then Inl (Fail RUNE_ERR_BADMODULE)
        else for_each [0..<unat count]
               (\<lambda>i (m1, ra).
                  case read_u8 ra of (mi, rb) \<Rightarrow>
                  case read_u32 rb of (off, rc) \<Rightarrow>
                  case read_u32 rc of (sz, rd) \<Rightarrow>
                  case read_bytes rd (unat sz) of (dat, re) \<Rightarrow>
                    (case dat of
                       None \<Rightarrow> Inl (Fail RUNE_ERR_BADMODULE)
                     | Some bs \<Rightarrow>
                         if r_error re then Inl (Fail RUNE_ERR_BADMODULE)
                         else Inr (m1\<lparr>m_data_segs := (m_data_segs m1)
                                     [i := \<lparr>seg_offset = off, seg_data = bs\<rparr>]\<rparr>, re)))
               (m\<lparr>m_data_segs := replicate (unat count) empty_seg\<rparr>, r1))"


text \<open>The \<^verbatim>\<open>switch ((rune_sect_id_t)sect_id)\<close>; an unknown section is skipped.\<close>

definition parse_section ::
  "rune_bytecode_h \<Rightarrow> u8 \<Rightarrow> u32 \<Rightarrow> parse_state \<Rightarrow> load_abort + parse_state" where
  "parse_section h sect_id sect_size st =
     (if sect_id = RUNE_SECT_TYPE h then parse_type_section h st
      else if sect_id = RUNE_SECT_IMPORT h then parse_import_section h st
      else if sect_id = RUNE_SECT_FUNC h then parse_func_section h st
      else if sect_id = RUNE_SECT_MEMORY h then parse_memory_section h st
      else if sect_id = RUNE_SECT_GLOBAL h then parse_global_section h st
      else if sect_id = RUNE_SECT_EXPORT h then parse_export_section h st
      else if sect_id = RUNE_SECT_CODE h then parse_code_section h st
      else if sect_id = RUNE_SECT_DATA h then parse_data_section h st
      else Inr (fst st, snd (read_bytes (snd st) (unat sect_size))))"

text \<open>The reader only moves forward over the same bytes.\<close>

definition reader_le :: "reader \<Rightarrow> reader \<Rightarrow> bool" where
  "reader_le r r1 = (r_base r1 = r_base r \<and> r_pos r \<le> r_pos r1)"

lemma reader_le_refl: "reader_le r r"
  by (simp add: reader_le_def)

lemma reader_le_trans: "reader_le r r1 \<Longrightarrow> reader_le r1 r2 \<Longrightarrow> reader_le r r2"
  by (simp add: reader_le_def)

lemma read_u8_le: "read_u8 r = (b, r1) \<Longrightarrow> reader_le r r1"
  by (auto simp: read_u8_def reader_le_def split: if_splits)

lemma read_u16_le: "read_u16 r = (v, r1) \<Longrightarrow> reader_le r r1"
  by (auto simp: read_u16_def split: prod.splits
           dest!: read_u8_le intro: reader_le_trans)

lemma read_u32_le: "read_u32 r = (v, r1) \<Longrightarrow> reader_le r r1"
  by (auto simp: read_u32_def split: prod.splits
           dest!: read_u8_le intro: reader_le_trans)

lemma read_u64_le: "read_u64 r = (v, r1) \<Longrightarrow> reader_le r r1"
  by (auto simp: read_u64_def split: prod.splits
           dest!: read_u32_le intro: reader_le_trans)

lemma read_bytes_le: "read_bytes r n = (v, r1) \<Longrightarrow> reader_le r r1"
  by (auto simp: read_bytes_def reader_le_def split: if_splits)

lemma read_string_le: "read_string r = (v, r1) \<Longrightarrow> reader_le r r1"
  by (auto simp: read_string_def reader_le_def split: prod.splits if_splits option.splits
           dest!: read_u8_le read_bytes_le)

lemma read_u8s_le: "read_u8s n r = (bs, r1) \<Longrightarrow> reader_le r r1"
proof (induction n arbitrary: r bs r1)
  case 0
  then show ?case by (simp add: reader_le_refl)
next
  case (Suc n)
  then show ?case
    by (auto split: prod.splits dest!: read_u8_le intro: reader_le_trans)
qed

lemma for_each_inv:
  assumes "for_each xs f s = Inr s1"
    and "P s"
    and "\<And>i t t1. P t \<Longrightarrow> f i t = Inr t1 \<Longrightarrow> P t1"
  shows "P s1"
  using assms(1,2)
proof (induction xs arbitrary: s)
  case Nil
  then show ?case by simp
next
  case (Cons i xs)
  from Cons.prems(1) obtain t where t: "f i s = Inr t" and rest: "for_each xs f t = Inr s1"
    by (auto split: sum.splits)
  from assms(3)[OF Cons.prems(2) t] have "P t" .
  with Cons.IH rest show ?case by blast
qed

lemma for_each_reader_le:
  assumes "for_each xs f (m, r) = Inr (m1, r1)"
    and "\<And>i ma ra mb rb. f i (ma, ra) = Inr (mb, rb) \<Longrightarrow> reader_le ra rb"
  shows "reader_le r r1"
proof -
  have "(\<lambda>(mm, rr). reader_le r rr) (m1, r1)"
    by (rule for_each_inv[OF assms(1)])
       (auto simp: reader_le_refl dest!: assms(2) intro: reader_le_trans)
  then show ?thesis by simp
qed

lemma parse_type_section_le:
  "parse_type_section h (m, r) = Inr (m1, r1) \<Longrightarrow> reader_le r r1"
  unfolding parse_type_section_def
  apply (clarsimp split: prod.splits if_splits)
  apply (drule read_u32_le)
  apply (erule reader_le_trans)
  apply (erule for_each_reader_le)
  apply (auto split: prod.splits if_splits dest!: read_u8_le read_u8s_le intro: reader_le_trans)
  done

lemma parse_import_section_le:
  "parse_import_section h (m, r) = Inr (m1, r1) \<Longrightarrow> reader_le r r1"
  unfolding parse_import_section_def
  apply (clarsimp split: prod.splits if_splits)
  apply (drule read_u32_le)
  apply (erule reader_le_trans)
  apply (erule for_each_reader_le)
  apply (auto split: prod.splits if_splits dest!: read_string_le read_u16_le intro: reader_le_trans)
  done

lemma parse_func_section_le:
  "parse_func_section h (m, r) = Inr (m1, r1) \<Longrightarrow> reader_le r r1"
  unfolding parse_func_section_def
  apply (clarsimp simp: Let_def split: prod.splits if_splits sum.splits)
  apply (drule read_u32_le)
  apply (erule reader_le_trans)
  apply (erule for_each_reader_le)
  apply (auto split: prod.splits if_splits dest!: read_u8_le read_u16_le intro: reader_le_trans)
  done

lemma parse_memory_section_le:
  "parse_memory_section h (m, r) = Inr (m1, r1) \<Longrightarrow> reader_le r r1"
  unfolding parse_memory_section_def
  by (auto split: prod.splits if_splits dest!: read_u16_le intro: reader_le_trans)

lemma parse_global_section_le:
  "parse_global_section h (m, r) = Inr (m1, r1) \<Longrightarrow> reader_le r r1"
  unfolding parse_global_section_def
  apply (clarsimp split: prod.splits if_splits)
  apply (drule read_u32_le)
  apply (erule reader_le_trans)
  apply (erule for_each_reader_le)
  apply (auto split: prod.splits if_splits option.splits dest!: read_u8_le read_u64_le intro: reader_le_trans)
  done

lemma parse_export_section_le:
  "parse_export_section h (m, r) = Inr (m1, r1) \<Longrightarrow> reader_le r r1"
  unfolding parse_export_section_def
  apply (clarsimp split: prod.splits if_splits)
  apply (drule read_u32_le)
  apply (erule reader_le_trans)
  apply (erule for_each_reader_le)
  apply (auto split: prod.splits if_splits dest!: read_u8_le read_u32_le read_string_le intro: reader_le_trans)
  done

lemma parse_code_section_le:
  "parse_code_section h (m, r) = Inr (m1, r1) \<Longrightarrow> reader_le r r1"
  unfolding parse_code_section_def
  apply (clarsimp simp: Let_def split: prod.splits if_splits)
  apply (drule read_u32_le)
  apply (erule reader_le_trans)
  apply (erule for_each_reader_le)
  apply (auto split: prod.splits if_splits option.splits dest!: read_bytes_le read_u32_le intro: reader_le_trans)
  done

lemma parse_data_section_le:
  "parse_data_section h (m, r) = Inr (m1, r1) \<Longrightarrow> reader_le r r1"
  unfolding parse_data_section_def
  apply (clarsimp split: prod.splits if_splits)
  apply (drule read_u32_le)
  apply (erule reader_le_trans)
  apply (erule for_each_reader_le)
  apply (auto split: prod.splits if_splits option.splits dest!: read_u8_le read_bytes_le read_u32_le intro: reader_le_trans)
  done

lemma parse_section_le:
  "parse_section h sid sz (m, r) = Inr (m1, r1) \<Longrightarrow> reader_le r r1"
  unfolding parse_section_def
  by (auto split: if_splits
           dest: parse_type_section_le parse_import_section_le parse_func_section_le
                 parse_memory_section_le parse_global_section_le parse_export_section_le
                 parse_code_section_le parse_data_section_le
           intro: read_bytes_le[OF surjective_pairing])

text \<open>
  The section loop of \<^verbatim>\<open>rune_module_load\<close>: \<^verbatim>\<open>while (!r.error && r.pos < r.len)\<close>. Every
  round reads at least the identifier byte, so the loop ends.
\<close>

definition skip_remainder :: "nat \<Rightarrow> u32 \<Rightarrow> reader \<Rightarrow> reader" where
  "skip_remainder sect_start sect_size r =
     (let consumed = r_pos r - sect_start
      in if consumed < unat sect_size then snd (read_bytes r (unat sect_size - consumed)) else r)"

function load_sections :: "rune_bytecode_h \<Rightarrow> parse_state \<Rightarrow> load_abort + rune_module" where
  "load_sections h (m, r) =
     (if \<not> r_error r \<and> r_pos r < length (r_base r) then
        (case read_u8 r of (sect_id, r1) \<Rightarrow>
         case read_u32 r1 of (sect_size, r2) \<Rightarrow>
           if r_error r2 then Inl (Fail RUNE_ERR_BADMODULE)
           else (case parse_section h sect_id sect_size (m, r2) of
                   Inl a \<Rightarrow> Inl a
                 | Inr (m1, r3) \<Rightarrow> load_sections h (m1, skip_remainder (r_pos r2) sect_size r3)))
      else if r_error r then Inl (Fail RUNE_ERR_BADMODULE)
      else Inr m)"
  by pat_completeness auto

lemma skip_remainder_le: "reader_le r (skip_remainder a n r)"
  by (auto simp: skip_remainder_def Let_def reader_le_refl intro: read_bytes_le[OF surjective_pairing])

lemma read_u8_advance:
  "r_pos r < length (r_base r) \<Longrightarrow> read_u8 r = (b, r1) \<Longrightarrow>
   r_base r1 = r_base r \<and> r_pos r1 = r_pos r + 1"
  by (auto simp: read_u8_def)

termination load_sections
proof (relation "measure (\<lambda>(h, m, r). length (r_base r) - r_pos r)", goal_cases)
  case 1
  then show ?case by simp
next
  case (2 h m r x y xa ya b xb yb)
  from 2(1,2) have a: "r_base y = r_base r" "r_pos y = r_pos r + 1"
    using read_u8_advance[of r x y] by auto
  from 2(3) have b: "reader_le y ya" using read_u32_le[of y xa ya] by auto
  from 2(5,6) have c: "reader_le ya yb" using parse_section_le[of h x xa m ya xb yb] by auto
  have d: "reader_le yb (skip_remainder (r_pos ya) xa yb)" by (rule skip_remainder_le)
  from a b c d 2(1) show ?case by (auto simp: reader_le_def)
qed


text \<open>
  Modelled from the spec: the layout of \<^verbatim>\<open>rune_file_header_t\<close> in the missing header:
  magic bytes (4), version, flags, reserved and crc32, each a little-endian \<open>u32\<close>.
\<close>

definition RUNE_MAGIC_LEN :: nat where "RUNE_MAGIC_LEN = 4"

definition hdr_version :: "u8 list \<Rightarrow> u32" where
  "hdr_version raw = ucast (le_word (take 4 (drop 4 raw)))"

definition hdr_crc32 :: "u8 list \<Rightarrow> u32" where
  "hdr_crc32 raw = ucast (le_word (take 4 (drop 16 raw)))"

text \<open>The zero-filled module of \<^verbatim>\<open>calloc\<close>, with \<^verbatim>\<open>init_func = -1\<close>.\<close>

definition empty_module :: rune_module where
  "empty_module =
     \<lparr>m_types = [], m_imports = [], m_funcs = [], m_globals = [], m_exports = [],
      mem_initial_pages = 0, mem_max_pages = 0, has_memory = False, m_data_segs = [],
      init_func = - 1\<rparr>"

text \<open>The bytes of \<^verbatim>\<open>"_init"\<close>.\<close>

definition init_name :: "u8 list" where
  "init_name = [0x5F, 0x69, 0x6E, 0x69, 0x74]"

definition find_init :: "rune_bytecode_h \<Rightarrow> rune_module \<Rightarrow> rune_module" where
  "find_init h m =
     (case find_export h m init_name of
        None \<Rightarrow> m
      | Some e \<Rightarrow> m\<lparr>init_func := exp_idx e\<rparr>)"

text \<open>
  \<^verbatim>\<open>rune_module_load\<close>: \<open>Inr m\<close> is the module returned with \<^verbatim>\<open>RUNE_OK\<close>, \<open>Inl (Fail e)\<close>
  the null result with error \<open>e\<close>.
\<close>

definition rune_module_load :: "rune_bytecode_h \<Rightarrow> u8 list \<Rightarrow> load_abort + rune_module" where
  "rune_module_load h raw =
     (if length raw < RUNE_HEADER_SIZE then Inl (Fail RUNE_ERR_BADMODULE)
      else if take RUNE_MAGIC_LEN raw \<noteq> take RUNE_MAGIC_LEN (RUNE_MAGIC h)
      then Inl (Fail RUNE_ERR_BADMAGIC)
      else if hdr_version raw \<noteq> RUNE_BC_VERSION h then Inl (Fail RUNE_ERR_VERSION)
      else if crc32_update 0 (drop RUNE_HEADER_SIZE raw) \<noteq> hdr_crc32 raw
      then Inl (Fail RUNE_ERR_BADMODULE)
      else case load_sections h (empty_module, reader_init (drop RUNE_HEADER_SIZE raw)) of
             Inl a \<Rightarrow> Inl a
           | Inr m \<Rightarrow> Inr (find_init h m))"

section \<open>An instance of the header\<close>

text \<open>
  Concrete runs need concrete numbers for what \<open>rune_bytecode_h\<close> leaves open. The
  instance below is one admissible choice: the magic \<^verbatim>\<open>RUNE\<close>, version 1, the limits
  of the assembler (\<^verbatim>\<open>MAX_FUNCS 4096\<close>, \<^verbatim>\<open>MAX_GLOBALS 512\<close>), and tags, kinds, sections
  and opcodes numbered in the order in which the sources list them. The general theorems
  hold for every header; only the examples use this one.
\<close>

definition opcode_table :: "rune_opcode list" where
  "opcode_table =
     [OP_NOP, OP_TRAP, OP_RET, OP_JMP, OP_JZ, OP_JNZ, OP_JLT, OP_JLE, OP_CALL,
      OP_CALL_HOST, OP_ARG, OP_LDI32, OP_LDI64, OP_LDF32, OP_LDF64, OP_LDTRUE, OP_LDFALSE,
      OP_LDGLOBAL, OP_STGLOBAL, OP_MOV, Int32 OP_ADD32, Int32 OP_SUB32, Int32 OP_MUL32,
      Int32 OP_DIV32, Int32 OP_DIVU32, Int32 OP_REM32, Int32 OP_REMU32, Int32 OP_NEG32,
      Int32 OP_AND32, Int32 OP_OR32, Int32 OP_XOR32, Int32 OP_SHL32, Int32 OP_SHR32,
      Int32 OP_SHRU32, Int32 OP_NOT32, Int32 OP_CLZ32, Int32 OP_CTZ32, Int32 OP_POPCNT32,
      Int64 OP_ADD64, Int64 OP_SUB64, Int64 OP_MUL64, Int64 OP_DIV64, Int64 OP_DIVU64,
      Int64 OP_REM64, Int64 OP_AND64, Int64 OP_OR64, Int64 OP_XOR64, Int64 OP_SHL64,
      Int64 OP_SHR64, Int64 OP_NOT64, Int64 OP_NEG64, Float32 OP_FADD32, Float32 OP_FSUB32,
      Float32 OP_FMUL32, Float32 OP_FDIV32, Float32 OP_FABS32, Float32 OP_FNEG32,
      Float32 OP_FSQRT32, Float32 OP_FMIN32, Float32 OP_FMAX32, Float32 OP_FFLOOR32,
      Float32 OP_FCEIL32, Float32 OP_FROUND32, Float64 OP_FADD64, Float64 OP_FSUB64,
      Float64 OP_FMUL64, Float64 OP_FDIV64, Float64 OP_FABS64, Float64 OP_FNEG64,
      Float64 OP_FSQRT64, Float64 OP_FMIN64, Float64 OP_FMAX64, Float64 OP_FFLOOR64,
      Float64 OP_FCEIL64, Float64 OP_FROUND64, Compare OP_EQ32, Compare OP_NE32,
      Compare OP_LT32, Compare OP_LE32, Compare OP_GT32, Compare OP_GE32, Compare OP_LTU32,
      Compare OP_LEU32, Compare OP_EQ64, Compare OP_NE64, Compare OP_LT64, Compare OP_LE64,
      FCompare OP_FEQ32, FCompare OP_FLT32, FCompare OP_FEQ64, FCompare OP_FLT64,
      Convert OP_I32_TO_I64, Convert OP_I64_TO_I32, Convert OP_U32_TO_I64,
      FConvert OP_I32_TO_F32, FConvert OP_I32_TO_F64, FConvert OP_F32_TO_I32,
      FConvert OP_F64_TO_I32, FConvert OP_F32_TO_F64, FConvert OP_F64_TO_F32,
      FConvert OP_I64_TO_F64, FConvert OP_F64_TO_I64, Convert OP_BOOL_TO_I32,
      Load OP_LOAD8, Load OP_LOAD8S, Load OP_LOAD16, Load OP_LOAD16S, Load OP_LOAD32,
      Load OP_LOAD64, Load OP_LOADF32, Load OP_LOADF64, Store OP_STORE8, Store OP_STORE16,
      Store OP_STORE32, Store OP_STORE64, Store OP_STOREF32, Store OP_STOREF64,
      OP_MEM_SIZE, OP_MEM_GROW, OP_MEM_COPY, OP_MEM_FILL]"

text \<open>The byte that \<open>sample_h\<close> decodes to an opcode: its place in the table.\<close>

definition enc :: "rune_opcode \<Rightarrow> u8" where
  "enc op = of_nat (length (takeWhile (\<lambda>x. x \<noteq> op) opcode_table))"

text \<open>An instruction word and a 32-bit immediate as the bytes of the code section.\<close>

definition ins :: "rune_opcode \<Rightarrow> u8 \<Rightarrow> u8 \<Rightarrow> u8 \<Rightarrow> u8 list" where
  "ins op dst s1 s2 = [enc op, dst, s1, s2]"

definition imm :: "u32 \<Rightarrow> u8 list" where
  "imm w = le_bytes 4 (ucast w)"

definition sample_h :: rune_bytecode_h where
  "sample_h =
     \<lparr>RUNE_MAGIC = [0x52, 0x55, 0x4E, 0x45], RUNE_BC_VERSION = 1,
      RUNE_MAX_FUNCS = 4096, RUNE_MAX_GLOBALS = 512,
      RUNE_TYPE_I32 = 1, RUNE_TYPE_I64 = 2, RUNE_TYPE_F32 = 3, RUNE_TYPE_F64 = 4,
      RUNE_TYPE_BOOL = 5, RUNE_TYPE_PTR = 6, RUNE_TYPE_VOID = 0,
      RUNE_EXPORT_FUNC = 0, RUNE_EXPORT_MEMORY = 1, RUNE_EXPORT_GLOBAL = 2,
      RUNE_SECT_TYPE = 1, RUNE_SECT_IMPORT = 2, RUNE_SECT_FUNC = 3, RUNE_SECT_MEMORY = 4,
      RUNE_SECT_GLOBAL = 5, RUNE_SECT_EXPORT = 6, RUNE_SECT_CODE = 7, RUNE_SECT_DATA = 8,
      opcode_of = (\<lambda>b. if unat b < length opcode_table then opcode_table ! unat b
                        else OP_UNKNOWN)\<rparr>"

text \<open>In the examples every allocation succeeds.\<close>

definition sample_heap :: allocator where
  "sample_heap = (\<lambda>rq. True)"

text \<open>No floating-point instruction occurs in the examples.\<close>

definition sample_fp :: fpu where
  "sample_fp = (\<lambda>op a b. 0)"

text \<open>
  The callbacks of the examples: like \<^verbatim>\<open>mock_noop\<close> of \<^verbatim>\<open>tests/test_vm.c\<close> they leave the
  VM alone and succeed; the callback at address \<open>fn\<close> returns \<open>fn\<close> as an \<open>i32\<close>, which
  tells the callbacks apart.
\<close>

definition sample_env :: host_env where
  "sample_env = (\<lambda>fn ud argc argv r vm. (RUNE_OK, rune_i32 sample_h (of_nat fn), vm))"

text \<open>
  What the examples observe of a run: the undefined behaviour reached, or the error code,
  the value stored through the result pointer, and the \<open>frame_count\<close> and \<open>initialized\<close>
  fields of the VM afterwards.
\<close>

definition observe ::
  "exec_result option \<Rightarrow> (undefined_behaviour + rune_err \<times> rune_val option \<times> u32 \<times> bool) option" where
  "observe res =
     (case res of
        None \<Rightarrow> None
      | Some (Crashed u) \<Rightarrow> Some (Inl u)
      | Some (Returned e r vm) \<Rightarrow> Some (Inr (e, r, frame_count vm, initialized vm)))"

definition final_vm :: "exec_result option \<Rightarrow> rune_vm option" where
  "final_vm res = (case res of Some (Returned e r vm) \<Rightarrow> Some vm | _ \<Rightarrow> None)"


section \<open>Evaluation lemmas\<close>

text \<open>
  Rewriting a concrete run: the bound of \<open>vm_exec\<close> and \<open>interp_loop\<close> given as a numeral,
  the code as a list of bytes, decoded fields as canonical numerals.
\<close>

lemmas vm_exec_numeral = vm_exec.simps(2)[where g="pred_numeral n" for n, folded numeral_eq_Suc]
lemmas vm_exec_1 = vm_exec.simps(2)[where g=0, folded One_nat_def]

lemma interp_loop_unfold:
  "interp_loop h fp env (Suc g) vm k c =
     (if unat (PC vm k) < code_words c then
        (if fst (fuel_tick vm) then Some (Returned RUNE_ERR_FUEL None (snd (fuel_tick vm)))
         else
           (case exec_instr h fp env
                   (set_PC (snd (fuel_tick vm)) k (PC (snd (fuel_tick vm)) k + 1)) k c
                   (opcode_of h (RUNE_INSTR_OP (code_at c (unat (PC (snd (fuel_tick vm)) k)))))
                   (RUNE_INSTR_DST (code_at c (unat (PC (snd (fuel_tick vm)) k))))
                   (RUNE_INSTR_S1 (code_at c (unat (PC (snd (fuel_tick vm)) k))))
                   (RUNE_INSTR_S2 (code_at c (unat (PC (snd (fuel_tick vm)) k)))) of
              Continue vm3 \<Rightarrow> interp_loop h fp env g vm3 k c
            | Done result r vm3 \<Rightarrow> Some (Returned result r (pop_frame vm3))
            | Return result vm3 \<Rightarrow> Some (Returned result None vm3)
            | Undefined u \<Rightarrow> Some (Crashed u)
            | Invoke fi nargs args vm3 \<Rightarrow>
                (case vm_exec h fp env g vm3 fi (uint nargs) args of
                   None \<Rightarrow> None
                 | Some (Crashed u) \<Rightarrow> Some (Crashed u)
                 | Some (Returned result r vm4) \<Rightarrow>
                     if result \<noteq> RUNE_OK then Some (Returned result None (pop_frame vm4))
                     else interp_loop h fp env g
                            (set_R vm4 k
                               (RUNE_INSTR_DST (code_at c (unat (PC (snd (fuel_tick vm)) k))))
                               (ret_or_void h r)) k c)))
      else Some (Returned RUNE_OK (Some (R vm k 0)) (pop_frame vm)))"
proof (cases "fuel_tick vm")
  case (Pair ex vm1)
  show ?thesis
  proof (cases ex)
    case True
    with Pair show ?thesis by simp
  next
    case False
    with Pair have s: "fuel_tick vm = (False, vm1)" by simp
    show ?thesis
      unfolding interp_loop.simps s Let_def fst_conv snd_conv prod.case bool.case if_False
      by (rule refl)
  qed
qed

lemmas interp_loop_num = interp_loop_unfold[where g="pred_numeral n" for n, folded numeral_eq_Suc]
lemmas interp_loop_one = interp_loop_unfold[where g=0, folded One_nat_def]


lemma decode_norm:
  "RUNE_INSTR_OP w = of_nat (unat w mod 256)"
  "RUNE_INSTR_DST w = of_nat (unat w div 256 mod 256)"
  "RUNE_INSTR_S1 w = of_nat (unat w div 65536 mod 256)"
  "RUNE_INSTR_S2 w = of_nat (unat w div 16777216 mod 256)"
  unfolding RUNE_INSTR_OP_def RUNE_INSTR_DST_def RUNE_INSTR_S1_def RUNE_INSTR_S2_def
  by (simp_all add: word_unat_eq_iff unsigned_ucast_eq unat_of_nat unat_drop_bit_eq
        take_bit_eq_mod drop_bit_eq_div unat_div_distrib)

lemma code_at_Cons:
  "code_at (a # b # c # d # rest) n =
     (if n = 0 then ucast (le_word [a, b, c, d]) else code_at rest (n - 1))"
proof (cases n)
  case 0
  then show ?thesis by (simp add: code_at_def)
next
  case (Suc j)
  have "drop (4 + 4 * j) (a # b # c # d # rest) = drop (4 * j) rest"
    by (simp add: numeral_eq_Suc)
  with Suc show ?thesis by (simp add: code_at_def)
qed

lemma code_words_Cons: "code_words (a # b # c # d # rest) = Suc (code_words rest)"
  by (simp add: code_words_def)

lemma code_words_Nil: "code_words [] = 0"
  by (simp add: code_words_def)


lemma code_at_0: "code_at (a # b # c # d # rest) 0 = ucast (le_word [a, b, c, d])"
  by (simp add: code_at_Cons)
lemma code_at_Suc: "code_at (a # b # c # d # rest) (Suc n) = code_at rest n"
  by (simp add: code_at_Cons)
lemma code_at_numeral:
  "code_at (a # b # c # d # rest) (numeral n) = code_at rest (pred_numeral n)"
  by (simp add: code_at_Cons numeral_eq_Suc)

lemma decode_numeral:
  "RUNE_INSTR_OP (numeral n) = of_nat (unat (numeral n :: u32) mod 256)"
  "RUNE_INSTR_DST (numeral n) = of_nat (unat (numeral n :: u32) div 256 mod 256)"
  "RUNE_INSTR_S1 (numeral n) = of_nat (unat (numeral n :: u32) div 65536 mod 256)"
  "RUNE_INSTR_S2 (numeral n) = of_nat (unat (numeral n :: u32) div 16777216 mod 256)"
  "RUNE_INSTR_OP 0 = 0" "RUNE_INSTR_DST 0 = 0" "RUNE_INSTR_S1 0 = 0" "RUNE_INSTR_S2 0 = 0"
  "RUNE_INSTR_OP 1 = 1" "RUNE_INSTR_DST 1 = 0" "RUNE_INSTR_S1 1 = 0" "RUNE_INSTR_S2 1 = 0"
  by (simp_all add: decode_norm)


lemma fold_upt: "fold f [i..<n] s = (if i < n then fold f [i + 1..<n] (f i s) else s)"
  by (simp add: upt_rec[of i n])

lemma as_i32_rune_i32: "as_i32 (rune_i32 h x) = x"
  unfolding as_i32_def rune_i32_def
  by (simp, rule bit_word_eqI) (auto simp: bit_simps dest: bit_imp_le_length)

lemma sample_h_fields:
  "RUNE_TYPE_I32 sample_h = 1" "RUNE_TYPE_I64 sample_h = 2" "RUNE_TYPE_BOOL sample_h = 5"
  "RUNE_TYPE_VOID sample_h = 0" "RUNE_EXPORT_FUNC sample_h = 0"
  "RUNE_MAX_FUNCS sample_h = 4096" "RUNE_MAX_GLOBALS sample_h = 512"
  "RUNE_BC_VERSION sample_h = 1" "RUNE_MAGIC sample_h = [0x52, 0x55, 0x4E, 0x45]"
  "RUNE_SECT_TYPE sample_h = 1" "RUNE_SECT_IMPORT sample_h = 2" "RUNE_SECT_FUNC sample_h = 3"
  "RUNE_SECT_MEMORY sample_h = 4" "RUNE_SECT_GLOBAL sample_h = 5"
  "RUNE_SECT_EXPORT sample_h = 6" "RUNE_SECT_CODE sample_h = 7" "RUNE_SECT_DATA sample_h = 8"
  by (simp_all add: sample_h_def)

lemma sample_enc:
  "enc OP_NOP = 0" "enc OP_TRAP = 1" "enc OP_RET = 2" "enc OP_CALL = 8" "enc OP_CALL_HOST = 9"
  "enc OP_ARG = 10" "enc OP_LDI32 = 11" "enc OP_STGLOBAL = 18" "enc OP_MOV = 19"
  "enc (Int32 OP_DIV32) = 23" "enc (Load OP_LOAD32) = 107" "enc OP_MEM_GROW = 118"
  by (simp_all add: enc_def opcode_table_def)

lemma sample_dec:
  "opcode_of sample_h 0 = OP_NOP" "opcode_of sample_h 1 = OP_TRAP"
  "opcode_of sample_h 2 = OP_RET" "opcode_of sample_h 8 = OP_CALL"
  "opcode_of sample_h 9 = OP_CALL_HOST" "opcode_of sample_h 10 = OP_ARG"
  "opcode_of sample_h 11 = OP_LDI32" "opcode_of sample_h 18 = OP_STGLOBAL"
  "opcode_of sample_h 19 = OP_MOV" "opcode_of sample_h 23 = Int32 OP_DIV32"
  "opcode_of sample_h 107 = Load OP_LOAD32" "opcode_of sample_h 118 = OP_MEM_GROW"
  by (simp_all add: sample_h_def opcode_table_def)

lemma imm_bytes:
  "imm 0 = [0, 0, 0, 0]" "imm 1 = [1, 0, 0, 0]" "imm 7 = [7, 0, 0, 0]"
  "imm 11 = [11, 0, 0, 0]" "imm 22 = [22, 0, 0, 0]"
  by (simp_all add: imm_def le_bytes_def upt_rec[of _ "numeral n" for n] drop_bit_eq_div)

lemmas run_simps =
  vm_exec_numeral vm_exec_1 interp_loop_num interp_loop_one decode_numeral
  code_at_0 code_at_Suc code_at_numeral code_words_Cons code_words_Nil fold_upt
  as_i32_rune_i32 sample_h_fields sample_enc sample_dec imm_bytes
  rune_vm_call_def find_export_def str_eq_def c_str_def func_count_def copy_args_def
  push_frame_def pop_frame_def fuel_tick_def PC_def set_PC_def R_def set_R_def ins_def
  alu_step_def ret_or_void_def Let_def word_le_nat_alt word_less_nat_alt
  with_imm32_def read_imm32_def collect_args_def RUNE_MAX_PARAMS_def RUNE_PAGE_SIZE_def
  observe_def final_vm_def nth_list_update

section \<open>Field preservation\<close>

lemma set_PC_fields:
  "globals (set_PC vm k p) = globals vm" "vm_mod (set_PC vm k p) = vm_mod vm"
  "initialized (set_PC vm k p) = initialized vm" "frame_count (set_PC vm k p) = frame_count vm"
  "cfg (set_PC vm k p) = cfg vm" "memory (set_PC vm k p) = memory vm"
  "memory_pages (set_PC vm k p) = memory_pages vm" "memory_max (set_PC vm k p) = memory_max vm"
  "arg_buf (set_PC vm k p) = arg_buf vm" "arg_count (set_PC vm k p) = arg_count vm"
  "host_fns (set_PC vm k p) = host_fns vm" "length (frames (set_PC vm k p)) = length (frames vm)"
  by (simp_all add: set_PC_def)

lemma R_set_PC: "R (set_PC vm k p) k n = R vm k n"
  by (cases "k < length (frames vm)") (simp_all add: R_def set_PC_def list_update_beyond)

lemma read_imm32_Some:
  "read_imm32 c vm k = Some (v, vm1) \<Longrightarrow>
     unat (PC vm k) < code_words c \<and> v = code_at c (unat (PC vm k)) \<and>
     vm1 = set_PC vm k (PC vm k + 1)"
  by (auto simp: read_imm32_def split: if_splits)


section \<open>The division example of the test suite\<close>

text \<open>
  \<^verbatim>\<open>test_div_by_zero\<close> of \<^verbatim>\<open>tests/test_vm.c\<close>: one function \<open>div: (i32, i32) -> i32\<close>
  with body \<^verbatim>\<open>DIV32 R0, R0, R1; RET\<close>, exported as \<^verbatim>\<open>"div"\<close>, in an initialised VM with
  the default configuration.
\<close>

definition div_name :: "u8 list" where
  "div_name = [0x64, 0x69, 0x76]"

definition div_mod :: rune_module where
  "div_mod = empty_module
     \<lparr>m_types := [\<lparr>param_types = [1, 1], return_types = [1]\<rparr>],
      m_funcs := [\<lparr>type_idx = 0, reg_count = 4, local_count = 0,
                   code = ins (Int32 OP_DIV32) 0 0 1 @ ins OP_RET 0 0 0,
                   is_import = False, import_idx = 0\<rparr>],
      m_exports := [\<lparr>exp_kind = 0, exp_idx = 0, exp_name = div_name\<rparr>]\<rparr>"

definition div_vm :: rune_vm where
  "div_vm = (rune_vm_new div_mod None)\<lparr>initialized := True\<rparr>"

lemma div_mod_fields:
  "m_funcs div_mod = [\<lparr>type_idx = 0, reg_count = 4, local_count = 0,
                        code = ins (Int32 OP_DIV32) 0 0 1 @ ins OP_RET 0 0 0,
                        is_import = False, import_idx = 0\<rparr>]"
  "m_exports div_mod = [\<lparr>exp_kind = 0, exp_idx = 0, exp_name = div_name\<rparr>]"
  "m_imports div_mod = []" "has_memory div_mod = False" "m_globals div_mod = []"
  "init_func div_mod = - 1"
  by (simp_all add: div_mod_def empty_module_def)

lemma div_vm_init:
  "rune_vm_init sample_h sample_fp sample_env sample_heap 1 (rune_vm_new div_mod None) =
     Some (Returned RUNE_OK None div_vm)"
  by (simp add: rune_vm_init_def imports_satisfied_def alloc_memory_def copy_globals_def sample_heap_def
        global_count_def div_vm_def rune_vm_new_def div_mod_fields)

lemma div_vm_fields:
  "initialized div_vm" "vm_mod div_vm = div_mod" "frame_count div_vm = 0"
  "stack_size (cfg div_vm) = 512" "fuel_limit (cfg div_vm) = 0"
  "frames div_vm = replicate 512 empty_frame" "memory div_vm = None"
  by (simp_all add: div_vm_def rune_vm_new_def rune_config_default_def RUNE_CALL_DEPTH_def)

lemma div_10_2:
  "\<exists>vm1. rune_vm_call sample_h sample_fp sample_env 3 div_vm div_name 2
            [rune_i32 sample_h 10, rune_i32 sample_h 2] =
          Some (Returned RUNE_OK (Some (rune_i32 sample_h 5)) vm1) \<and> frame_count vm1 = 0"
  by (simp add: run_simps div_vm_fields div_mod_fields div_name_def)

lemma div_10_0:
  "\<exists>r vm1. rune_vm_call sample_h sample_fp sample_env 3 div_vm div_name 2
            [rune_i32 sample_h 10, rune_i32 sample_h 0] =
          Some (Returned RUNE_ERR_DIVZERO r vm1) \<and> frame_count vm1 = 0"
  by (simp add: run_simps div_vm_fields div_mod_fields div_name_def)

text \<open>
  C6. The claim: \<open>DIV32\<close> of \<open>INT32_MIN\<close> by \<open>-1\<close> yields \<open>INT32_MIN\<close> without undefined
  behaviour. The source tests the divisor for zero only and then evaluates
  \<^verbatim>\<open>R(s1).as.i32 / R(s2).as.i32\<close> on C \<^verbatim>\<open>int32_t\<close> operands: calling \<open>div\<close> with
  \<open>(INT32_MIN, -1)\<close> reaches the quotient that C leaves undefined.
\<close>

theorem div32_int_min_by_minus_one_undefined:
  "rune_vm_call sample_h sample_fp sample_env 3 div_vm div_name 2
     [rune_i32 sample_h INT32_MIN, rune_i32 sample_h (- 1)] =
   Some (Crashed UB_SIGNED_OVERFLOW)"
  by (simp add: run_simps div_vm_fields div_mod_fields div_name_def INT32_MIN_def)

section \<open>Calls\<close>

text \<open>
  A module with two functions and no import: \<open>f\<close>, exported, whose body is
  \<^verbatim>\<open>CALL R0, 7; RET\<close>, and a second function. Function index 7 does not exist.
\<close>

definition f_name :: "u8 list" where
  "f_name = [0x66]"

definition call_mod :: rune_module where
  "call_mod = empty_module
     \<lparr>m_types := [\<lparr>param_types = [], return_types = [1]\<rparr>],
      m_funcs := [\<lparr>type_idx = 0, reg_count = 4, local_count = 0,
                   code = ins OP_CALL 0 0 0 @ imm 7 @ ins OP_RET 0 0 0,
                   is_import = False, import_idx = 0\<rparr>,
                  \<lparr>type_idx = 0, reg_count = 4, local_count = 0,
                   code = ins OP_RET 0 0 0, is_import = False, import_idx = 0\<rparr>],
      m_exports := [\<lparr>exp_kind = 0, exp_idx = 0, exp_name = f_name\<rparr>]\<rparr>"

definition call_vm :: rune_vm where
  "call_vm = (rune_vm_new call_mod None)\<lparr>initialized := True\<rparr>"

lemma call_mod_fields:
  "m_funcs call_mod =
     [\<lparr>type_idx = 0, reg_count = 4, local_count = 0,
       code = ins OP_CALL 0 0 0 @ imm 7 @ ins OP_RET 0 0 0,
       is_import = False, import_idx = 0\<rparr>,
      \<lparr>type_idx = 0, reg_count = 4, local_count = 0,
       code = ins OP_RET 0 0 0, is_import = False, import_idx = 0\<rparr>]"
  "m_exports call_mod = [\<lparr>exp_kind = 0, exp_idx = 0, exp_name = f_name\<rparr>]"
  "m_imports call_mod = []" "has_memory call_mod = False" "m_globals call_mod = []"
  "init_func call_mod = - 1"
  by (simp_all add: call_mod_def empty_module_def)

lemma call_vm_init:
  "rune_vm_init sample_h sample_fp sample_env sample_heap 1 (rune_vm_new call_mod None) =
     Some (Returned RUNE_OK None call_vm)"
  by (simp add: rune_vm_init_def imports_satisfied_def alloc_memory_def copy_globals_def sample_heap_def
        global_count_def call_vm_def rune_vm_new_def call_mod_fields)

lemma call_vm_fields:
  "initialized call_vm" "vm_mod call_vm = call_mod" "frame_count call_vm = 0"
  "stack_size (cfg call_vm) = 512" "fuel_limit (cfg call_vm) = 0"
  "frames call_vm = replicate 512 empty_frame" "memory call_vm = None"
  "arg_count call_vm = 0" "arg_buf call_vm = replicate 16 zero_val"
  by (simp_all add: call_vm_def rune_vm_new_def rune_config_default_def RUNE_CALL_DEPTH_def
        RUNE_MAX_PARAMS_def)

text \<open>Calling \<open>f\<close> from the host reaches the lookup of function 7 in a table of two.\<close>

lemma call_7_from_guest:
  "observe (rune_vm_call sample_h sample_fp sample_env 3 call_vm f_name 0 []) =
     Some (Inl UB_FUNC_INDEX)"
  by (simp add: observe_def run_simps call_vm_fields call_mod_fields f_name_def
        with_imm32_def read_imm32_def collect_args_def RUNE_MAX_PARAMS_def
        word_le_nat_alt word_less_nat_alt)



section \<open>Globals\<close>

text \<open>
  C10. \<open>STGLOBAL\<close> with an index below the module's global count stores \<^verbatim>\<open>R(s1)\<close> in the
  VM's global of that index. Nothing is assumed of the \<open>g_mutable\<close> flag that the module
  declares for the global: the case never reads it.
\<close>

theorem stglobal_ignores_mutable:
  assumes "read_imm32 c vm k = Some (gi, vm1)"
    and "unat gi < global_count (vm_mod vm)"
    and "unat gi < length (globals vm)"
  shows "exec_instr h fp env vm k c OP_STGLOBAL dst s1 s2 =
           Continue (vm1\<lparr>globals := (globals vm)[unat gi := R vm k s1]\<rparr>)"
proof -
  from assms(1) have vm1: "vm1 = set_PC vm k (PC vm k + 1)"
    by (simp add: read_imm32_Some)
  with assms show ?thesis
    by (simp add: with_imm32_def set_PC_fields R_set_PC)
qed


text \<open>
  A module with one global declared immutable, initial value 5, and an exported function
  \<open>set\<close> with body \<^verbatim>\<open>STGLOBAL R0, 0; RET\<close>.
\<close>

definition set_name :: "u8 list" where
  "set_name = [0x73, 0x65, 0x74]"

definition glob_mod :: rune_module where
  "glob_mod = empty_module
     \<lparr>m_types := [\<lparr>param_types = [1], return_types = [1]\<rparr>],
      m_funcs := [\<lparr>type_idx = 0, reg_count = 4, local_count = 0,
                   code = ins OP_STGLOBAL 0 0 0 @ imm 0 @ ins OP_RET 0 0 0,
                   is_import = False, import_idx = 0\<rparr>],
      m_globals := [\<lparr>g_type = 1, g_mutable = False, g_value = rune_i32 sample_h 5\<rparr>],
      m_exports := [\<lparr>exp_kind = 0, exp_idx = 0, exp_name = set_name\<rparr>]\<rparr>"

definition glob_vm :: rune_vm where
  "glob_vm = (rune_vm_new glob_mod None)
     \<lparr>globals := [rune_i32 sample_h 5], initialized := True\<rparr>"

lemma glob_mod_fields:
  "m_funcs glob_mod =
     [\<lparr>type_idx = 0, reg_count = 4, local_count = 0,
       code = ins OP_STGLOBAL 0 0 0 @ imm 0 @ ins OP_RET 0 0 0,
       is_import = False, import_idx = 0\<rparr>]"
  "m_exports glob_mod = [\<lparr>exp_kind = 0, exp_idx = 0, exp_name = set_name\<rparr>]"
  "m_imports glob_mod = []" "has_memory glob_mod = False"
  "m_globals glob_mod = [\<lparr>g_type = 1, g_mutable = False, g_value = rune_i32 sample_h 5\<rparr>]"
  "init_func glob_mod = - 1"
  by (simp_all add: glob_mod_def empty_module_def)

lemma glob_vm_init:
  "rune_vm_init sample_h sample_fp sample_env sample_heap 1 (rune_vm_new glob_mod None) =
     Some (Returned RUNE_OK None glob_vm)"
  by (simp add: rune_vm_init_def imports_satisfied_def alloc_memory_def copy_globals_def sample_heap_def
        global_count_def glob_vm_def rune_vm_new_def glob_mod_fields)

lemma glob_vm_fields:
  "initialized glob_vm" "vm_mod glob_vm = glob_mod" "frame_count glob_vm = 0"
  "stack_size (cfg glob_vm) = 512" "fuel_limit (cfg glob_vm) = 0"
  "frames glob_vm = replicate 512 empty_frame" "memory glob_vm = None"
  "arg_count glob_vm = 0" "arg_buf glob_vm = replicate 16 zero_val"
  "globals glob_vm = [rune_i32 sample_h 5]"
  by (simp_all add: glob_vm_def rune_vm_new_def rune_config_default_def RUNE_CALL_DEPTH_def
        RUNE_MAX_PARAMS_def)

text \<open>Calling \<open>set(42)\<close> succeeds and leaves 42 in the global declared immutable.\<close>

lemma set_immutable_global:
  "observe (rune_vm_call sample_h sample_fp sample_env 3 glob_vm set_name 1
              [rune_i32 sample_h 42]) =
     Some (Inr (RUNE_OK, Some (rune_i32 sample_h 42), 0, True)) \<and>
   map_option globals
     (final_vm (rune_vm_call sample_h sample_fp sample_env 3 glob_vm set_name 1
                  [rune_i32 sample_h 42])) =
     Some [rune_i32 sample_h 42]"
  by (simp add: run_simps final_vm_def glob_vm_fields glob_mod_fields set_name_def
        global_count_def)

text \<open>The state of that call when the \<open>STGLOBAL\<close> word has been fetched.\<close>

definition glob_st :: rune_vm where
  "glob_st = set_PC (set_R (push_frame glob_vm 0) 0 0 (rune_i32 sample_h 42)) 0 1"

theorem stglobal_ignores_mutable_witness:
  "read_imm32 (ins OP_STGLOBAL 0 0 0 @ imm 0 @ ins OP_RET 0 0 0) glob_st 0 =
     Some (0, set_PC glob_st 0 2) \<and>
   unat (0 :: u32) < global_count (vm_mod glob_st) \<and>
   unat (0 :: u32) < length (globals glob_st) \<and>
   \<not> g_mutable (m_globals (vm_mod glob_st) ! 0) \<and>
   exec_instr sample_h sample_fp sample_env glob_st 0
       (ins OP_STGLOBAL 0 0 0 @ imm 0 @ ins OP_RET 0 0 0) OP_STGLOBAL 0 0 0 =
     Continue ((set_PC glob_st 0 2)\<lparr>globals := [rune_i32 sample_h 42]\<rparr>)"
proof -
  have a: "read_imm32 (ins OP_STGLOBAL 0 0 0 @ imm 0 @ ins OP_RET 0 0 0) glob_st 0 =
             Some (0, set_PC glob_st 0 2)"
    by (simp add: glob_st_def run_simps glob_vm_fields imm_bytes)
  have b: "unat (0 :: u32) < global_count (vm_mod glob_st)"
    by (simp add: glob_st_def set_PC_fields set_R_def push_frame_def glob_vm_fields
          global_count_def glob_mod_fields)
  have c: "unat (0 :: u32) < length (globals glob_st)"
    by (simp add: glob_st_def set_PC_fields set_R_def push_frame_def glob_vm_fields)
  have d: "\<not> g_mutable (m_globals (vm_mod glob_st) ! 0)"
    by (simp add: glob_st_def set_PC_fields set_R_def push_frame_def glob_vm_fields
          glob_mod_fields)
  have e: "(globals glob_st)[unat (0 :: u32) := R glob_st 0 0] = [rune_i32 sample_h 42]"
    by (simp add: glob_st_def set_PC_def set_R_def R_def push_frame_def glob_vm_fields)
  from stglobal_ignores_mutable[OF a b c, of sample_h sample_fp sample_env 0 0 0] a b c d e
  show ?thesis by simp
qed

section \<open>Memory examples\<close>

text \<open>
  A module with one page of memory and a maximum of two (as \<^verbatim>\<open>rune_asm_memory(a, 1, 2)\<close>
  in \<^verbatim>\<open>test_memory\<close>) and two exported functions: \<open>peek\<close> with body
  \<^verbatim>\<open>LOAD32 R0, [R0 + 0]; RET\<close> and \<open>grow\<close> with body \<^verbatim>\<open>MEM_GROW R0, R0; RET\<close>.
\<close>

definition peek_name :: "u8 list" where
  "peek_name = [0x70, 0x65, 0x65, 0x6B]"

definition grow_name :: "u8 list" where
  "grow_name = [0x67, 0x72, 0x6F, 0x77]"

definition mem_mod :: rune_module where
  "mem_mod = empty_module
     \<lparr>m_types := [\<lparr>param_types = [1], return_types = [1]\<rparr>],
      m_funcs := [\<lparr>type_idx = 0, reg_count = 4, local_count = 0,
                   code = ins (Load OP_LOAD32) 0 0 0 @ imm 0 @ ins OP_RET 0 0 0,
                   is_import = False, import_idx = 0\<rparr>,
                  \<lparr>type_idx = 0, reg_count = 4, local_count = 0,
                   code = ins OP_MEM_GROW 0 0 0 @ ins OP_RET 0 0 0,
                   is_import = False, import_idx = 0\<rparr>],
      m_exports := [\<lparr>exp_kind = 0, exp_idx = 0, exp_name = peek_name\<rparr>,
                    \<lparr>exp_kind = 0, exp_idx = 1, exp_name = grow_name\<rparr>],
      mem_initial_pages := 1, mem_max_pages := 2, has_memory := True\<rparr>"

definition mem_vm :: rune_vm where
  "mem_vm = (rune_vm_new mem_mod None)
     \<lparr>memory := Some \<lparr>mem_len = 131072, mem_bytes = (\<lambda>x. 0)\<rparr>,
      memory_pages := 1, memory_max := 2, initialized := True\<rparr>"

lemma mem_mod_fields:
  "m_funcs mem_mod =
     [\<lparr>type_idx = 0, reg_count = 4, local_count = 0,
       code = ins (Load OP_LOAD32) 0 0 0 @ imm 0 @ ins OP_RET 0 0 0,
       is_import = False, import_idx = 0\<rparr>,
      \<lparr>type_idx = 0, reg_count = 4, local_count = 0,
       code = ins OP_MEM_GROW 0 0 0 @ ins OP_RET 0 0 0,
       is_import = False, import_idx = 0\<rparr>]"
  "m_exports mem_mod = [\<lparr>exp_kind = 0, exp_idx = 0, exp_name = peek_name\<rparr>,
                        \<lparr>exp_kind = 0, exp_idx = 1, exp_name = grow_name\<rparr>]"
  "m_imports mem_mod = []" "has_memory mem_mod" "m_globals mem_mod = []"
  "init_func mem_mod = - 1" "mem_initial_pages mem_mod = 1" "mem_max_pages mem_mod = 2"
  "m_data_segs mem_mod = []"
  by (simp_all add: mem_mod_def empty_module_def)

lemma mem_vm_init:
  "rune_vm_init sample_h sample_fp sample_env sample_heap 1 (rune_vm_new mem_mod None) =
     Some (Returned RUNE_OK None mem_vm)"
  by (simp add: rune_vm_init_def imports_satisfied_def alloc_memory_def copy_globals_def sample_heap_def
        global_count_def mem_vm_def rune_vm_new_def mem_mod_fields RUNE_PAGE_SIZE_def
        rune_config_default_def)

lemma mem_vm_fields:
  "initialized mem_vm" "vm_mod mem_vm = mem_mod" "frame_count mem_vm = 0"
  "stack_size (cfg mem_vm) = 512" "fuel_limit (cfg mem_vm) = 0"
  "frames mem_vm = replicate 512 empty_frame"
  "memory mem_vm = Some \<lparr>mem_len = 131072, mem_bytes = (\<lambda>x. 0)\<rparr>"
  "memory_pages mem_vm = 1" "memory_max mem_vm = 2"
  "arg_count mem_vm = 0" "arg_buf mem_vm = replicate 16 zero_val"
  by (simp_all add: mem_vm_def rune_vm_new_def rune_config_default_def RUNE_CALL_DEPTH_def
        RUNE_MAX_PARAMS_def)

lemmas mem_simps = run_simps mem_vm_fields mem_mod_fields peek_name_def grow_name_def
  mem_check_def mem_read_def mem_write_def final_vm_def

lemma peek_in_range:
  "observe (rune_vm_call sample_h sample_fp sample_env 3 mem_vm peek_name 1
              [rune_i32 sample_h 100]) =
     Some (Inr (RUNE_OK, Some (rune_i32 sample_h 0), 0, True))"
  by (simp add: mem_simps upt_rec[of _ "numeral n" for n])

lemma grow_by_one:
  "observe (rune_vm_call sample_h sample_fp sample_env 3 mem_vm grow_name 1
              [rune_i32 sample_h 1]) =
     Some (Inr (RUNE_OK, Some (rune_i32 sample_h 1), 0, True)) \<and>
   map_option memory_pages
     (final_vm (rune_vm_call sample_h sample_fp sample_env 3 mem_vm grow_name 1
                  [rune_i32 sample_h 1])) = Some 2"
  by (simp add: mem_simps)

lemma grow_by_two:
  "observe (rune_vm_call sample_h sample_fp sample_env 3 mem_vm grow_name 1
              [rune_i32 sample_h 2]) =
     Some (Inr (RUNE_OK, Some (rune_i32 sample_h (- 1)), 0, True)) \<and>
   map_option memory_pages
     (final_vm (rune_vm_call sample_h sample_fp sample_env 3 mem_vm grow_name 1
                  [rune_i32 sample_h 2])) = Some 1"
  by (simp add: mem_simps)

text \<open>
  C2. The claim: \<open>MEM_GROW\<close> by \<open>k\<close> pages either adds exactly \<open>k\<close> pages and returns
  the previous count, or changes nothing and returns \<open>-1\<close>. With one page of two and
  \<open>k = 0xFFFFFFFF\<close> the 32-bit sum \<^verbatim>\<open>vm->memory_pages + req\<close> wraps to 0, passes the test
  against \<open>memory_max\<close>, and the \<^verbatim>\<open>memset\<close> of \<^verbatim>\<open>req * RUNE_PAGE_SIZE\<close> bytes from the end of
  page 0 leaves the allocated two pages.
\<close>

theorem mem_grow_wraps:
  "observe (rune_vm_call sample_h sample_fp sample_env 3 mem_vm grow_name 1
              [rune_i32 sample_h (- 1)]) =
     Some (Inl UB_MEMORY_RANGE)"
  by (simp add: mem_simps)

text \<open>
  C8. The claim: \<open>frame_count\<close> is the same before and after every \<open>rune_vm_call\<close>,
  whatever the result. \<open>peek(65536)\<close> reads past the one page: \<^verbatim>\<open>MEM_CHECK\<close> executes
  \<^verbatim>\<open>return RUNE_ERR_BOUNDS\<close> inside \<open>vm_exec\<close>, not \<^verbatim>\<open>goto done\<close>, so the frame pushed on
  entry is never popped: the call starts with \<open>frame_count = 0\<close> and ends with 1.
\<close>

theorem bounds_trap_leaks_frame:
  "frame_count mem_vm = 0 \<and>
   observe (rune_vm_call sample_h sample_fp sample_env 3 mem_vm peek_name 1
              [rune_i32 sample_h 65536]) =
     Some (Inr (RUNE_ERR_BOUNDS, Some (rune_void sample_h), 1, True))"
  by (simp add: mem_simps)

section \<open>Argument staging\<close>

text \<open>
  A module with two functions: \<open>f\<close>, exported, stages register 1 (holding 11) into
  slot 2 and register 2 (holding 22) into slot 0 and calls \<open>g\<close>; \<open>g\<close> returns its third
  argument:
  \<^verbatim>\<open>f: LDI32 R1, 11; LDI32 R2, 22; ARG 2, R1; ARG 0, R2; CALL R0, g; RET\<close> and
  \<^verbatim>\<open>g: MOV R0, R2; RET\<close>.
\<close>

definition arg_mod :: rune_module where
  "arg_mod = empty_module
     \<lparr>m_types := [\<lparr>param_types = [], return_types = [1]\<rparr>],
      m_funcs := [\<lparr>type_idx = 0, reg_count = 4, local_count = 0,
                   code = ins OP_LDI32 1 0 0 @ imm 11 @ ins OP_LDI32 2 0 0 @ imm 22 @
                          ins OP_ARG 2 1 0 @ ins OP_ARG 0 2 0 @
                          ins OP_CALL 0 0 0 @ imm 1 @ ins OP_RET 0 0 0,
                   is_import = False, import_idx = 0\<rparr>,
                  \<lparr>type_idx = 0, reg_count = 4, local_count = 0,
                   code = ins OP_MOV 0 2 0 @ ins OP_RET 0 0 0,
                   is_import = False, import_idx = 0\<rparr>],
      m_exports := [\<lparr>exp_kind = 0, exp_idx = 0, exp_name = f_name\<rparr>]\<rparr>"

definition arg_vm :: rune_vm where
  "arg_vm = (rune_vm_new arg_mod None)\<lparr>initialized := True\<rparr>"

lemma arg_mod_fields:
  "m_funcs arg_mod =
     [\<lparr>type_idx = 0, reg_count = 4, local_count = 0,
       code = ins OP_LDI32 1 0 0 @ imm 11 @ ins OP_LDI32 2 0 0 @ imm 22 @
              ins OP_ARG 2 1 0 @ ins OP_ARG 0 2 0 @
              ins OP_CALL 0 0 0 @ imm 1 @ ins OP_RET 0 0 0,
       is_import = False, import_idx = 0\<rparr>,
      \<lparr>type_idx = 0, reg_count = 4, local_count = 0,
       code = ins OP_MOV 0 2 0 @ ins OP_RET 0 0 0,
       is_import = False, import_idx = 0\<rparr>]"
  "m_exports arg_mod = [\<lparr>exp_kind = 0, exp_idx = 0, exp_name = f_name\<rparr>]"
  "m_imports arg_mod = []" "has_memory arg_mod = False" "m_globals arg_mod = []"
  "init_func arg_mod = - 1"
  by (simp_all add: arg_mod_def empty_module_def)

lemma arg_vm_init:
  "rune_vm_init sample_h sample_fp sample_env sample_heap 1 (rune_vm_new arg_mod None) =
     Some (Returned RUNE_OK None arg_vm)"
  by (simp add: rune_vm_init_def imports_satisfied_def alloc_memory_def copy_globals_def sample_heap_def
        global_count_def arg_vm_def rune_vm_new_def arg_mod_fields)

lemma arg_vm_fields:
  "initialized arg_vm" "vm_mod arg_vm = arg_mod" "frame_count arg_vm = 0"
  "stack_size (cfg arg_vm) = 512" "fuel_limit (cfg arg_vm) = 0"
  "frames arg_vm = replicate 512 empty_frame" "memory arg_vm = None"
  "arg_count arg_vm = 0" "arg_buf arg_vm = replicate 16 zero_val"
  by (simp_all add: arg_vm_def rune_vm_new_def rune_config_default_def RUNE_CALL_DEPTH_def
        RUNE_MAX_PARAMS_def)

text \<open>
  C3. The claim: \<open>ARG\<close> with \<open>dst = slot\<close> and \<open>s1 = reg\<close> writes \<^verbatim>\<open>R[s1]\<close> into that slot
  and changes no other slot, and the next call passes the staged values. The case first
  executes \<^verbatim>\<open>if (s1 < RUNE_MAX_PARAMS) vm->arg_buf[s1] = R(s2 ? s2 : dst)\<close>, which its own
  comment disowns (\<^verbatim>\<open>Actually: ARG <slot> <reg> uses dst=slot, s1=reg\<close>): \<^verbatim>\<open>ARG 0, R2\<close>
  overwrites slot 2, staged just before with 11, by \<^verbatim>\<open>R0\<close>. \<open>g\<close> receives the cleared
  register of \<open>f\<close> as its third argument, not 11.
\<close>

theorem arg_overwrites_other_slot:
  "observe (rune_vm_call sample_h sample_fp sample_env 9 arg_vm f_name 0 []) =
     Some (Inr (RUNE_OK, Some zero_val, 0, True)) \<and>
   zero_val \<noteq> rune_i32 sample_h 11"
proof -
  have "observe (rune_vm_call sample_h sample_fp sample_env 9 arg_vm f_name 0 []) =
     Some (Inr (RUNE_OK, Some zero_val, 0, True))"
    by (simp add: run_simps arg_vm_fields arg_mod_fields f_name_def)
  moreover have "zero_val \<noteq> rune_i32 sample_h 11"
    by (simp add: zero_val_def rune_i32_def)
  ultimately show ?thesis by simp
qed


section \<open>Host registration\<close>

lemma find_append_first:
  "find P (xs @ ys) = (case find P xs of None \<Rightarrow> find P ys | Some x \<Rightarrow> Some x)"
  by (induction xs) simp_all

lemma c_str_idem: "c_str (c_str s) = c_str s"
  by (simp add: c_str_def)

lemma str_eq_c_str: "str_eq (c_str a) b = str_eq a b"
  by (simp add: str_eq_def c_str_idem)

lemma rune_vm_register_fields:
  "\<not> initialized vm \<Longrightarrow>
     host_fns (snd (rune_vm_register vm mn nm fn ud)) =
       host_fns vm @ [\<lparr>he_module = c_str mn, he_name = c_str nm, he_fn = fn, he_userdata = ud\<rparr>] \<and>
     vm_mod (snd (rune_vm_register vm mn nm fn ud)) = vm_mod vm \<and>
     initialized (snd (rune_vm_register vm mn nm fn ud)) = initialized vm \<and>
     fst (rune_vm_register vm mn nm fn ud) = RUNE_OK"
  by (simp add: rune_vm_register_def Let_def)

text \<open>
  A registration never changes how an import that already resolves is resolved: the new
  entry is appended, and the table is searched from its first entry.
\<close>

lemma register_keeps_resolution:
  assumes "vm_resolve_host vm i = Some e"
  shows "vm_resolve_host (snd (rune_vm_register vm mn nm fn ud)) i = Some e"
proof (cases "initialized vm")
  case True
  with assms show ?thesis by (simp add: rune_vm_register_def)
next
  case False
  from rune_vm_register_fields[OF False, of mn nm fn ud] assms show ?thesis
    by (auto simp: vm_resolve_host_def find_append_first split: if_splits)
qed

text \<open>A sequence of calls of \<^verbatim>\<open>rune_vm_register\<close>, each with its module, name, callback and user pointer.\<close>

fun register_all :: "rune_vm \<Rightarrow> (u8 list \<times> u8 list \<times> nat \<times> nat) list \<Rightarrow> rune_vm" where
  "register_all vm [] = vm"
| "register_all vm ((mn, nm, fn, ud) # rs) =
     register_all (snd (rune_vm_register vm mn nm fn ud)) rs"

lemma register_all_keeps_resolution:
  "vm_resolve_host vm i = Some e \<Longrightarrow> vm_resolve_host (register_all vm rs) i = Some e"
proof (induction rs arbitrary: vm)
  case Nil
  then show ?case by simp
next
  case (Cons r rs)
  obtain mn nm fn ud where r: "r = (mn, nm, fn, ud)" by (cases r)
  from Cons.IH[OF register_keeps_resolution[OF Cons.prems, of mn nm fn ud]] r
  show ?case by simp
qed

lemma rune_vm_register_mod: "vm_mod (snd (rune_vm_register vm mn nm fn ud)) = vm_mod vm"
  by (simp add: rune_vm_register_def Let_def)

lemma register_all_mod: "vm_mod (register_all vm rs) = vm_mod vm"
proof (induction rs arbitrary: vm)
  case Nil
  then show ?case by simp
next
  case (Cons r rs)
  obtain mn nm fn ud where r: "r = (mn, nm, fn, ud)" by (cases r)
  from Cons.IH[of "snd (rune_vm_register vm mn nm fn ud)"] r show ?case
    by (simp add: rune_vm_register_mod)
qed

text \<open>
  After the registration of the pair of an import that no earlier entry matches, and
  whatever is registered later, the import resolves to the entry of that registration.
\<close>

lemma resolves_to_first_registration:
  assumes "\<not> initialized vm"
    and "unat i < import_count (vm_mod vm)"
    and "vm_resolve_host vm i = None"
    and "str_eq mn (imp_module (m_imports (vm_mod vm) ! unat i))"
    and "str_eq nm (imp_name (m_imports (vm_mod vm) ! unat i))"
  shows "vm_resolve_host (register_all (snd (rune_vm_register vm mn nm fn1 ud1)) later) i
         = Some \<lparr>he_module = c_str mn, he_name = c_str nm, he_fn = fn1, he_userdata = ud1\<rparr>"
proof -
  let ?vm1 = "snd (rune_vm_register vm mn nm fn1 ud1)"
  let ?e1 = "\<lparr>he_module = c_str mn, he_name = c_str nm, he_fn = fn1, he_userdata = ud1\<rparr>"
  note f1 = rune_vm_register_fields[OF assms(1), of mn nm fn1 ud1]
  have m: "host_matches (m_imports (vm_mod vm) ! unat i) ?e1"
    using assms(4,5) by (simp add: host_matches_def str_eq_c_str)
  from assms(2,3) have "find (host_matches (m_imports (vm_mod vm) ! unat i)) (host_fns vm) = None"
    by (simp add: vm_resolve_host_def)
  with f1 m assms(2) have "vm_resolve_host ?vm1 i = Some ?e1"
    by (simp add: vm_resolve_host_def find_append_first)
  from register_all_keeps_resolution[OF this] show ?thesis .
qed

lemma vm_resolve_host_cong:
  "host_fns a = host_fns b \<Longrightarrow> vm_mod a = vm_mod b \<Longrightarrow>
     vm_resolve_host a i = vm_resolve_host b i"
  by (simp add: vm_resolve_host_def)

text \<open>
  C7, as the source has it. The pair of import \<open>i\<close>, which no earlier entry of the table
  matches, is registered with callback \<open>fn1\<close> and user pointer \<open>ud1\<close>; then the
  registrations \<open>later\<close> follow, of the same pair or of others, in any number. In every
  later state \<open>vmx\<close> of that VM (same module, same table) a guest call of the import
  runs \<open>fn1\<close> with \<open>ud1\<close>: the instruction \<open>CALL_HOST i\<close> passes the staged arguments to
  it and stores its result in \<open>R[dst]\<close> or leaves with its error code, and so does a call
  of a function that is import \<open>i\<close> (\<open>CALL\<close> of its index, or \<open>rune_vm_call\<close> of its
  export). No callback registered later for the pair is entered.
\<close>

theorem first_registration_wins:
  assumes "\<not> initialized vm"
    and "unat i < import_count (vm_mod vm)"
    and "vm_resolve_host vm i = None"
    and "str_eq mn (imp_module (m_imports (vm_mod vm) ! unat i))"
    and "str_eq nm (imp_name (m_imports (vm_mod vm) ! unat i))"
    and "host_fns vmx = host_fns (register_all (snd (rune_vm_register vm mn nm fn1 ud1)) later)"
    and "vm_mod vmx = vm_mod vm"
  shows "(\<forall>vm1 nargs args vm2.
            read_imm32 c vmx k = Some (i, vm1) \<and> collect_args vm1 = Some (nargs, args, vm2) \<longrightarrow>
            exec_instr h fp env vmx k c OP_CALL_HOST dst s1 s2 =
              (case env fn1 ud1 (uint nargs) args (rune_void h) vm2 of
                 (result, ret, vm3) \<Rightarrow>
                   if result \<noteq> RUNE_OK then Done result None vm3
                   else Continue (set_R vm3 k dst ret))) \<and>
         (\<forall>fi.
            initialized vmx \<and> frame_count vmx < stack_size (cfg vmx) \<and>
            unat fi < func_count (vm_mod vmx) \<and>
            is_import (m_funcs (vm_mod vmx) ! unat fi) \<and>
            import_idx (m_funcs (vm_mod vmx) ! unat fi) = i \<longrightarrow>
            vm_exec h fp env (Suc g) vmx fi argc argv =
              (case env fn1 ud1 argc argv (rune_void h) vmx of
                 (err, r, vm1) \<Rightarrow> Some (Returned err (Some r) vm1)))"
proof -
  let ?vm2 = "register_all (snd (rune_vm_register vm mn nm fn1 ud1)) later"
  let ?e1 = "\<lparr>he_module = c_str mn, he_name = c_str nm, he_fn = fn1, he_userdata = ud1\<rparr>"
  have v2: "vm_mod ?vm2 = vm_mod vm"
    by (simp add: register_all_mod rune_vm_register_mod)
  from resolves_to_first_registration[OF assms(1-5), of fn1 ud1 later]
    vm_resolve_host_cong[OF assms(6), of i] assms(7) v2
  have rx: "vm_resolve_host vmx i = Some ?e1" by simp
  have a: "\<forall>vm1 nargs args vm2.
            read_imm32 c vmx k = Some (i, vm1) \<and> collect_args vm1 = Some (nargs, args, vm2) \<longrightarrow>
            exec_instr h fp env vmx k c OP_CALL_HOST dst s1 s2 =
              (case env fn1 ud1 (uint nargs) args (rune_void h) vm2 of
                 (result, ret, vm3) \<Rightarrow>
                   if result \<noteq> RUNE_OK then Done result None vm3
                   else Continue (set_R vm3 k dst ret))"
  proof (intro allI impI, elim conjE)
    fix vm1 nargs args vm2
    assume r: "read_imm32 c vmx k = Some (i, vm1)"
      and ca: "collect_args vm1 = Some (nargs, args, vm2)"
    from r have "vm1 = set_PC vmx k (PC vmx k + 1)" by (simp add: read_imm32_Some)
    then have "host_fns vm1 = host_fns vmx" "vm_mod vm1 = vm_mod vmx"
      by (simp_all add: set_PC_fields)
    from vm_resolve_host_cong[OF this, of i] rx have "vm_resolve_host vm1 i = Some ?e1" by simp
    with r ca show "exec_instr h fp env vmx k c OP_CALL_HOST dst s1 s2 =
              (case env fn1 ud1 (uint nargs) args (rune_void h) vm2 of
                 (result, ret, vm3) \<Rightarrow>
                   if result \<noteq> RUNE_OK then Done result None vm3
                   else Continue (set_R vm3 k dst ret))"
      by (simp add: with_imm32_def)
  qed
  have b: "\<forall>fi.
            initialized vmx \<and> frame_count vmx < stack_size (cfg vmx) \<and>
            unat fi < func_count (vm_mod vmx) \<and>
            is_import (m_funcs (vm_mod vmx) ! unat fi) \<and>
            import_idx (m_funcs (vm_mod vmx) ! unat fi) = i \<longrightarrow>
            vm_exec h fp env (Suc g) vmx fi argc argv =
              (case env fn1 ud1 argc argv (rune_void h) vmx of
                 (err, r, vm1) \<Rightarrow> Some (Returned err (Some r) vm1))"
    using rx by (auto simp: Let_def)
  from a b show ?thesis by (rule conjI)
qed

text \<open>
  A module that imports \<open>env::f\<close> (function 0) and exports the guest function \<open>f\<close>
  (function 1) with the body \<^verbatim>\<open>CALL_HOST R0, 0; RET\<close>.
\<close>

definition env_name :: "u8 list" where
  "env_name = [0x65, 0x6E, 0x76]"

definition host_code :: "u8 list" where
  "host_code = ins OP_CALL_HOST 0 0 0 @ imm 0 @ ins OP_RET 0 0 0"

definition host_mod :: rune_module where
  "host_mod = empty_module
     \<lparr>m_types := [\<lparr>param_types = [], return_types = [1]\<rparr>],
      m_imports := [\<lparr>imp_module = env_name, imp_name = f_name, imp_type_idx = 0\<rparr>],
      m_funcs := [\<lparr>type_idx = 0, reg_count = 0, local_count = 0, code = [],
                   is_import = True, import_idx = 0\<rparr>,
                  \<lparr>type_idx = 0, reg_count = 4, local_count = 0, code = host_code,
                   is_import = False, import_idx = 0\<rparr>],
      m_exports := [\<lparr>exp_kind = 0, exp_idx = 1, exp_name = f_name\<rparr>]\<rparr>"

text \<open>The pair \<open>(env, f)\<close> is registered with callback 1 and then with callback 2.\<close>

definition host_vm0 :: rune_vm where
  "host_vm0 = snd (rune_vm_register
                (snd (rune_vm_register (rune_vm_new host_mod None) env_name f_name 1 0))
                env_name f_name 2 0)"

definition host_vm :: rune_vm where
  "host_vm = host_vm0\<lparr>initialized := True\<rparr>"

lemma host_mod_fields:
  "m_funcs host_mod =
     [\<lparr>type_idx = 0, reg_count = 0, local_count = 0, code = [],
       is_import = True, import_idx = 0\<rparr>,
      \<lparr>type_idx = 0, reg_count = 4, local_count = 0, code = host_code,
       is_import = False, import_idx = 0\<rparr>]"
  "m_exports host_mod = [\<lparr>exp_kind = 0, exp_idx = 1, exp_name = f_name\<rparr>]"
  "m_imports host_mod = [\<lparr>imp_module = env_name, imp_name = f_name, imp_type_idx = 0\<rparr>]"
  "has_memory host_mod = False" "m_globals host_mod = []" "init_func host_mod = - 1"
  by (simp_all add: host_mod_def empty_module_def)

lemma host_vm0_fields:
  "\<not> initialized host_vm0" "vm_mod host_vm0 = host_mod"
  "host_fns host_vm0 =
     [\<lparr>he_module = env_name, he_name = f_name, he_fn = 1, he_userdata = 0\<rparr>,
      \<lparr>he_module = env_name, he_name = f_name, he_fn = 2, he_userdata = 0\<rparr>]"
  "frame_count host_vm0 = 0" "stack_size (cfg host_vm0) = 512" "fuel_limit (cfg host_vm0) = 0"
  "frames host_vm0 = replicate 512 empty_frame"
  "arg_count host_vm0 = 0" "arg_buf host_vm0 = replicate 16 zero_val"
  by (simp_all add: host_vm0_def rune_vm_register_def rune_vm_new_def Let_def c_str_def
        env_name_def f_name_def rune_config_default_def RUNE_CALL_DEPTH_def RUNE_MAX_PARAMS_def)

lemma host_vm_init:
  "rune_vm_init sample_h sample_fp sample_env sample_heap 1 host_vm0 =
     Some (Returned RUNE_OK None host_vm)"
  by (simp add: rune_vm_init_def imports_satisfied_def alloc_memory_def copy_globals_def
        sample_heap_def global_count_def host_vm_def host_vm0_fields host_mod_fields
        host_matches_def str_eq_def c_str_def env_name_def f_name_def)

lemma host_call_runs_first:
  "observe (rune_vm_call sample_h sample_fp sample_env 4 host_vm f_name 0 []) =
     Some (Inr (RUNE_OK, Some (rune_i32 sample_h 1), 0, True))"
  by (simp add: run_simps host_vm_def host_vm0_fields host_mod_fields host_code_def
        vm_resolve_host_def import_count_def host_matches_def env_name_def f_name_def
        sample_env_def)

text \<open>
  C7, the claim as written: the pair \<open>(env, f)\<close> is registered with callback 1 and then with
  callback 2; after initialisation the guest function \<open>f\<close> executes \<open>CALL_HOST\<close> of the
  import and returns what the callback returned. The sample environment answers with the
  number of the callback that was entered: it is 1, the first registration, not 2.
\<close>

theorem second_registration_not_used:
  "host_vm0 = snd (rune_vm_register
                (snd (rune_vm_register (rune_vm_new host_mod None) env_name f_name 1 0))
                env_name f_name 2 0) \<and>
   rune_vm_init sample_h sample_fp sample_env sample_heap 1 host_vm0 =
     Some (Returned RUNE_OK None host_vm) \<and>
   observe (rune_vm_call sample_h sample_fp sample_env 4 host_vm f_name 0 []) =
     Some (Inr (RUNE_OK, Some (rune_i32 sample_h 1), 0, True)) \<and>
   rune_i32 sample_h 1 \<noteq> rune_i32 sample_h 2"
proof -
  have "rune_i32 sample_h 1 \<noteq> rune_i32 sample_h 2"
    by (simp add: rune_i32_def)
  with host_call_runs_first host_vm_init host_vm0_def show ?thesis by blast
qed

text \<open>The state of that call when the case of \<open>CALL_HOST\<close> is entered.\<close>

definition host_st :: rune_vm where
  "host_st = set_PC (push_frame host_vm 1) 0 1"

lemma host_st_fields:
  "host_fns host_st = host_fns host_vm0" "vm_mod host_st = host_mod"
  "initialized host_st" "frame_count host_st = 1" "stack_size (cfg host_st) = 512"
  by (simp_all add: host_st_def set_PC_fields push_frame_def host_vm_def host_vm0_fields)

lemma host_st_imm: "read_imm32 host_code host_st 0 = Some (0, set_PC host_st 0 2)"
  by (simp add: host_st_def host_code_def run_simps host_vm_def host_vm0_fields)

lemma host_st_args:
  "collect_args (set_PC host_st 0 2) = Some (0, [], (set_PC host_st 0 2)\<lparr>arg_count := 0\<rparr>)"
  by (simp add: collect_args_def host_st_def set_PC_def push_frame_def host_vm_def
        host_vm0_fields RUNE_MAX_PARAMS_def)

theorem first_registration_wins_witness:
  "exec_instr sample_h sample_fp sample_env host_st 0 host_code OP_CALL_HOST 0 0 0 =
     Continue (set_R ((set_PC host_st 0 2)\<lparr>arg_count := 0\<rparr>) 0 0 (rune_i32 sample_h 1)) \<and>
   vm_exec sample_h sample_fp sample_env (Suc 0) host_st 0 0 [] =
     Some (Returned RUNE_OK (Some (rune_i32 sample_h 1)) host_st)"
proof -
  have v: "\<not> initialized (rune_vm_new host_mod None)"
    "unat (0 :: u32) < import_count (vm_mod (rune_vm_new host_mod None))"
    "vm_resolve_host (rune_vm_new host_mod None) 0 = None"
    "str_eq env_name (imp_module (m_imports (vm_mod (rune_vm_new host_mod None)) ! unat (0 :: u32)))"
    "str_eq f_name (imp_name (m_imports (vm_mod (rune_vm_new host_mod None)) ! unat (0 :: u32)))"
    by (simp_all add: rune_vm_new_def host_mod_fields import_count_def vm_resolve_host_def
          str_eq_def)
  have x: "host_fns host_st =
             host_fns (register_all
                (snd (rune_vm_register (rune_vm_new host_mod None) env_name f_name 1 0))
                [(env_name, f_name, 2, 0)])"
    "vm_mod host_st = vm_mod (rune_vm_new host_mod None)"
    by (simp_all add: host_st_fields host_vm0_def rune_vm_new_def)
  note t = first_registration_wins[OF v x, of host_code 0 sample_h sample_fp sample_env 0 0 0
             0 0 "[]"]
  from t host_st_imm host_st_args
  have a: "exec_instr sample_h sample_fp sample_env host_st 0 host_code OP_CALL_HOST 0 0 0 =
            (case sample_env 1 0 (uint (0 :: u8)) [] (rune_void sample_h)
                    ((set_PC host_st 0 2)\<lparr>arg_count := 0\<rparr>) of
               (result, ret, vm3) \<Rightarrow>
                 if result \<noteq> RUNE_OK then Done result None vm3
                 else Continue (set_R vm3 0 0 ret))"
    by blast
  have c: "initialized host_st \<and> frame_count host_st < stack_size (cfg host_st) \<and>
           unat (0 :: u32) < func_count (vm_mod host_st) \<and>
           is_import (m_funcs (vm_mod host_st) ! unat (0 :: u32)) \<and>
           import_idx (m_funcs (vm_mod host_st) ! unat (0 :: u32)) = 0"
    by (simp add: host_st_fields host_mod_fields func_count_def word_less_nat_alt)
  from t c
  have b: "vm_exec sample_h sample_fp sample_env (Suc 0) host_st 0 0 [] =
            (case sample_env 1 0 0 [] (rune_void sample_h) host_st of
               (err, r, vm1) \<Rightarrow> Some (Returned err (Some r) vm1))"
    by blast
  from a b show ?thesis by (simp add: sample_env_def)
qed

section \<open>Bounds of the memory instructions\<close>

text \<open>
  The linear memory range is \<open>[0, memory_pages * 65536)\<close>; \<open>mem_byte\<close> is the byte at an
  offset from \<^verbatim>\<open>vm->memory\<close>, and \<open>allocated\<close> the size of the block behind the pointer.
\<close>

definition mem_limit :: "rune_vm \<Rightarrow> nat" where
  "mem_limit vm = unat (memory_pages vm) * RUNE_PAGE_SIZE"

definition mem_byte :: "rune_vm \<Rightarrow> nat \<Rightarrow> u8" where
  "mem_byte vm x = (case memory vm of None \<Rightarrow> 0 | Some m \<Rightarrow> mem_bytes m x)"

definition allocated :: "rune_vm \<Rightarrow> nat" where
  "allocated vm = (case memory vm of None \<Rightarrow> 0 | Some m \<Rightarrow> mem_len m)"

text \<open>
  The ranges \<open>(off, len)\<close> that a case of the \<^verbatim>\<open>switch\<close> hands to \<^verbatim>\<open>MEM_CHECK\<close>, in the
  order of the checks: loads and stores use \<^verbatim>\<open>R(s1).as.i32 + imm\<close>, reduced to 32 bits,
  \<^verbatim>\<open>MEM_COPY\<close> checks the destination and then the source, \<^verbatim>\<open>MEM_FILL\<close> the destination.
\<close>

fun accesses :: "u8 list \<Rightarrow> rune_vm \<Rightarrow> nat \<Rightarrow> rune_opcode \<Rightarrow> u8 \<Rightarrow> u8 \<Rightarrow> u8 \<Rightarrow> (nat \<times> nat) list" where
  "accesses c vm k (Load op) dst s1 s2 =
     (case read_imm32 c vm k of
        None \<Rightarrow> []
      | Some (w, vm1) \<Rightarrow> [(unat (as_i32 (R vm1 k s1) + w), load_size op)])"
| "accesses c vm k (Store op) dst s1 s2 =
     (case read_imm32 c vm k of
        None \<Rightarrow> []
      | Some (w, vm1) \<Rightarrow> [(unat (as_i32 (R vm1 k s1) + w), store_size op)])"
| "accesses c vm k OP_MEM_COPY dst s1 s2 =
     [(unat (as_i32 (R vm k dst)), unat (as_i32 (R vm k s2))),
      (unat (as_i32 (R vm k s1)), unat (as_i32 (R vm k s2)))]"
| "accesses c vm k OP_MEM_FILL dst s1 s2 =
     [(unat (as_i32 (R vm k dst)), unat (as_i32 (R vm k s2)))]"
| "accesses c vm k op dst s1 s2 = []"

fun is_mem_access :: "rune_opcode \<Rightarrow> bool" where
  "is_mem_access (Load op) = True"
| "is_mem_access (Store op) = True"
| "is_mem_access OP_MEM_COPY = True"
| "is_mem_access OP_MEM_FILL = True"
| "is_mem_access op = False"

text \<open>
  The VM with every byte at or beyond the end of the linear memory range replaced by the
  one that \<open>f\<close> gives: what an instruction does not read cannot change its result,
  and what it does not write is still there afterwards.
\<close>

definition beyond :: "rune_vm \<Rightarrow> (nat \<Rightarrow> u8) \<Rightarrow> rune_vm" where
  "beyond vm f =
     vm\<lparr>memory := map_option
           (\<lambda>m. m\<lparr>mem_bytes := (\<lambda>x. if x < mem_limit vm then mem_bytes m x else f x)\<rparr>)
           (memory vm)\<rparr>"

lemma beyond_fields:
  "frames (beyond vm f) = frames vm" "memory_pages (beyond vm f) = memory_pages vm"
  "mem_limit (beyond vm f) = mem_limit vm" "R (beyond vm f) k n = R vm k n"
  "PC (beyond vm f) k = PC vm k" "(memory (beyond vm f) = None) = (memory vm = None)"
  "allocated (beyond vm f) = allocated vm"
  by (simp_all add: beyond_def mem_limit_def R_def PC_def allocated_def split: option.splits)

lemma beyond_set_PC: "beyond (set_PC vm k p) f = set_PC (beyond vm f) k p"
  by (simp add: beyond_def set_PC_def mem_limit_def)

lemma beyond_set_R: "beyond (set_R vm k n v) f = set_R (beyond vm f) k n v"
  by (simp add: beyond_def set_R_def mem_limit_def)

lemma mem_limit_set: "mem_limit (set_PC vm k p) = mem_limit vm" "mem_limit (set_R vm k n v) = mem_limit vm"
  by (simp_all add: mem_limit_def set_PC_def set_R_def)

lemma mem_byte_set:
  "mem_byte (set_PC vm k p) x = mem_byte vm x" "mem_byte (set_R vm k n v) x = mem_byte vm x"
  by (simp_all add: mem_byte_def set_PC_def set_R_def)

lemma read_imm32_beyond:
  "read_imm32 c (beyond vm f) k = map_option (\<lambda>(i, v). (i, beyond v f)) (read_imm32 c vm k)"
  by (simp add: read_imm32_def beyond_fields beyond_set_PC)

lemma mem_check_iff:
  "mem_check vm off n = (memory vm \<noteq> None \<and> unat off + n \<le> mem_limit vm)"
  by (simp add: mem_check_def mem_limit_def)

lemma mem_check_beyond: "mem_check (beyond vm f) off n = mem_check vm off n"
  by (simp add: mem_check_iff beyond_fields)

lemma mem_read_beyond:
  "a + n \<le> mem_limit vm \<Longrightarrow> mem_read (beyond vm f) a n = mem_read vm a n"
  by (auto simp: mem_read_def beyond_def split: option.splits)

lemma mem_write_beyond:
  "a + length bs \<le> mem_limit vm \<Longrightarrow>
     mem_write (beyond vm f) a bs = map_option (\<lambda>v. beyond v f) (mem_write vm a bs)"
  by (auto simp: mem_write_def beyond_def mem_limit_def fun_eq_iff split: option.splits)

lemma mem_read_Some:
  "mem_read vm a n = Some bs \<Longrightarrow> bs = map (\<lambda>i. mem_byte vm (a + i)) [0..<n]"
  by (auto simp: mem_read_def mem_byte_def split: option.splits if_splits)

lemma mem_read_None: "mem_read vm a n = None \<Longrightarrow> allocated vm < a + n"
  by (auto simp: mem_read_def allocated_def split: option.splits if_splits)

lemma mem_write_Some:
  "mem_write vm a bs = Some vm' \<Longrightarrow>
     memory_pages vm' = memory_pages vm \<and> mem_limit vm' = mem_limit vm \<and>
     frames vm' = frames vm \<and>
     (\<forall>x. mem_byte vm' x = (if a \<le> x \<and> x < a + length bs then bs ! (x - a) else mem_byte vm x))"
  by (auto simp: mem_write_def mem_byte_def mem_limit_def split: option.splits if_splits)

lemma mem_write_None: "mem_write vm a bs = None \<Longrightarrow> allocated vm < a + length bs"
  by (auto simp: mem_write_def allocated_def split: option.splits if_splits)

lemma length_le_bytes: "length (le_bytes n w) = n"
  by (simp add: le_bytes_def)

lemma mem_read_set_PC: "mem_read (set_PC vm k p) a n = mem_read vm a n"
  by (simp add: mem_read_def set_PC_def)

lemma mem_check_set_PC: "mem_check (set_PC vm k p) off n = mem_check vm off n"
  by (simp add: mem_check_def set_PC_def)

lemma allocated_set_PC: "allocated (set_PC vm k p) = allocated vm"
  by (simp add: allocated_def set_PC_def)

definition bounds_safe ::
  "rune_vm \<Rightarrow> (nat \<times> nat) list \<Rightarrow> (rune_vm \<Rightarrow> step) \<Rightarrow> bool" where
  "bounds_safe vm rs run =
     (((\<exists>r\<in>set rs. mem_limit vm < fst r + snd r) \<longrightarrow>
         (\<exists>vm'. run vm = Return RUNE_ERR_BOUNDS vm' \<and> memory vm' = memory vm \<and>
                memory_pages vm' = memory_pages vm)) \<and>
      (\<forall>vm'. run vm = Continue vm' \<longrightarrow>
         (\<forall>r\<in>set rs. fst r + snd r \<le> mem_limit vm) \<and>
         mem_limit vm' = mem_limit vm \<and>
         (\<forall>x\<ge>mem_limit vm. mem_byte vm' x = mem_byte vm x) \<and>
         (\<forall>f. run (beyond vm f) = Continue (beyond vm' f))) \<and>
      (\<forall>e vm'. run vm = Return e vm' \<longrightarrow> e = RUNE_ERR_BOUNDS) \<and>
      (\<forall>u. run vm = Undefined u \<longrightarrow>
         u = UB_CODE_INDEX \<or> (u = UB_MEMORY_RANGE \<and> allocated vm < mem_limit vm)))"

lemma load_safe:
  "bounds_safe vm (accesses c vm k (Load op) dst s1 s2)
     (\<lambda>v. exec_instr h fp env v k c (Load op) dst s1 s2)"
proof (cases "read_imm32 c vm k")
  case None
  then show ?thesis by (simp add: bounds_safe_def with_imm32_def)
next
  case (Some p)
  obtain w vm1 where p: "p = (w, vm1)" by (cases p)
  from Some p have vm1: "vm1 = set_PC vm k (PC vm k + 1)" by (simp add: read_imm32_Some)
  let ?a = "as_i32 (R vm k s1) + w"
  show ?thesis
  proof (cases "mem_check vm ?a (load_size op)")
    case False
    with Some p vm1 show ?thesis
      by (simp add: bounds_safe_def with_imm32_def R_set_PC mem_check_set_PC set_PC_fields)
  next
    case True
    then have lim: "unat ?a + load_size op \<le> mem_limit vm" by (simp add: mem_check_iff)
    show ?thesis
    proof (cases "mem_read vm (unat ?a) (load_size op)")
      case None
      from mem_read_None[OF None] lim have "allocated vm < mem_limit vm" by simp
      with Some p vm1 True None lim show ?thesis
        by (simp add: bounds_safe_def with_imm32_def R_set_PC mem_check_set_PC mem_read_set_PC)
    next
      case (Some bs)
      with \<open>read_imm32 c vm k = Some p\<close> p vm1 True lim show ?thesis
        by (simp add: bounds_safe_def with_imm32_def R_set_PC mem_check_set_PC mem_read_set_PC
              mem_limit_set mem_byte_set read_imm32_beyond beyond_fields mem_check_beyond
              mem_read_beyond beyond_set_R beyond_set_PC)
    qed
  qed
qed

lemma mem_write_set_PC:
  "mem_write (set_PC vm k p) a bs = map_option (\<lambda>v. set_PC v k p) (mem_write vm a bs)"
  by (simp add: mem_write_def set_PC_def split: option.splits)

lemma store_safe:
  "bounds_safe vm (accesses c vm k (Store op) dst s1 s2)
     (\<lambda>v. exec_instr h fp env v k c (Store op) dst s1 s2)"
proof (cases "read_imm32 c vm k")
  case None
  then show ?thesis by (simp add: bounds_safe_def with_imm32_def)
next
  case (Some p)
  obtain w vm1 where p: "p = (w, vm1)" by (cases p)
  from Some p have vm1: "vm1 = set_PC vm k (PC vm k + 1)" by (simp add: read_imm32_Some)
  let ?a = "as_i32 (R vm k s1) + w"
  let ?bs = "le_bytes (store_size op) (val_bits (R vm k dst))"
  show ?thesis
  proof (cases "mem_check vm ?a (store_size op)")
    case False
    with Some p vm1 show ?thesis
      by (simp add: bounds_safe_def with_imm32_def R_set_PC mem_check_set_PC set_PC_fields)
  next
    case True
    then have lim: "unat ?a + length ?bs \<le> mem_limit vm"
      by (simp add: mem_check_iff length_le_bytes)
    show ?thesis
    proof (cases "mem_write vm (unat ?a) ?bs")
      case None
      from mem_write_None[OF None] lim have "allocated vm < mem_limit vm" by simp
      with Some p vm1 True None lim show ?thesis
        by (simp add: bounds_safe_def with_imm32_def R_set_PC mem_check_set_PC mem_write_set_PC
              length_le_bytes)
    next
      case (Some vm2)
      from mem_write_Some[OF Some] lim
      have w: "mem_limit vm2 = mem_limit vm" "\<forall>x\<ge>mem_limit vm. mem_byte vm2 x = mem_byte vm x"
        by auto
      from \<open>read_imm32 c vm k = Some p\<close> p vm1 True lim Some w show ?thesis
        by (simp add: bounds_safe_def with_imm32_def R_set_PC mem_check_set_PC mem_write_set_PC
              mem_limit_set mem_byte_set read_imm32_beyond beyond_fields mem_check_beyond
              mem_write_beyond beyond_set_PC length_le_bytes)
    qed
  qed
qed

lemma fill_safe:
  "bounds_safe vm (accesses c vm k OP_MEM_FILL dst s1 s2)
     (\<lambda>v. exec_instr h fp env v k c OP_MEM_FILL dst s1 s2)"
proof -
  let ?a = "as_i32 (R vm k dst)"
  let ?bs = "replicate (unat (as_i32 (R vm k s2))) (ucast (as_i32 (R vm k s1)) :: u8)"
  show ?thesis
  proof (cases "mem_check vm ?a (unat (as_i32 (R vm k s2)))")
    case False
    then show ?thesis by (simp add: bounds_safe_def Let_def)
  next
    case True
    then have lim: "unat ?a + length ?bs \<le> mem_limit vm" by (simp add: mem_check_iff)
    show ?thesis
    proof (cases "mem_write vm (unat ?a) ?bs")
      case None
      from mem_write_None[OF None] lim have "allocated vm < mem_limit vm" by simp
      with True None lim show ?thesis by (simp add: bounds_safe_def Let_def)
    next
      case (Some vm2)
      from mem_write_Some[OF Some] lim
      have w: "mem_limit vm2 = mem_limit vm" "\<forall>x\<ge>mem_limit vm. mem_byte vm2 x = mem_byte vm x"
        by auto
      from mem_write_beyond[OF lim] Some
      have b: "\<And>f. mem_write (beyond vm f) (unat ?a) ?bs = Some (beyond vm2 f)" by simp
      from True lim Some w b show ?thesis
        by (simp add: bounds_safe_def Let_def beyond_fields mem_check_beyond)
    qed
  qed
qed

lemma copy_safe:
  "bounds_safe vm (accesses c vm k OP_MEM_COPY dst s1 s2)
     (\<lambda>v. exec_instr h fp env v k c OP_MEM_COPY dst s1 s2)"
proof -
  let ?d = "as_i32 (R vm k dst)"
  let ?s = "as_i32 (R vm k s1)"
  let ?n = "unat (as_i32 (R vm k s2))"
  show ?thesis
  proof (cases "mem_check vm ?d ?n \<and> mem_check vm ?s ?n")
    case False
    then show ?thesis by (auto simp: bounds_safe_def Let_def mem_check_iff)
  next
    case True
    then have lim: "unat ?d + ?n \<le> mem_limit vm" "unat ?s + ?n \<le> mem_limit vm"
      by (simp_all add: mem_check_iff)
    show ?thesis
    proof (cases "mem_read vm (unat ?s) ?n")
      case None
      from mem_read_None[OF None] lim have "allocated vm < mem_limit vm" by simp
      with True None lim show ?thesis by (simp add: bounds_safe_def Let_def)
    next
      case (Some bs)
      from mem_read_Some[OF Some] have len: "length bs = ?n" by simp
      from mem_read_beyond[OF lim(2)] Some
      have rb: "\<And>f. mem_read (beyond vm f) (unat ?s) ?n = Some bs" by simp
      show ?thesis
      proof (cases "mem_write vm (unat ?d) bs")
        case None
        from mem_write_None[OF None] lim len have "allocated vm < mem_limit vm" by simp
        with True Some None lim show ?thesis by (simp add: bounds_safe_def Let_def)
      next
        case (Some vm2)
        from mem_write_Some[OF Some] lim len
        have w: "mem_limit vm2 = mem_limit vm"
          "\<forall>x\<ge>mem_limit vm. mem_byte vm2 x = mem_byte vm x"
          by auto
        from lim len have "unat ?d + length bs \<le> mem_limit vm" by simp
        from mem_write_beyond[OF this] Some
        have b: "\<And>f. mem_write (beyond vm f) (unat ?d) bs = Some (beyond vm2 f)" by simp
        from True lim \<open>mem_read vm (unat ?s) ?n = Some bs\<close> Some w b rb show ?thesis
          by (simp add: bounds_safe_def Let_def beyond_fields mem_check_beyond)
      qed
    qed
  qed
qed

text \<open>
  What \<^verbatim>\<open>MEM_CHECK\<close> achieves. Let \<open>op\<close> be a load, a store, \<open>MEM_COPY\<close> or \<open>MEM_FILL\<close>,
  and \<open>(off, len)\<close> range over the ranges it accesses. If one of them has
  \<open>off + len > memory_pages * 65536\<close>, the case returns \<open>BOUNDS\<close> out of \<open>vm_exec\<close> with
  the memory as it was. If the case completes, every range has
  \<open>off + len \<le> memory_pages * 65536\<close>, the page count is unchanged, no byte at or beyond
  \<open>memory_pages * 65536\<close> has changed, and with any other bytes there the instruction
  completes with the same registers and the same bytes below. The only error code returned
  is \<open>BOUNDS\<close>. What is left open is the last part: an access that passes the check
  leaves the allocated block when the block is shorter than \<open>memory_pages * 65536\<close>.
\<close>

lemma memory_access_bounds:
  assumes "is_mem_access op"
    and "exec_instr h fp env vm k c op dst s1 s2 = st"
  shows
    "((\<exists>r\<in>set (accesses c vm k op dst s1 s2). mem_limit vm < fst r + snd r) \<longrightarrow>
        (\<exists>vm'. st = Return RUNE_ERR_BOUNDS vm' \<and> memory vm' = memory vm \<and>
               memory_pages vm' = memory_pages vm)) \<and>
     (\<forall>vm'. st = Continue vm' \<longrightarrow>
        (\<forall>r\<in>set (accesses c vm k op dst s1 s2). fst r + snd r \<le> mem_limit vm) \<and>
        mem_limit vm' = mem_limit vm \<and>
        (\<forall>x\<ge>mem_limit vm. mem_byte vm' x = mem_byte vm x) \<and>
        (\<forall>f. exec_instr h fp env (beyond vm f) k c op dst s1 s2 = Continue (beyond vm' f))) \<and>
     (\<forall>e vm'. st = Return e vm' \<longrightarrow> e = RUNE_ERR_BOUNDS) \<and>
     (\<forall>u. st = Undefined u \<longrightarrow>
        u = UB_CODE_INDEX \<or> (u = UB_MEMORY_RANGE \<and> allocated vm < mem_limit vm))"
proof -
  have "bounds_safe vm (accesses c vm k op dst s1 s2)
          (\<lambda>v. exec_instr h fp env v k c op dst s1 s2)"
    using assms(1) load_safe store_safe copy_safe fill_safe
    by (cases op) simp_all
  with assms(2) show ?thesis unfolding bounds_safe_def by simp
qed

text \<open>
  One iteration of the loop that ends in the \<^verbatim>\<open>return\<close> of \<^verbatim>\<open>MEM_CHECK\<close> ends \<open>vm_exec\<close>
  with that error code, and a caller's \<open>OP_CALL\<close> passes every error code on.
\<close>

lemma return_leaves_interp_loop:
  assumes "unat (PC vm k) < code_words c"
    and "fuel_tick vm = (False, vm1)"
    and "exec_instr h fp env (set_PC vm1 k (PC vm1 k + 1)) k c
           (opcode_of h (RUNE_INSTR_OP (code_at c (unat (PC vm1 k)))))
           (RUNE_INSTR_DST (code_at c (unat (PC vm1 k))))
           (RUNE_INSTR_S1 (code_at c (unat (PC vm1 k))))
           (RUNE_INSTR_S2 (code_at c (unat (PC vm1 k)))) = Return e vm3"
  shows "interp_loop h fp env (Suc g) vm k c = Some (Returned e None vm3)"
  using assms by (simp add: Let_def)

definition peek_code :: "u8 list" where
  "peek_code = ins (Load OP_LOAD32) 0 0 0 @ imm 0 @ ins OP_RET 0 0 0"

definition peek_st :: "u32 \<Rightarrow> rune_vm" where
  "peek_st a = set_PC (set_R (push_frame mem_vm 0) 0 0 (rune_i32 sample_h a)) 0 1"

lemma peek_st_fields:
  "PC (peek_st a) 0 = 1" "R (peek_st a) 0 0 = rune_i32 sample_h a"
  "memory (peek_st a) = Some \<lparr>mem_len = 131072, mem_bytes = (\<lambda>x. 0)\<rparr>"
  "memory_pages (peek_st a) = 1"
  by (simp_all add: peek_st_def set_PC_def set_R_def push_frame_def PC_def R_def mem_vm_fields
        Let_def)

lemma peek_code_imm: "read_imm32 peek_code (peek_st a) 0 = Some (0, set_PC (peek_st a) 0 2)"
  by (simp add: peek_st_def peek_code_def run_simps mem_vm_fields)

lemma memory_access_bounds_example:
  "is_mem_access (Load OP_LOAD32) \<and>
   accesses peek_code (peek_st 65534) 0 (Load OP_LOAD32) 0 0 0 = [(65534, 4)] \<and>
   mem_limit (peek_st 65534) = 65536 \<and>
   (\<exists>vm'. exec_instr sample_h sample_fp sample_env (peek_st 65534) 0 peek_code
            (Load OP_LOAD32) 0 0 0 = Return RUNE_ERR_BOUNDS vm') \<and>
   exec_instr sample_h sample_fp sample_env (peek_st 100) 0 peek_code (Load OP_LOAD32) 0 0 0 =
     Continue (set_R (set_PC (peek_st 100) 0 2) 0 0 (rune_i32 sample_h 0)) \<and>
   (\<forall>f. exec_instr sample_h sample_fp sample_env (beyond (peek_st 100) f) 0 peek_code
           (Load OP_LOAD32) 0 0 0 =
         Continue (beyond (set_R (set_PC (peek_st 100) 0 2) 0 0 (rune_i32 sample_h 0)) f))"
proof -
  have a: "accesses peek_code (peek_st 65534) 0 (Load OP_LOAD32) 0 0 0 = [(65534, 4)]"
    by (simp add: peek_code_imm R_set_PC peek_st_fields as_i32_rune_i32)
  have l: "mem_limit (peek_st 65534) = 65536"
    by (simp add: mem_limit_def peek_st_fields RUNE_PAGE_SIZE_def)
  have c: "exec_instr sample_h sample_fp sample_env (peek_st 100) 0 peek_code
             (Load OP_LOAD32) 0 0 0 =
           Continue (set_R (set_PC (peek_st 100) 0 2) 0 0 (rune_i32 sample_h 0))"
    by (simp add: with_imm32_def peek_code_imm R_set_PC peek_st_fields as_i32_rune_i32
          mem_check_def mem_read_def set_PC_fields RUNE_PAGE_SIZE_def Let_def
          upt_rec[of _ "numeral n" for n])
  have m: "is_mem_access (Load OP_LOAD32)" by simp
  have v: "\<exists>r\<in>set (accesses peek_code (peek_st 65534) 0 (Load OP_LOAD32) 0 0 0).
             mem_limit (peek_st 65534) < fst r + snd r"
    unfolding a l by simp
  from memory_access_bounds[where op = "Load OP_LOAD32" and h = sample_h and fp = sample_fp
         and env = sample_env and vm = "peek_st 65534" and k = 0 and c = peek_code
         and dst = 0 and ?s1.0 = 0 and ?s2.0 = 0, OF m refl] v
  have r: "\<exists>vm'. exec_instr sample_h sample_fp sample_env (peek_st 65534) 0 peek_code
            (Load OP_LOAD32) 0 0 0 = Return RUNE_ERR_BOUNDS vm'"
    by blast
  from memory_access_bounds[where op = "Load OP_LOAD32" and h = sample_h and fp = sample_fp
         and env = sample_env and vm = "peek_st 100" and k = 0 and c = peek_code
         and dst = 0 and ?s1.0 = 0 and ?s2.0 = 0, OF m refl] c
  have f: "\<forall>f. exec_instr sample_h sample_fp sample_env (beyond (peek_st 100) f) 0 peek_code
           (Load OP_LOAD32) 0 0 0 =
         Continue (beyond (set_R (set_PC (peek_st 100) 0 2) 0 0 (rune_i32 sample_h 0)) f)"
    by blast
  from m a l c r f show ?thesis by blast
qed

text \<open>
  \<^verbatim>\<open>parse_memory_section\<close> stores the two page counts as read: nothing compares the initial
  count with the maximum.
\<close>

lemma memory_section_unchecked:
  "parse_memory_section h (m, \<lparr>r_base = [3, 0, 1, 0], r_pos = 0, r_error = False\<rparr>) =
     Inr (m\<lparr>mem_initial_pages := 3, mem_max_pages := 1, has_memory := True\<rparr>,
          \<lparr>r_base = [3, 0, 1, 0], r_pos = 4, r_error = False\<rparr>)"
  by (simp add: parse_memory_section_def read_u16_def read_u8_def)

text \<open>
  The module of \<open>peek\<close> (\<^verbatim>\<open>LOAD32 R0, [R0 + 0]; RET\<close>) with a memory section of three
  initial pages and a maximum of one. \<open>rune_vm_init\<close> allocates the maximum, one page,
  and sets \<open>memory_pages\<close> to the initial count, three.
\<close>

definition short_mod :: rune_module where
  "short_mod = empty_module
     \<lparr>m_types := [\<lparr>param_types = [1], return_types = [1]\<rparr>],
      m_funcs := [\<lparr>type_idx = 0, reg_count = 4, local_count = 0, code = peek_code,
                   is_import = False, import_idx = 0\<rparr>],
      m_exports := [\<lparr>exp_kind = 0, exp_idx = 0, exp_name = peek_name\<rparr>],
      mem_initial_pages := 3, mem_max_pages := 1, has_memory := True\<rparr>"

definition short_vm :: rune_vm where
  "short_vm = (rune_vm_new short_mod None)
     \<lparr>memory := Some \<lparr>mem_len = 65536, mem_bytes = (\<lambda>x. 0)\<rparr>,
      memory_pages := 3, memory_max := 1, initialized := True\<rparr>"

lemma short_mod_fields:
  "m_funcs short_mod =
     [\<lparr>type_idx = 0, reg_count = 4, local_count = 0, code = peek_code,
       is_import = False, import_idx = 0\<rparr>]"
  "m_exports short_mod = [\<lparr>exp_kind = 0, exp_idx = 0, exp_name = peek_name\<rparr>]"
  "m_imports short_mod = []" "has_memory short_mod" "m_globals short_mod = []"
  "init_func short_mod = - 1" "mem_initial_pages short_mod = 3" "mem_max_pages short_mod = 1"
  "m_data_segs short_mod = []"
  by (simp_all add: short_mod_def empty_module_def)

lemma short_vm_init:
  "rune_vm_init sample_h sample_fp sample_env sample_heap 1 (rune_vm_new short_mod None) =
     Some (Returned RUNE_OK None short_vm)"
  by (simp add: rune_vm_init_def imports_satisfied_def alloc_memory_def copy_globals_def
        sample_heap_def global_count_def short_vm_def rune_vm_new_def short_mod_fields
        RUNE_PAGE_SIZE_def rune_config_default_def)

lemma short_vm_fields:
  "initialized short_vm" "vm_mod short_vm = short_mod" "frame_count short_vm = 0"
  "stack_size (cfg short_vm) = 512" "fuel_limit (cfg short_vm) = 0"
  "frames short_vm = replicate 512 empty_frame"
  "memory short_vm = Some \<lparr>mem_len = 65536, mem_bytes = (\<lambda>x. 0)\<rparr>"
  "memory_pages short_vm = 3" "memory_max short_vm = 1"
  "arg_count short_vm = 0" "arg_buf short_vm = replicate 16 zero_val"
  by (simp_all add: short_vm_def rune_vm_new_def rune_config_default_def RUNE_CALL_DEPTH_def
        RUNE_MAX_PARAMS_def)

lemma short_peek:
  "observe (rune_vm_call sample_h sample_fp sample_env 3 short_vm peek_name 1
              [rune_i32 sample_h 70000]) =
     Some (Inl UB_MEMORY_RANGE)"
  by (simp add: run_simps short_vm_fields short_mod_fields peek_name_def peek_code_def
        mem_check_def mem_read_def)

text \<open>
  C1. The claim: every access satisfies \<open>off + len \<le> memory_pages * 65536\<close> or aborts
  with \<open>BOUNDS\<close>, and no byte outside the linear memory is read or written. For the
  module above, initialised without error, the block behind \<^verbatim>\<open>vm->memory\<close> has 65536 bytes
  and \<open>memory_pages * 65536\<close> is 196608. \<open>peek(70000)\<close> executes \<^verbatim>\<open>LOAD32\<close> on the range
  \<open>[70000, 70004)\<close>: \<^verbatim>\<open>MEM_CHECK\<close> passes, no \<open>BOUNDS\<close> is returned, and the \<^verbatim>\<open>memcpy\<close> reads
  four bytes behind the end of the block.
\<close>

theorem load_reads_behind_block:
  "rune_vm_init sample_h sample_fp sample_env sample_heap 1 (rune_vm_new short_mod None) =
     Some (Returned RUNE_OK None short_vm) \<and>
   allocated short_vm = 65536 \<and>
   mem_limit short_vm = 196608 \<and>
   observe (rune_vm_call sample_h sample_fp sample_env 3 short_vm peek_name 1
              [rune_i32 sample_h 70000]) =
     Some (Inl UB_MEMORY_RANGE)"
proof -
  have "allocated short_vm = 65536" "mem_limit short_vm = 196608"
    by (simp_all add: allocated_def mem_limit_def short_vm_fields RUNE_PAGE_SIZE_def)
  with short_vm_init short_peek show ?thesis by blast
qed

section \<open>The flag of initialisation\<close>

text \<open>A host callback that leaves \<^verbatim>\<open>vm->initialized\<close> alone (it has no interface to set it).\<close>

definition host_keeps :: "host_env \<Rightarrow> bool" where
  "host_keeps env =
     (\<forall>fn ud argc argv r vm. initialized (snd (snd (env fn ud argc argv r vm))) = initialized vm)"

lemma host_keepsD:
  "host_keeps env \<Longrightarrow> env fn ud argc argv r vm = (e, x, vm') \<Longrightarrow> initialized vm' = initialized vm"
  unfolding host_keeps_def by (metis snd_conv)

lemma set_R_initialized: "initialized (set_R vm k n v) = initialized vm"
  by (simp add: set_R_def)

lemma read_imm32_initialized:
  "read_imm32 c vm k = Some (w, vm1) \<Longrightarrow> initialized vm1 = initialized vm"
  by (auto simp: read_imm32_def set_PC_fields split: if_splits)

lemma read_imm64_initialized:
  "read_imm64 c vm k = Some (w, vm1) \<Longrightarrow> initialized vm1 = initialized vm"
  by (auto simp: read_imm64_def dest!: read_imm32_initialized split: option.splits)

lemma jump_initialized: "initialized (jump vm k off) = initialized vm"
  by (simp add: jump_def set_PC_fields)

lemma mem_write_initialized: "mem_write vm a bs = Some vm' \<Longrightarrow> initialized vm' = initialized vm"
  by (auto simp: mem_write_def split: if_splits option.splits)

fun step_vm :: "step \<Rightarrow> rune_vm option" where
  "step_vm (Continue vm) = Some vm"
| "step_vm (Done e r vm) = Some vm"
| "step_vm (Return e vm) = Some vm"
| "step_vm (Invoke fi n args vm) = Some vm"
| "step_vm (Undefined u) = None"

lemma exec_instr_initialized:
  assumes "host_keeps env"
    and "step_vm (exec_instr h fp env vm k c op dst s1 s2) = Some vm'"
  shows "initialized vm' = initialized vm"
proof (cases op)
  case OP_CALL_HOST
  with assms show ?thesis
    by (auto simp: with_imm32_def collect_args_def set_R_initialized
        dest!: host_keepsD read_imm32_initialized split: option.splits if_splits prod.splits)
next
  case OP_ARG
  with assms(2) show ?thesis by (auto simp: Let_def split: if_splits)
next
  case (Int32 x)
  with assms(2) show ?thesis
    by (auto simp: alu_step_def set_R_initialized split: alu.splits)
next
  case (Int64 x)
  with assms(2) show ?thesis
    by (auto simp: alu_step_def set_R_initialized split: alu.splits)
next
  case (Convert x)
  with assms(2) show ?thesis
    by (auto simp: alu_step_def set_R_initialized split: alu.splits)
qed (use assms(2) in \<open>auto simp: with_imm32_def with_imm64_def collect_args_def Let_def
       set_R_initialized jump_initialized
       dest!: read_imm32_initialized read_imm64_initialized mem_write_initialized
       split: if_splits option.splits\<close>)

lemma fuel_tick_initialized: "initialized (snd (fuel_tick vm)) = initialized vm"
  by (simp add: fuel_tick_def Let_def)

lemma pop_frame_initialized: "initialized (pop_frame vm) = initialized vm"
  by (simp add: pop_frame_def)

lemma push_frame_initialized: "initialized (push_frame vm fi) = initialized vm"
  by (simp add: push_frame_def)

lemma fold_set_R_initialized:
  "initialized (fold (\<lambda>i v. set_R v k (f i) (g i)) xs vm) = initialized vm"
  by (induction xs arbitrary: vm) (simp_all add: set_R_initialized)

lemma copy_args_initialized:
  "copy_args vm k fn argc argv = Some vm1 \<Longrightarrow> initialized vm1 = initialized vm"
  by (auto simp: copy_args_def Let_def fold_set_R_initialized split: if_splits)

lemma vm_exec_initialized:
  "host_keeps env \<Longrightarrow> vm_exec h fp env g vm fi argc argv = Some (Returned e r vm') \<Longrightarrow>
     initialized vm' = initialized vm"
  and interp_loop_initialized:
  "host_keeps env \<Longrightarrow> interp_loop h fp env g vm k c = Some (Returned e r vm') \<Longrightarrow>
     initialized vm' = initialized vm"
proof (induction h fp env g vm fi argc argv and h fp env g vm k c arbitrary: e r vm' and e r vm'
       rule: vm_exec_interp_loop.induct)
  case (1 h fp env vm fi argc argv)
  then show ?case by simp
next
  case (2 h fp env g vm fi argc argv)
  note hk = \<open>host_keeps env\<close>
  let ?fn = "m_funcs (vm_mod vm) ! unat fi"
  show ?case
  proof (cases "is_import ?fn")
    case True
    with "2.prems" show ?thesis
      by (auto simp: Let_def dest!: host_keepsD split: if_splits option.splits prod.splits)
  next
    case False
    show ?thesis
    proof (cases "copy_args (push_frame vm fi) (unat (frame_count vm)) ?fn argc argv")
      case None
      with False "2.prems"(2) show ?thesis by (auto simp: Let_def split: if_splits)
    next
      case (Some vm1)
      from copy_args_initialized[OF Some] have i1: "initialized vm1 = initialized vm"
        by (simp add: push_frame_initialized)
      show ?thesis
      proof (cases "(\<not> initialized vm \<and> fi \<noteq> init_func (vm_mod vm)) \<or>
                    stack_size (cfg vm) \<le> frame_count vm \<or>
                    func_count (vm_mod vm) \<le> unat fi \<or>
                    length (frames vm) \<le> unat (frame_count vm)")
        case True
        with False "2.prems"(2) show ?thesis by (auto simp: Let_def split: if_splits)
      next
        case g: False
        with False Some "2.prems"(2)
        have "interp_loop h fp env g vm1 (unat (frame_count vm)) (code ?fn) =
                Some (Returned e r vm')"
          by (auto simp: Let_def split: if_splits)
        from "2.IH"[OF _ _ _ refl False _ refl Some hk this] g i1 show ?thesis by simp
      qed
    qed
  qed
next
  case (3 h fp env vm k c)
  then show ?case by simp
next
  case (4 h fp env g vm k c)
  note hk = \<open>host_keeps env\<close>
  note run = \<open>interp_loop h fp env (Suc g) vm k c = Some (Returned e r vm')\<close>
  show ?case
  proof (cases "unat (PC vm k) < code_words c")
    case False
    with run show ?thesis by (auto simp: pop_frame_initialized)
  next
    case pc: True
    obtain t vm1 where ft: "fuel_tick vm = (t, vm1)" by (cases "fuel_tick vm")
    from fuel_tick_initialized[of vm] ft have i1: "initialized vm1 = initialized vm" by simp
    show ?thesis
    proof (cases t)
      case True
      with run pc ft i1 show ?thesis by (simp add: interp_loop_unfold)
    next
      case False
      then have nt: "t = False" by simp
      let ?w = "code_at c (unat (PC vm1 k))"
      let ?vm2 = "set_PC vm1 k (PC vm1 k + 1)"
      let ?st = "exec_instr h fp env ?vm2 k c (opcode_of h (RUNE_INSTR_OP ?w))
                   (RUNE_INSTR_DST ?w) (RUNE_INSTR_S1 ?w) (RUNE_INSTR_S2 ?w)"
      have i2: "initialized ?vm2 = initialized vm" using i1 by (simp add: set_PC_fields)
      note ei = exec_instr_initialized[OF hk, of h fp ?vm2 k c "opcode_of h (RUNE_INSTR_OP ?w)"
                  "RUNE_INSTR_DST ?w" "RUNE_INSTR_S1 ?w" "RUNE_INSTR_S2 ?w"]
      show ?thesis
      proof (cases ?st)
        case (Continue vm3)
        with ei i2 have i3: "initialized vm3 = initialized vm" by simp
        from run pc ft nt Continue have "interp_loop h fp env g vm3 k c = Some (Returned e r vm')"
          by (simp add: interp_loop_unfold)
        from "4.IH"(1)[OF pc ft[symmetric] nt refl refl Continue hk this] i3
        show ?thesis by simp
      next
        case (Done e1 r1 vm3)
        with ei i2 have i3: "initialized vm3 = initialized vm" by simp
        from run pc ft nt Done have "vm' = pop_frame vm3" by (simp add: interp_loop_unfold)
        with i3 show ?thesis by (simp add: pop_frame_initialized)
      next
        case (Return e1 vm3)
        with ei i2 have i3: "initialized vm3 = initialized vm" by simp
        from run pc ft nt Return have "vm' = vm3" by (simp add: interp_loop_unfold)
        with i3 show ?thesis by simp
      next
        case (Undefined u)
        with run pc ft nt show ?thesis by (simp add: interp_loop_unfold)
      next
        case (Invoke fi n args vm3)
        with ei i2 have i3: "initialized vm3 = initialized vm" by simp
        show ?thesis
        proof (cases "vm_exec h fp env g vm3 fi (uint n) args")
          case None
          with run pc ft nt Invoke show ?thesis by (simp add: interp_loop_unfold)
        next
          case (Some res)
          show ?thesis
          proof (cases res)
            case (Crashed u)
            with run pc ft nt Invoke Some show ?thesis by (simp add: interp_loop_unfold)
          next
            case (Returned e1 r1 vm4)
            from "4.IH"(2)[OF pc ft[symmetric] nt refl refl Invoke hk Some[unfolded Returned]] i3
            have i4: "initialized vm4 = initialized vm" by simp
            show ?thesis
            proof (cases "e1 = RUNE_OK")
              case False
              with run pc ft nt Invoke Some Returned have "vm' = pop_frame vm4"
                by (simp add: interp_loop_unfold)
              with i4 show ?thesis by (simp add: pop_frame_initialized)
            next
              case True
              with run pc ft nt Invoke Some Returned
              have "interp_loop h fp env g (set_R vm4 k (RUNE_INSTR_DST ?w) (ret_or_void h r1)) k c
                      = Some (Returned e r vm')"
                by (simp add: interp_loop_unfold)
              from "4.IH"(3)[OF pc ft[symmetric] nt refl refl Invoke Some Returned _ hk this] True i4
              show ?thesis by (simp add: set_R_initialized)
            qed
          qed
        qed
      qed
    qed
  qed
qed

lemma apply_data_segs_result:
  "apply_data_segs vm ss = Inr (err, vm') \<Longrightarrow>
     initialized vm' = initialized vm \<and> vm_mod vm' = vm_mod vm \<and>
     (err = RUNE_OK \<or> err = RUNE_ERR_BOUNDS)"
proof (induction ss arbitrary: vm)
  case Nil
  then show ?case by simp
next
  case (Cons s ss)
  show ?case
  proof (cases "seg_offset s + of_nat (length (seg_data s)) > memory_pages vm * of_nat RUNE_PAGE_SIZE")
    case True
    with Cons.prems show ?thesis by (simp add: Let_def)
  next
    case False
    with Cons.prems obtain vm1 where w: "mem_write vm (unat (seg_offset s)) (seg_data s) = Some vm1"
      and r: "apply_data_segs vm1 ss = Inr (err, vm')"
      by (auto simp: Let_def split: option.splits)
    from w have "initialized vm1 = initialized vm" "vm_mod vm1 = vm_mod vm"
      by (auto simp: mem_write_def split: if_splits option.splits)
    with Cons.IH[OF r] show ?thesis by simp
  qed
qed

lemma alloc_memory_result:
  "alloc_memory al vm = Inr (err, vm') \<Longrightarrow>
     initialized vm' = initialized vm \<and> vm_mod vm' = vm_mod vm \<and>
     (err = RUNE_OK \<or> err = RUNE_ERR_BOUNDS \<or> err = RUNE_ERR_OOM)"
  by (auto simp: alloc_memory_def Let_def dest!: apply_data_segs_result split: if_splits)

lemma copy_globals_result:
  "copy_globals al vm = (err, vm') \<Longrightarrow>
     initialized vm' = initialized vm \<and> vm_mod vm' = vm_mod vm \<and>
     (err = RUNE_OK \<or> err = RUNE_ERR_OOM)"
  by (auto simp: copy_globals_def split: if_splits)

text \<open>
  Where an error of \<open>rune_vm_init\<close> leaves the flag. An unresolved import (\<open>NOIMPORT\<close>),
  the memory limit or a failed allocation (\<open>OOM\<close>) and a data segment (\<open>BOUNDS\<close>) leave
  \<open>initialized\<close> as it was, false for a new VM. Only an error raised while running
  \<open>_init\<close> is returned with \<open>initialized\<close> true: the flag is set before \<open>_init\<close> runs and
  is not reset. Host callbacks are taken to leave the flag alone.
\<close>

lemma init_failure_state:
  assumes "host_keeps env"
    and "rune_vm_init h fp env al g vm = Some (Returned err r vm')"
    and "err \<noteq> RUNE_OK"
  shows "if imports_satisfied vm \<and>
            (\<exists>vm1. alloc_memory al vm = Inr (RUNE_OK, vm1) \<and> fst (copy_globals al vm1) = RUNE_OK)
         then initialized vm' \<and> 0 \<le> sint (init_func (vm_mod vm))
         else initialized vm' = initialized vm \<and>
              (err = RUNE_ERR_NOIMPORT \<or> err = RUNE_ERR_OOM \<or> err = RUNE_ERR_BOUNDS)"
proof (cases "imports_satisfied vm")
  case False
  with assms(2) show ?thesis by (simp add: rune_vm_init_def)
next
  case imp: True
  show ?thesis
  proof (cases "alloc_memory al vm")
    case (Inl u)
    with imp assms(2) show ?thesis by (simp add: rune_vm_init_def)
  next
    case (Inr p)
    obtain e1 vm1 where p: "p = (e1, vm1)" by (cases p)
    note am = alloc_memory_result[OF Inr[unfolded p]]
    show ?thesis
    proof (cases "e1 = RUNE_OK")
      case False
      with imp Inr p assms(2) am show ?thesis by (auto simp: rune_vm_init_def)
    next
      case ok: True
      obtain e2 vm1a where cg: "copy_globals al vm1 = (e2, vm1a)" by (cases "copy_globals al vm1")
      note cr = copy_globals_result[OF cg]
      show ?thesis
      proof (cases "e2 = RUNE_OK")
        case False
        with imp Inr p ok cg assms(2) am cr show ?thesis by (auto simp: rune_vm_init_def)
      next
        case ok2: True
        let ?vm2 = "vm1a\<lparr>initialized := True\<rparr>"
        have m2: "vm_mod ?vm2 = vm_mod vm" using am cr by simp
        show ?thesis
        proof (cases "0 \<le> sint (init_func (vm_mod vm))")
          case False
          with imp Inr p ok cg ok2 assms(2,3) m2 show ?thesis
            by (simp add: rune_vm_init_def Let_def)
        next
          case True
          with imp Inr p ok cg ok2 assms(2) m2
          obtain r1 where "vm_exec h fp env g ?vm2 (init_func (vm_mod vm)) 0 [] =
                             Some (Returned err r1 vm')"
            by (auto simp: rune_vm_init_def Let_def split: option.splits exec_result.splits)
          from vm_exec_initialized[OF assms(1) this] have "initialized vm'" by simp
          with imp Inr p ok cg ok2 True show ?thesis by simp
        qed
      qed
    qed
  qed
qed

text \<open>
  A module whose \<open>_init\<close> is the single instruction \<open>TRAP\<close>.
\<close>

definition trap_mod :: rune_module where
  "trap_mod = find_init sample_h (empty_module
     \<lparr>m_types := [\<lparr>param_types = [], return_types = []\<rparr>],
      m_funcs := [\<lparr>type_idx = 0, reg_count = 4, local_count = 0,
                   code = ins OP_TRAP 0 0 0, is_import = False, import_idx = 0\<rparr>],
      m_exports := [\<lparr>exp_kind = 0, exp_idx = 0, exp_name = init_name\<rparr>]\<rparr>)"

lemma trap_mod_fields:
  "m_funcs trap_mod =
     [\<lparr>type_idx = 0, reg_count = 4, local_count = 0,
       code = ins OP_TRAP 0 0 0, is_import = False, import_idx = 0\<rparr>]"
  "m_imports trap_mod = []" "has_memory trap_mod = False" "m_globals trap_mod = []"
  "init_func trap_mod = 0"
  by (simp_all add: trap_mod_def find_init_def find_export_def empty_module_def init_name_def
        str_eq_def c_str_def sample_h_fields)

lemma trap_init_run:
  "observe (rune_vm_init sample_h sample_fp sample_env sample_heap 2 (rune_vm_new trap_mod None)) =
     Some (Inr (RUNE_ERR_TRAP, None, 0, True))"
  by (simp add: rune_vm_init_def imports_satisfied_def alloc_memory_def copy_globals_def sample_heap_def
        global_count_def rune_vm_new_def trap_mod_fields run_simps rune_config_default_def
        RUNE_CALL_DEPTH_def)

text \<open>A module whose data segment of two bytes starts at the last byte of its one page.\<close>

definition seg_mod :: rune_module where
  "seg_mod = empty_module
     \<lparr>mem_initial_pages := 1, mem_max_pages := 1, has_memory := True,
      m_data_segs := [\<lparr>seg_offset = 65535, seg_data = [1, 2]\<rparr>]\<rparr>"

text \<open>The data segment is refused with \<open>BOUNDS\<close>, and the VM stays uninitialised.\<close>

lemma seg_init_run:
  "observe (rune_vm_init sample_h sample_fp sample_env sample_heap 2 (rune_vm_new seg_mod None)) =
     Some (Inr (RUNE_ERR_BOUNDS, None, 0, False))"
  by (simp add: rune_vm_init_def imports_satisfied_def alloc_memory_def seg_mod_def
        empty_module_def rune_vm_new_def rune_config_default_def RUNE_PAGE_SIZE_def
        observe_def Let_def word_less_nat_alt sample_heap_def)

lemma observe_Returned:
  "observe res = Some (Inr (e, r, n, b)) \<Longrightarrow>
     \<exists>vm. res = Some (Returned e r vm) \<and> frame_count vm = n \<and> initialized vm = b"
  by (auto simp: observe_def split: option.splits exec_result.splits)

text \<open>
  C4. The claim: whenever \<open>rune_vm_init\<close> returns an error code, a trap raised while
  running \<open>_init\<close> included, the VM is left with \<open>initialized == false\<close>. A new VM for the
  module whose \<open>_init\<close> is \<open>TRAP\<close> is not initialised; \<open>rune_vm_init\<close> returns \<open>TRAP\<close>, and
  \<open>initialized\<close> is true afterwards: \<^verbatim>\<open>vm->initialized = true\<close> precedes the call of \<open>_init\<close>
  and the error return that follows does not reset it.
\<close>

theorem init_trap_stays_initialized:
  "\<not> initialized (rune_vm_new trap_mod None) \<and>
   observe (rune_vm_init sample_h sample_fp sample_env sample_heap 2 (rune_vm_new trap_mod None)) =
     Some (Inr (RUNE_ERR_TRAP, None, 0, True))"
  using trap_init_run by (simp add: rune_vm_new_def)

text \<open>The two runs as instances of the case distinction above.\<close>

lemma init_failure_state_example:
  "host_keeps sample_env \<and>
   (\<exists>vm'. rune_vm_init sample_h sample_fp sample_env sample_heap 2 (rune_vm_new trap_mod None) =
            Some (Returned RUNE_ERR_TRAP None vm') \<and>
          initialized vm' \<and> 0 \<le> sint (init_func (vm_mod (rune_vm_new trap_mod None)))) \<and>
   (\<exists>vm'. rune_vm_init sample_h sample_fp sample_env sample_heap 2 (rune_vm_new seg_mod None) =
            Some (Returned RUNE_ERR_BOUNDS None vm') \<and>
          initialized vm' = initialized (rune_vm_new seg_mod None))"
proof -
  have hk: "host_keeps sample_env" by (simp add: host_keeps_def sample_env_def)
  from observe_Returned[OF trap_init_run] obtain vm1 where
    r1: "rune_vm_init sample_h sample_fp sample_env sample_heap 2 (rune_vm_new trap_mod None) =
           Some (Returned RUNE_ERR_TRAP None vm1)" by blast
  have s1: "imports_satisfied (rune_vm_new trap_mod None) \<and>
            (\<exists>v. alloc_memory sample_heap (rune_vm_new trap_mod None) = Inr (RUNE_OK, v) \<and>
                 fst (copy_globals sample_heap v) = RUNE_OK)"
    by (simp add: imports_satisfied_def alloc_memory_def copy_globals_def global_count_def
          rune_vm_new_def trap_mod_fields)
  from init_failure_state[OF hk r1] s1
  have c1: "initialized vm1 \<and> 0 \<le> sint (init_func (vm_mod (rune_vm_new trap_mod None)))"
    by simp
  from observe_Returned[OF seg_init_run] obtain vm2 where
    r2: "rune_vm_init sample_h sample_fp sample_env sample_heap 2 (rune_vm_new seg_mod None) =
           Some (Returned RUNE_ERR_BOUNDS None vm2)" by blast
  have s2: "\<not> (\<exists>v. alloc_memory sample_heap (rune_vm_new seg_mod None) = Inr (RUNE_OK, v) \<and>
                 fst (copy_globals sample_heap v) = RUNE_OK)"
    by (simp add: alloc_memory_def seg_mod_def empty_module_def rune_vm_new_def
          rune_config_default_def RUNE_PAGE_SIZE_def Let_def word_less_nat_alt sample_heap_def)
  from init_failure_state[OF hk r2] s2
  have c2: "initialized vm2 = initialized (rune_vm_new seg_mod None)" by simp
  from hk r1 c1 r2 c2 show ?thesis by blast
qed

section \<open>What loading checks\<close>

text \<open>
  The tests that the section parsers make: the table sizes against their limits, the
  parameter and result counts of a type, and the word alignment of a code slice.
\<close>

definition sizes_checked :: "rune_bytecode_h \<Rightarrow> rune_module \<Rightarrow> bool" where
  "sizes_checked h m =
     (type_count m \<le> unat (RUNE_MAX_FUNCS h) \<and>
      import_count m \<le> unat (RUNE_MAX_FUNCS h) \<and>
      func_count m \<le> unat (RUNE_MAX_FUNCS h) \<and>
      global_count m \<le> unat (RUNE_MAX_GLOBALS h) \<and>
      export_count m \<le> 65536 \<and>
      length (m_data_segs m) \<le> 4096 \<and>
      (\<forall>t\<in>set (m_types m).
         length (param_types t) \<le> RUNE_MAX_PARAMS \<and> length (return_types t) \<le> 1) \<and>
      (\<forall>f\<in>set (m_funcs m). length (code f) mod 4 = 0))"

lemma read_u8s_length: "read_u8s n r = (bs, r1) \<Longrightarrow> length bs = n"
  by (induction n arbitrary: r bs r1) (auto split: prod.splits)

lemma read_bytes_length: "read_bytes r n = (Some bs, r1) \<Longrightarrow> length bs = n"
  by (auto simp: read_bytes_def split: if_splits)

lemma in_set_updateD: "x \<in> set (xs[i := y]) \<Longrightarrow> x = y \<or> x \<in> set xs"
  using set_update_subset_insert[of xs i y] by auto

lemma sizes_checked_empty: "sizes_checked h empty_module"
  by (simp add: sizes_checked_def empty_module_def type_count_def import_count_def
        func_count_def global_count_def export_count_def)

lemma sizes_checked_find_init: "sizes_checked h (find_init h m) = sizes_checked h m"
  by (simp add: sizes_checked_def find_init_def type_count_def import_count_def
        func_count_def global_count_def export_count_def split: option.splits)

lemma parse_type_section_sizes:
  assumes "parse_type_section h (m, r) = Inr (m1, r1)" and "sizes_checked h m"
  shows "sizes_checked h m1"
proof -
  obtain count ra where rd: "read_u32 r = (count, ra)" by (cases "read_u32 r")
  let ?f = "\<lambda>i (m1, ra).
                  case read_u8 ra of (pc, rb) \<Rightarrow>
                  case read_u8 rb of (rc, rc1) \<Rightarrow>
                    if r_error rc1 \<or> unat pc > RUNE_MAX_PARAMS \<or> rc > 1
                    then Inl (Fail RUNE_ERR_BADMODULE)
                    else case read_u8s (unat pc) rc1 of (ps, rd) \<Rightarrow>
                         case read_u8s (unat rc) rd of (rs, re) \<Rightarrow>
                           if r_error re then Inl (Fail RUNE_ERR_BADMODULE)
                           else Inr (m1\<lparr>m_types := (m_types m1)
                                       [i := \<lparr>param_types = ps, return_types = rs\<rparr>]\<rparr>, re)"
  from assms(1) rd have le: "count \<le> RUNE_MAX_FUNCS h"
    and fe: "for_each [0..<unat count] ?f (m\<lparr>m_types := replicate (unat count) empty_type\<rparr>, ra)
               = Inr (m1, r1)"
    by (auto simp: parse_type_section_def split: if_splits)
  have "(\<lambda>(mm, rr). sizes_checked h mm) (m1, r1)"
  proof (rule for_each_inv[OF fe], goal_cases)
    case 1
    from assms(2) le show ?case
      by (simp add: sizes_checked_def type_count_def import_count_def func_count_def
            global_count_def export_count_def empty_type_def word_le_nat_alt)
  next
    case (2 i t t1)
    obtain ma rx where t: "t = (ma, rx)" by (cases t)
    obtain mb ry where t1: "t1 = (mb, ry)" by (cases t1)
    from 2(2) t t1 obtain ps rs where
      mb: "mb = ma\<lparr>m_types := (m_types ma)[i := \<lparr>param_types = ps, return_types = rs\<rparr>]\<rparr>"
      and l: "length ps \<le> RUNE_MAX_PARAMS" "length rs \<le> 1"
      by (auto simp: word_le_nat_alt word_less_nat_alt split: prod.splits if_splits
            dest!: read_u8s_length)
    from 2(1) t have "sizes_checked h ma" by simp
    with mb l have "sizes_checked h mb"
      by (auto simp: sizes_checked_def type_count_def import_count_def func_count_def
            global_count_def export_count_def dest!: in_set_updateD)
    with t1 show ?case by simp
  qed
  then show ?thesis by simp
qed

lemmas sizes_simps = sizes_checked_def type_count_def import_count_def func_count_def
  global_count_def export_count_def

lemma for_each_sizes:
  assumes "for_each xs f (m, r) = Inr (m1, r1)"
    and "sizes_checked h m"
    and "\<And>i ma ra mb rb. sizes_checked h ma \<Longrightarrow> f i (ma, ra) = Inr (mb, rb) \<Longrightarrow>
           sizes_checked h mb"
  shows "sizes_checked h m1"
proof -
  have "(\<lambda>(mm, rr). sizes_checked h mm) (m1, r1)"
    by (rule for_each_inv[OF assms(1)]) (use assms(2,3) in auto)
  then show ?thesis by simp
qed

lemma word_mod_4: "(w :: u32) mod 4 = 0 \<Longrightarrow> unat w mod 4 = 0"
proof -
  assume "w mod 4 = 0"
  then have "unat (w mod 4) = 0" by simp
  then show ?thesis by (simp add: unat_mod)
qed

lemma parse_import_section_sizes:
  assumes "parse_import_section h (m, r) = Inr (m1, r1)" and "sizes_checked h m"
  shows "sizes_checked h m1"
  using assms(1) unfolding parse_import_section_def
  apply (clarsimp split: prod.splits if_splits)
  apply (erule for_each_sizes)
  using assms(2) apply (simp add: sizes_simps word_le_nat_alt word_less_nat_alt)
  apply (auto simp: sizes_simps split: prod.splits if_splits)
  done

lemma parse_global_section_sizes:
  assumes "parse_global_section h (m, r) = Inr (m1, r1)" and "sizes_checked h m"
  shows "sizes_checked h m1"
  using assms(1) unfolding parse_global_section_def
  apply (clarsimp split: prod.splits if_splits)
  apply (erule for_each_sizes)
  using assms(2) apply (simp add: sizes_simps word_le_nat_alt word_less_nat_alt)
  apply (auto simp: sizes_simps split: prod.splits if_splits option.splits)
  done

lemma parse_export_section_sizes:
  assumes "parse_export_section h (m, r) = Inr (m1, r1)" and "sizes_checked h m"
  shows "sizes_checked h m1"
  using assms(1) unfolding parse_export_section_def
  apply (clarsimp split: prod.splits if_splits)
  apply (erule for_each_sizes)
  using assms(2) apply (simp add: sizes_simps word_le_nat_alt word_less_nat_alt)
  apply (auto simp: sizes_simps split: prod.splits if_splits)
  done

lemma parse_data_section_sizes:
  assumes "parse_data_section h (m, r) = Inr (m1, r1)" and "sizes_checked h m"
  shows "sizes_checked h m1"
  using assms(1) unfolding parse_data_section_def
  apply (clarsimp split: prod.splits if_splits)
  apply (erule for_each_sizes)
  using assms(2) apply (simp add: sizes_simps word_le_nat_alt word_less_nat_alt)
  apply (auto simp: sizes_simps split: prod.splits if_splits option.splits)
  done

lemma parse_memory_section_sizes:
  assumes "parse_memory_section h (m, r) = Inr (m1, r1)" and "sizes_checked h m"
  shows "sizes_checked h m1"
  using assms unfolding parse_memory_section_def
  by (auto simp: sizes_simps split: prod.splits if_splits)

lemma parse_code_section_sizes:
  assumes "parse_code_section h (m, r) = Inr (m1, r1)" and "sizes_checked h m"
  shows "sizes_checked h m1"
  using assms(1) unfolding parse_code_section_def
  apply (clarsimp simp: Let_def split: prod.splits if_splits)
  apply (erule for_each_sizes)
  using assms(2) apply simp
  apply (auto simp: sizes_simps split: prod.splits if_splits option.splits
      dest!: in_set_updateD read_bytes_length word_mod_4)
  done

lemma parse_func_section_sizes:
  assumes "parse_func_section h (m, r) = Inr (m1, r1)" and "sizes_checked h m"
  shows "sizes_checked h m1"
proof -
  obtain body_count ra where rd: "read_u32 r = (body_count, ra)" by (cases "read_u32 r")
  let ?total = "of_nat (import_count m) + body_count :: u32"
  let ?f = "\<lambda>i m1.
                       if i \<ge> length (m_funcs m1) then Inl (Crash UB_MODULE_INDEX)
                       else Inr (m1\<lparr>m_funcs := (m_funcs m1)
                                   [i := (m_funcs m1 ! i)
                                      \<lparr>is_import := True, import_idx := of_nat i,
                                       type_idx := imp_type_idx (m_imports m1 ! i)\<rparr>]\<rparr>)"
  from assms(1) rd obtain m2 where le: "?total \<le> RUNE_MAX_FUNCS h"
    and f1: "for_each [0..<import_count m] ?f (m\<lparr>m_funcs := replicate (unat ?total) empty_func\<rparr>)
               = Inr m2"
    and f2: "for_each [0..<unat body_count]
                   (\<lambda>i (m3, ra).
                      if import_count m3 + i \<ge> length (m_funcs m3) then Inl (Crash UB_MODULE_INDEX)
                      else case read_u16 ra of (t, rb) \<Rightarrow>
                           case read_u8 rb of (rc, rc1) \<Rightarrow>
                           case read_u8 rc1 of (lc, rd) \<Rightarrow>
                             if r_error rd then Inl (Fail RUNE_ERR_BADMODULE)
                             else Inr (m3\<lparr>m_funcs := (m_funcs m3)
                                         [import_count m3 + i :=
                                            (m_funcs m3 ! (import_count m3 + i))
                                              \<lparr>type_idx := t, reg_count := rc,
                                               local_count := lc\<rparr>]\<rparr>, rd))
                   (m2, ra) = Inr (m1, r1)"
    by (auto simp: parse_func_section_def Let_def split: if_splits sum.splits)
  have "sizes_checked h m2"
  proof (rule for_each_inv[OF f1], goal_cases)
    case 1
    from assms(2) le show ?case by (simp add: sizes_simps word_le_nat_alt empty_func_def)
  next
    case (2 i t t1)
    then show ?case
      by (auto simp: sizes_simps split: if_splits dest!: in_set_updateD)
  qed
  show ?thesis
    by (rule for_each_sizes[OF f2 \<open>sizes_checked h m2\<close>])
       (auto simp: sizes_simps split: prod.splits if_splits dest!: in_set_updateD)
qed

lemma parse_section_sizes:
  "parse_section h sid sz (m, r) = Inr (m1, r1) \<Longrightarrow> sizes_checked h m \<Longrightarrow> sizes_checked h m1"
  unfolding parse_section_def
  by (auto split: if_splits
           dest: parse_type_section_sizes parse_import_section_sizes parse_func_section_sizes
                 parse_memory_section_sizes parse_global_section_sizes parse_export_section_sizes
                 parse_code_section_sizes parse_data_section_sizes)

lemma load_sections_sizes:
  "load_sections h (m, r) = Inr m' \<Longrightarrow> sizes_checked h m \<Longrightarrow> sizes_checked h m'"
proof (induction h "(m, r)" arbitrary: m r rule: load_sections.induct)
  case (1 h m r)
  show ?case
  proof (cases "\<not> r_error r \<and> r_pos r < length (r_base r)")
    case False
    with "1.prems" show ?thesis by (auto split: if_splits)
  next
    case True
    obtain sid ra where a: "read_u8 r = (sid, ra)" by (cases "read_u8 r")
    obtain sz rb where b: "read_u32 ra = (sz, rb)" by (cases "read_u32 ra")
    from "1.prems"(1) True a b obtain m1 rc where ne: "\<not> r_error rb"
      and p: "parse_section h sid sz (m, rb) = Inr (m1, rc)"
      and l: "load_sections h (m1, skip_remainder (r_pos rb) sz rc) = Inr m'"
      by (auto split: if_splits sum.splits)
    from parse_section_sizes[OF p "1.prems"(2)] have "sizes_checked h m1" .
    from "1.hyps"[OF True a[symmetric] b[symmetric] ne p refl l this] show ?thesis .
  qed
qed

lemma crc32_byte_unfold:
  "crc32_byte b crc =
     crc32_bit (crc32_bit (crc32_bit (crc32_bit (crc32_bit (crc32_bit (crc32_bit (crc32_bit
       (crc XOR ucast b))))))))"
  by (simp add: crc32_byte_def eval_nat_numeral)

text \<open>
  A container with a function section and an export section only: one function of type
  index 5, and the export \<open>f\<close> of function index 9. There is no type section.
\<close>

definition bad_payload :: "u8 list" where
  "bad_payload =
     [0x03, 0x08, 0x00, 0x00, 0x00, 0x01, 0x00, 0x00, 0x00, 0x05, 0x00, 0x04,
      0x00, 0x06, 0x0B, 0x00, 0x00, 0x00, 0x01, 0x00, 0x00, 0x00, 0x00, 0x09,
      0x00, 0x00, 0x00, 0x01, 0x66]"

definition bad_raw :: "u8 list" where
  "bad_raw =
     [0x52, 0x55, 0x4E, 0x45, 0x01, 0x00, 0x00, 0x00, 0x00, 0x00, 0x00, 0x00,
      0x00, 0x00, 0x00, 0x00, 0xA2, 0x90, 0xDA, 0xD4] @ bad_payload"

definition bad_mod :: rune_module where
  "bad_mod = empty_module
     \<lparr>m_funcs := [\<lparr>type_idx = 5, reg_count = 4, local_count = 0, code = [],
                   is_import = False, import_idx = 0\<rparr>],
      m_exports := [\<lparr>exp_kind = 0, exp_idx = 9, exp_name = f_name\<rparr>]\<rparr>"

text \<open>
  A well-formed container: the type \<open>() \<rightarrow> i32\<close>, one function of that type with the body
  \<open>RET\<close>, exported as \<open>f\<close>.
\<close>

definition good_payload :: "u8 list" where
  "good_payload =
     [0x01, 0x07, 0x00, 0x00, 0x00, 0x01, 0x00, 0x00, 0x00, 0x00, 0x01, 0x01,
      0x03, 0x08, 0x00, 0x00, 0x00, 0x01, 0x00, 0x00, 0x00, 0x00, 0x00, 0x04,
      0x00, 0x06, 0x0B, 0x00, 0x00, 0x00, 0x01, 0x00, 0x00, 0x00, 0x00, 0x00,
      0x00, 0x00, 0x00, 0x01, 0x66, 0x07, 0x0C, 0x00, 0x00, 0x00, 0x01, 0x00,
      0x00, 0x00, 0x04, 0x00, 0x00, 0x00, 0x02, 0x00, 0x00, 0x00]"

definition good_raw :: "u8 list" where
  "good_raw =
     [0x52, 0x55, 0x4E, 0x45, 0x01, 0x00, 0x00, 0x00, 0x00, 0x00, 0x00, 0x00,
      0x00, 0x00, 0x00, 0x00, 0x96, 0x49, 0xFE, 0x80] @ good_payload"

definition good_mod :: rune_module where
  "good_mod = empty_module
     \<lparr>m_types := [\<lparr>param_types = [], return_types = [1]\<rparr>],
      m_funcs := [\<lparr>type_idx = 0, reg_count = 4, local_count = 0, code = [2, 0, 0, 0],
                   is_import = False, import_idx = 0\<rparr>],
      m_exports := [\<lparr>exp_kind = 0, exp_idx = 0, exp_name = f_name\<rparr>]\<rparr>"

lemma bad_payload_nth:
  "bad_payload ! 0 = 3" "bad_payload ! 1 = 8" "bad_payload ! 2 = 0" "bad_payload ! 3 = 0"
  "bad_payload ! 4 = 0" "bad_payload ! 5 = 1" "bad_payload ! 6 = 0" "bad_payload ! 7 = 0"
  "bad_payload ! 8 = 0" "bad_payload ! 9 = 5" "bad_payload ! 10 = 0" "bad_payload ! 11 = 4"
  "bad_payload ! 12 = 0" "bad_payload ! 13 = 6" "bad_payload ! 14 = 11" "bad_payload ! 15 = 0"
  "bad_payload ! 16 = 0" "bad_payload ! 17 = 0" "bad_payload ! 18 = 1" "bad_payload ! 19 = 0"
  "bad_payload ! 20 = 0" "bad_payload ! 21 = 0" "bad_payload ! 22 = 0" "bad_payload ! 23 = 9"
  "bad_payload ! 24 = 0" "bad_payload ! 25 = 0" "bad_payload ! 26 = 0" "bad_payload ! 27 = 1"
  "bad_payload ! 28 = 102" "bad_payload ! Suc 0 = 8" "length bad_payload = 29"
  by (simp_all add: bad_payload_def)

lemma bad_payload_slices:
  "take 1 (drop 28 bad_payload) = [102]" "take (Suc 0) (drop 28 bad_payload) = [102]"
  "drop 28 bad_payload = [102]"
  by (simp_all add: bad_payload_def)

lemma good_payload_nth:
  "good_payload ! 0 = 1" "good_payload ! 1 = 7" "good_payload ! 2 = 0" "good_payload ! 3 = 0"
  "good_payload ! 4 = 0" "good_payload ! 5 = 1" "good_payload ! 6 = 0" "good_payload ! 7 = 0"
  "good_payload ! 8 = 0" "good_payload ! 9 = 0" "good_payload ! 10 = 1"
  "good_payload ! 11 = 1" "good_payload ! 12 = 3" "good_payload ! 13 = 8"
  "good_payload ! 14 = 0" "good_payload ! 15 = 0" "good_payload ! 16 = 0"
  "good_payload ! 17 = 1" "good_payload ! 18 = 0" "good_payload ! 19 = 0"
  "good_payload ! 20 = 0" "good_payload ! 21 = 0" "good_payload ! 22 = 0"
  "good_payload ! 23 = 4" "good_payload ! 24 = 0" "good_payload ! 25 = 6"
  "good_payload ! 26 = 11" "good_payload ! 27 = 0" "good_payload ! 28 = 0"
  "good_payload ! 29 = 0" "good_payload ! 30 = 1" "good_payload ! 31 = 0"
  "good_payload ! 32 = 0" "good_payload ! 33 = 0" "good_payload ! 34 = 0"
  "good_payload ! 35 = 0" "good_payload ! 36 = 0" "good_payload ! 37 = 0"
  "good_payload ! 38 = 0" "good_payload ! 39 = 1" "good_payload ! 40 = 102"
  "good_payload ! 41 = 7" "good_payload ! 42 = 12" "good_payload ! 43 = 0"
  "good_payload ! 44 = 0" "good_payload ! 45 = 0" "good_payload ! 46 = 1"
  "good_payload ! 47 = 0" "good_payload ! 48 = 0" "good_payload ! 49 = 0"
  "good_payload ! 50 = 4" "good_payload ! 51 = 0" "good_payload ! 52 = 0"
  "good_payload ! 53 = 0" "good_payload ! 54 = 2" "good_payload ! 55 = 0"
  "good_payload ! 56 = 0" "good_payload ! 57 = 0" "good_payload ! Suc 0 = 7"
  "length good_payload = 58"
  by (simp_all add: good_payload_def)

lemma good_payload_slices:
  "take 1 (drop 40 good_payload) = [102]" "take (Suc 0) (drop 40 good_payload) = [102]"
  "take 4 (drop 54 good_payload) = [2, 0, 0, 0]" "drop 54 good_payload = [2, 0, 0, 0]"
  by (simp_all add: good_payload_def)

lemma payload_crc:
  "crc32_update 0 bad_payload = 0xD4DA90A2" "crc32_update 0 good_payload = 0x80FE4996"
  by (simp_all add: bad_payload_def good_payload_def crc32_update_def crc32_byte_unfold
        crc32_bit_def)

lemma raw_header:
  "length bad_raw = 49" "drop 20 bad_raw = bad_payload"
  "take 4 bad_raw = [0x52, 0x55, 0x4E, 0x45]"
  "hdr_version bad_raw = 1" "hdr_crc32 bad_raw = 0xD4DA90A2"
  "length good_raw = 78" "drop 20 good_raw = good_payload"
  "take 4 good_raw = [0x52, 0x55, 0x4E, 0x45]"
  "hdr_version good_raw = 1" "hdr_crc32 good_raw = 0x80FE4996"
  by (simp_all add: bad_raw_def good_raw_def bad_payload_nth good_payload_nth
        hdr_version_def hdr_crc32_def)

lemma read_u8s_numeral:
  "read_u8s (numeral n) r =
     (case read_u8 r of (b, r1) \<Rightarrow> case read_u8s (pred_numeral n) r1 of (bs, r2) \<Rightarrow> (b # bs, r2))"
  by (simp add: numeral_eq_Suc)

lemma read_u8_at:
  "read_u8 \<lparr>r_base = b, r_pos = 0, r_error = e\<rparr> =
     (if length b \<le> 0 then (0, \<lparr>r_base = b, r_pos = 0, r_error = True\<rparr>)
      else (b ! 0, \<lparr>r_base = b, r_pos = Suc 0, r_error = e\<rparr>))"
  "read_u8 \<lparr>r_base = b, r_pos = Suc 0, r_error = e\<rparr> =
     (if length b \<le> Suc 0 then (0, \<lparr>r_base = b, r_pos = Suc 0, r_error = True\<rparr>)
      else (b ! Suc 0, \<lparr>r_base = b, r_pos = 2, r_error = e\<rparr>))"
  "read_u8 \<lparr>r_base = b, r_pos = numeral k, r_error = e\<rparr> =
     (if length b \<le> numeral k then (0, \<lparr>r_base = b, r_pos = numeral k, r_error = True\<rparr>)
      else (b ! numeral k, \<lparr>r_base = b, r_pos = numeral (Num.inc k), r_error = e\<rparr>))"
  by (simp_all add: read_u8_def add_One)

lemmas load_simps =
  load_sections.simps parse_section_def parse_type_section_def parse_import_section_def
  parse_func_section_def parse_memory_section_def parse_global_section_def
  parse_export_section_def parse_code_section_def parse_data_section_def
  read_u8_at read_u16_def read_u32_def read_u64_def read_bytes_def read_string_def
  read_u8s_numeral
  skip_remainder_def reader_init_def sample_h_fields
  empty_module_def empty_type_def empty_import_def empty_func_def empty_global_def
  empty_export_def empty_seg_def str_or_null_def import_count_def func_count_def
  Let_def word_le_nat_alt word_less_nat_alt nth_list_update

lemma bad_sections:
  "load_sections sample_h (empty_module, reader_init bad_payload) = Inr bad_mod"
  by (simp add: load_simps bad_payload_nth bad_payload_slices bad_mod_def f_name_def)

lemma good_sections:
  "load_sections sample_h (empty_module, reader_init good_payload) = Inr good_mod"
  by (simp add: load_simps good_payload_nth good_payload_slices good_mod_def f_name_def)

lemma no_init_export:
  "find_init sample_h bad_mod = bad_mod" "find_init sample_h good_mod = good_mod"
  by (simp_all add: find_init_def find_export_def bad_mod_def good_mod_def empty_module_def
        init_name_def f_name_def str_eq_def c_str_def sample_h_fields)

lemma bad_raw_loads: "rune_module_load sample_h bad_raw = Inr bad_mod"
  by (simp add: rune_module_load_def raw_header payload_crc bad_sections no_init_export
        sample_h_fields RUNE_HEADER_SIZE_def RUNE_MAGIC_LEN_def del: load_sections.simps)

lemma good_raw_loads: "rune_module_load sample_h good_raw = Inr good_mod"
  by (simp add: rune_module_load_def raw_header payload_crc good_sections no_init_export
        sample_h_fields RUNE_HEADER_SIZE_def RUNE_MAGIC_LEN_def del: load_sections.simps)

text \<open>
  C5, as the source has it. When \<open>rune_module_load\<close> succeeds, the table sizes are within
  their limits (types, imports and functions at most \<open>RUNE_MAX_FUNCS\<close>, globals at most
  \<open>RUNE_MAX_GLOBALS\<close>, exports at most 65536, data segments at most 4096), every type has
  at most \<open>RUNE_MAX_PARAMS\<close> parameters and at most one result, and every code slice is a
  whole number of 4-byte words. These are the tests the section parsers make; no type
  index and no export index is among them.
\<close>

theorem loaded_module_sizes:
  assumes "rune_module_load h raw = Inr m"
  shows "type_count m \<le> unat (RUNE_MAX_FUNCS h) \<and>
         import_count m \<le> unat (RUNE_MAX_FUNCS h) \<and>
         func_count m \<le> unat (RUNE_MAX_FUNCS h) \<and>
         global_count m \<le> unat (RUNE_MAX_GLOBALS h) \<and>
         export_count m \<le> 65536 \<and>
         length (m_data_segs m) \<le> 4096 \<and>
         (\<forall>t\<in>set (m_types m).
            length (param_types t) \<le> RUNE_MAX_PARAMS \<and> length (return_types t) \<le> 1) \<and>
         (\<forall>f\<in>set (m_funcs m). length (code f) mod 4 = 0)"
proof -
  from assms obtain m0 where
    l: "load_sections h (empty_module, reader_init (drop RUNE_HEADER_SIZE raw)) = Inr m0"
    and m: "m = find_init h m0"
    by (auto simp: rune_module_load_def split: if_splits sum.splits)
  from load_sections_sizes[OF l sizes_checked_empty] have "sizes_checked h m0" .
  with m have "sizes_checked h m" by (simp add: sizes_checked_find_init)
  then show ?thesis unfolding sizes_checked_def .
qed

text \<open>
  C5, the claim as written: the container \<open>bad_raw\<close> is loaded without error. Its function
  0 has type index 5 although the module has no type, and its export \<open>f\<close> is a function
  export of index 9 although the module has one function.
\<close>

theorem unchecked_indices_load:
  "rune_module_load sample_h bad_raw = Inr bad_mod \<and>
   type_count bad_mod = 0 \<and> func_count bad_mod = 1 \<and>
   type_idx (m_funcs bad_mod ! 0) = 5 \<and>
   exp_kind (m_exports bad_mod ! 0) = RUNE_EXPORT_FUNC sample_h \<and>
   exp_idx (m_exports bad_mod ! 0) = 9"
proof -
  have "type_count bad_mod = 0 \<and> func_count bad_mod = 1 \<and>
   type_idx (m_funcs bad_mod ! 0) = 5 \<and>
   exp_kind (m_exports bad_mod ! 0) = RUNE_EXPORT_FUNC sample_h \<and>
   exp_idx (m_exports bad_mod ! 0) = 9"
    by (simp add: bad_mod_def empty_module_def type_count_def func_count_def sample_h_fields)
  with bad_raw_loads show ?thesis by simp
qed

text \<open>Calling that export reaches the lookup of function 9 in a table of one.\<close>

lemma unchecked_export_call:
  "observe (rune_vm_call sample_h sample_fp sample_env 1
              ((rune_vm_new bad_mod None)\<lparr>initialized := True\<rparr>) f_name 0 []) =
     Some (Inl UB_FUNC_INDEX)"
  by (simp add: run_simps bad_mod_def empty_module_def rune_vm_new_def f_name_def
        rune_config_default_def RUNE_CALL_DEPTH_def)

theorem loaded_module_sizes_witness:
  "rune_module_load sample_h good_raw = Inr good_mod \<and>
   type_count good_mod \<le> unat (RUNE_MAX_FUNCS sample_h) \<and>
   import_count good_mod \<le> unat (RUNE_MAX_FUNCS sample_h) \<and>
   func_count good_mod \<le> unat (RUNE_MAX_FUNCS sample_h) \<and>
   global_count good_mod \<le> unat (RUNE_MAX_GLOBALS sample_h) \<and>
   export_count good_mod \<le> 65536 \<and>
   length (m_data_segs good_mod) \<le> 4096 \<and>
   length (param_types (m_types good_mod ! 0)) \<le> RUNE_MAX_PARAMS \<and>
   length (return_types (m_types good_mod ! 0)) \<le> 1 \<and>
   length (code (m_funcs good_mod ! 0)) mod 4 = 0"
proof -
  have s: "set (m_types good_mod) = {m_types good_mod ! 0}"
    "set (m_funcs good_mod) = {m_funcs good_mod ! 0}"
    by (simp_all add: good_mod_def empty_module_def)
  from loaded_module_sizes[OF good_raw_loads] good_raw_loads show ?thesis
    unfolding s by simp
qed

end
